(* ===== verification/Sox_Prelude.thy ===== *)
theory Sox_Prelude
  imports Complex_Main "HOL-Library.AList"
begin

text \<open>
  Shared vocabulary of the development: the exceptions of the Python sources as a
  datatype, the two result shapes every modelled function uses (a pure fallible value
  \<open>exn + 'a\<close>, and an effectful computation \<open>'a io\<close> that also returns the events it
  emitted, in order), the combinators that sequence them the way Python statements
  and \<open>try\<close>/\<open>except\<close> do, and the generic list facts the component theories share.
  The collection \<open>io_defs\<close> unfolds the combinators; \<open>io_simps\<close> holds their laws.
\<close>

section \<open>Collections\<close>

named_theorems io_defs "definitions of the io combinators"
named_theorems io_simps "laws of the io combinators"
named_theorems py_defs "definitions of the modelled Python primitives"

section \<open>Exceptions and results\<close>

text \<open>
  One constructor per exception class the sources raise or let escape. \<open>IOError\<close> is
  an alias of \<open>OSError\<close> in Python 3 and \<open>FileNotFoundError\<close> a subclass caught by
  \<open>except OSError\<close>, so all three are \<open>OSError\<close> here. \<open>UnicodeDecodeError\<close> is a
  subclass of \<open>ValueError\<close>; no handler of the sources catches either, so they are
  kept apart. \<open>CalledProcessError\<close> carries the exit code and the captured output,
  \<open>SoxiError\<close> the exit code that its message reports. \<open>OverflowError\<close> is what
  \<open>float\<close> raises for an integer too large for a double. \<open>Hang\<close> is no exception:
  it is the outcome of a call that never returns, which no handler can catch.
\<close>

datatype exn =
    IndexError
  | KeyError
  | ValueError
  | TypeError
  | AttributeError
  | OSError
  | UnicodeDecodeError
  | OverflowError
  | CalledProcessError int string
  | SoxiError int
  | Hang

abbreviation IOError :: exn where
  "IOError \<equiv> OSError"

type_synonym 'a result = "exn + 'a"

type_synonym bytes = string

datatype level = DEBUG | INFO | WARNING | ERROR

text \<open>
  What a call does to the outside world, in the order it does it: a process launch
  (the argument vector and what is written to its standard input, \<open>None\<close> when no
  pipe is attached), or a log record (level and message).
\<close>

datatype 'm event = Spawn "string list" "bytes option" | Log level 'm

type_synonym ('m, 'a) io = "'a result \<times> 'm event list"

section \<open>Sequencing\<close>

definition return_io :: "'a \<Rightarrow> ('m, 'a) io" where
  "return_io x = (Inr x, [])"

definition raise_io :: "exn \<Rightarrow> ('m, 'a) io" where
  "raise_io e = (Inl e, [])"

definition lift_io :: "'a result \<Rightarrow> ('m, 'a) io" where
  "lift_io r = (r, [])"

definition emit :: "'m event \<Rightarrow> ('m, unit) io" where
  "emit ev = (Inr (), [ev])"

definition bind_io :: "('m, 'a) io \<Rightarrow> ('a \<Rightarrow> ('m, 'b) io) \<Rightarrow> ('m, 'b) io" where
  "bind_io m f =
     (case fst m of
        Inl e \<Rightarrow> (Inl e, snd m)
      | Inr x \<Rightarrow> (fst (f x), snd m @ snd (f x)))"

definition then_io :: "('m, 'a) io \<Rightarrow> ('m, 'b) io \<Rightarrow> ('m, 'b) io" where
  "then_io m k = bind_io m (\<lambda>_. k)"

text \<open>
  \<open>try: m except ...: h\<close>. The handler \<open>h\<close> answers \<open>Some k\<close> for an exception that
  one of the \<open>except\<close> clauses names, and \<open>k\<close> then runs after the events \<open>m\<close> emitted
  before it raised; it answers \<open>None\<close> for any other exception, which escapes.
\<close>

definition catch_io :: "('m, 'a) io \<Rightarrow> (exn \<Rightarrow> ('m, 'a) io option) \<Rightarrow> ('m, 'a) io" where
  "catch_io m h =
     (case fst m of
        Inl e \<Rightarrow> (case h e of None \<Rightarrow> m | Some k \<Rightarrow> (fst k, snd m @ snd k))
      | Inr x \<Rightarrow> m)"

text \<open>A \<open>for\<close> loop whose body may raise: stops at the first exception.\<close>

primrec for_io :: "'a list \<Rightarrow> ('a \<Rightarrow> ('m, unit) io) \<Rightarrow> ('m, unit) io" where
  "for_io [] f = return_io ()"
| "for_io (x # xs) f = then_io (f x) (for_io xs f)"

definition bind_result :: "'a result \<Rightarrow> ('a \<Rightarrow> 'b result) \<Rightarrow> 'b result" where
  "bind_result r f = (case r of Inl e \<Rightarrow> Inl e | Inr x \<Rightarrow> f x)"

definition of_option :: "exn \<Rightarrow> 'a option \<Rightarrow> 'a result" where
  "of_option e x = (case x of None \<Rightarrow> Inl e | Some v \<Rightarrow> Inr v)"

text \<open>Observations on a finished computation.\<close>

definition result_of :: "('m, 'a) io \<Rightarrow> 'a result" where
  "result_of m = fst m"

definition events_of :: "('m, 'a) io \<Rightarrow> 'm event list" where
  "events_of m = snd m"

primrec is_spawn :: "'m event \<Rightarrow> bool" where
  "is_spawn (Spawn argv stdin) = True"
| "is_spawn (Log l m) = False"

definition spawns :: "('m, 'a) io \<Rightarrow> 'm event list" where
  "spawns m = filter is_spawn (events_of m)"

lemmas [io_defs] =
  return_io_def raise_io_def lift_io_def emit_def bind_io_def then_io_def catch_io_def
  result_of_def events_of_def spawns_def

section \<open>Laws of the combinators\<close>

lemma bind_return [io_simps, simp]: "bind_io (return_io x) f = f x"
  by (simp add: io_defs)

lemma bind_raise [io_simps, simp]: "bind_io (raise_io e) f = raise_io e"
  by (simp add: io_defs)

lemma bind_lift_Inr [io_simps, simp]: "bind_io (lift_io (Inr x)) f = f x"
  by (simp add: io_defs)

lemma bind_lift_Inl [io_simps, simp]: "bind_io (lift_io (Inl e)) f = raise_io e"
  by (simp add: io_defs)

lemma bind_io_return_right [io_simps, simp]: "bind_io m return_io = m"
  by (cases m) (simp add: io_defs split: sum.splits)

lemma bind_io_assoc [io_simps]:
  "bind_io (bind_io m f) g = bind_io m (\<lambda>x. bind_io (f x) g)"
  by (cases m) (simp add: io_defs split: sum.splits)

lemma then_return [io_simps, simp]: "then_io (return_io x) k = k"
  by (simp add: then_io_def)

lemma then_raise [io_simps, simp]: "then_io (raise_io e) k = raise_io e"
  by (simp add: then_io_def)

lemma result_of_simps [io_simps, simp]:
  "result_of (return_io x) = Inr x"
  "result_of (raise_io e) = Inl e"
  "result_of (lift_io r) = r"
  "result_of (emit ev) = Inr ()"
  "result_of (r, tr) = r"
  by (simp_all add: io_defs)

lemma events_of_simps [io_simps, simp]:
  "events_of (return_io x) = []"
  "events_of (raise_io e) = []"
  "events_of (lift_io r) = []"
  "events_of (emit ev) = [ev]"
  "events_of (r, tr) = tr"
  by (simp_all add: io_defs)

lemma result_of_bind [io_simps]:
  "result_of (bind_io m f) =
     (case result_of m of Inl e \<Rightarrow> Inl e | Inr x \<Rightarrow> result_of (f x))"
  by (simp add: io_defs split: sum.splits)

lemma events_of_bind [io_simps]:
  "events_of (bind_io m f) =
     (case result_of m of Inl e \<Rightarrow> events_of m | Inr x \<Rightarrow> events_of m @ events_of (f x))"
  by (simp add: io_defs split: sum.splits)

lemma result_of_then [io_simps]:
  "result_of (then_io m k) = (case result_of m of Inl e \<Rightarrow> Inl e | Inr x \<Rightarrow> result_of k)"
  by (simp add: then_io_def result_of_bind)

lemma events_of_then [io_simps]:
  "events_of (then_io m k) =
     (case result_of m of Inl e \<Rightarrow> events_of m | Inr x \<Rightarrow> events_of m @ events_of k)"
  by (simp add: then_io_def events_of_bind)

lemma then_emit [io_simps]:
  "then_io (emit ev) k = (result_of k, ev # events_of k)"
  by (simp add: io_defs)

lemma result_of_catch [io_simps]:
  "result_of (catch_io m h) =
     (case result_of m of
        Inl e \<Rightarrow> (case h e of None \<Rightarrow> Inl e | Some k \<Rightarrow> result_of k)
      | Inr x \<Rightarrow> Inr x)"
  by (simp add: io_defs split: sum.splits option.splits)

lemma events_of_catch [io_simps]:
  "events_of (catch_io m h) =
     (case result_of m of
        Inl e \<Rightarrow> (case h e of None \<Rightarrow> events_of m | Some k \<Rightarrow> events_of m @ events_of k)
      | Inr x \<Rightarrow> events_of m)"
  by (simp add: io_defs split: sum.splits option.splits)

lemma catch_io_succeeds: "result_of m = Inr x \<Longrightarrow> catch_io m h = m"
  by (simp add: io_defs)

lemma catch_io_escapes: "result_of m = Inl e \<Longrightarrow> h e = None \<Longrightarrow> catch_io m h = m"
  by (simp add: io_defs)

lemma catch_io_handles:
  "result_of m = Inl e \<Longrightarrow> h e = Some k \<Longrightarrow>
   catch_io m h = (result_of k, events_of m @ events_of k)"
  by (simp add: io_defs)

lemma io_eqI: "result_of m = result_of n \<Longrightarrow> events_of m = events_of n \<Longrightarrow> m = n"
  by (simp add: io_defs prod_eq_iff)

lemma io_collapse [simp]: "(result_of m, events_of m) = m"
  by (simp add: io_defs)

text \<open>A failed step is where a sequence stops: nothing after it is emitted.\<close>

lemma bind_io_fails:
  "result_of m = Inl e \<Longrightarrow> bind_io m f = (Inl e, events_of m)"
  by (simp add: io_defs)

lemma then_io_fails:
  "result_of m = Inl e \<Longrightarrow> then_io m k = (Inl e, events_of m)"
  by (simp add: then_io_def bind_io_fails)

lemma bind_io_succeeds:
  "result_of m = Inr x \<Longrightarrow>
   bind_io m f = (result_of (f x), events_of m @ events_of (f x))"
  by (simp add: io_defs)

lemma then_io_succeeds:
  "result_of m = Inr x \<Longrightarrow> then_io m k = (result_of k, events_of m @ events_of k)"
  by (simp add: then_io_def bind_io_succeeds)

lemma for_io_result:
  "result_of (for_io xs f) = Inr () \<longleftrightarrow> (\<forall>x \<in> set xs. result_of (f x) = Inr ())"
  by (induction xs) (auto simp: result_of_then split: sum.splits)

lemma for_io_no_events:
  "(\<And>x. x \<in> set xs \<Longrightarrow> events_of (f x) = []) \<Longrightarrow> events_of (for_io xs f) = []"
  by (induction xs) (auto simp: events_of_then split: sum.splits)

lemma bind_result_simps [simp]:
  "bind_result (Inl e) f = Inl e"
  "bind_result (Inr x) f = f x"
  by (simp_all add: bind_result_def)

lemma of_option_simps [simp]:
  "of_option e None = Inl e"
  "of_option e (Some v) = Inr v"
  by (simp_all add: of_option_def)

lemma of_option_eq_Inr [simp]: "of_option e x = Inr v \<longleftrightarrow> x = Some v"
  by (cases x) auto

lemma of_option_eq_Inl [simp]: "of_option e x = Inl e' \<longleftrightarrow> x = None \<and> e' = e"
  by (cases x) auto

section \<open>Lists\<close>

lemma dropWhile_hd_not: "dropWhile P xs \<noteq> [] \<Longrightarrow> \<not> P (hd (dropWhile P xs))"
  by (metis hd_dropWhile)

lemma dropWhile_nothing: "xs \<noteq> [] \<Longrightarrow> \<not> P (hd xs) \<Longrightarrow> dropWhile P xs = xs"
  by (cases xs) auto

lemma filter_is_spawn_Log [simp]: "filter is_spawn (map (Log l) ms) = []"
  by (induction ms) auto

lemma butlast_snoc_last: "xs \<noteq> [] \<Longrightarrow> butlast xs @ [last xs] = xs"
  by simp

lemma find_first:
  "\<forall>x \<in> set before. \<not> P x \<Longrightarrow> P y \<Longrightarrow> List.find P (before @ y # after) = Some y"
  by (induction before) simp_all

lemma for_io_first_failure:
  "result_of (for_io xs f) = Inl e \<Longrightarrow> \<exists>x \<in> set xs. result_of (f x) = Inl e"
  by (induction xs) (auto simp: result_of_then split: sum.splits)

lemma update_absent: "k \<notin> fst ` set ps \<Longrightarrow> AList.update k v ps = ps @ [(k, v)]"
  by (induction ps) auto

end
