(* ===== verification/Utf8.thy ===== *)
theory Utf8
  imports Sox_Prelude
begin

text \<open>
  \<open>bytes.decode("utf-8")\<close> in its default strict mode, which \<open>sox/core.py\<close> applies to
  everything a process printed. Since a \<open>string\<close> of the model is the text's UTF-8
  bytes, decoding returns its argument when the bytes are well formed and raises
  \<open>UnicodeDecodeError\<close> otherwise. \<open>utf8_valid\<close> is the table of well-formed byte
  sequences of the Unicode standard (the one CPython's decoder implements): no overlong
  forms, no surrogates, nothing above U+10FFFF.
\<close>

definition byte :: "char \<Rightarrow> nat" where
  "byte c = of_char c"

definition in_range :: "nat \<Rightarrow> nat \<Rightarrow> char \<Rightarrow> bool" where
  "in_range lo hi c = (lo \<le> byte c \<and> byte c \<le> hi)"

abbreviation cont :: "char \<Rightarrow> bool" where
  "cont \<equiv> in_range 128 191"

fun utf8_valid :: "bytes \<Rightarrow> bool" where
  "utf8_valid [] = True"
| "utf8_valid (a # bs) =
     (if byte a < 128 then utf8_valid bs
      else if in_range 194 223 a then
        (case bs of b # r \<Rightarrow> cont b \<and> utf8_valid r | _ \<Rightarrow> False)
      else if byte a = 224 then
        (case bs of b # c # r \<Rightarrow> in_range 160 191 b \<and> cont c \<and> utf8_valid r | _ \<Rightarrow> False)
      else if in_range 225 236 a \<or> in_range 238 239 a then
        (case bs of b # c # r \<Rightarrow> cont b \<and> cont c \<and> utf8_valid r | _ \<Rightarrow> False)
      else if byte a = 237 then
        (case bs of b # c # r \<Rightarrow> in_range 128 159 b \<and> cont c \<and> utf8_valid r | _ \<Rightarrow> False)
      else if byte a = 240 then
        (case bs of b # c # d # r \<Rightarrow>
           in_range 144 191 b \<and> cont c \<and> cont d \<and> utf8_valid r | _ \<Rightarrow> False)
      else if in_range 241 243 a then
        (case bs of b # c # d # r \<Rightarrow> cont b \<and> cont c \<and> cont d \<and> utf8_valid r | _ \<Rightarrow> False)
      else if byte a = 244 then
        (case bs of b # c # d # r \<Rightarrow>
           in_range 128 143 b \<and> cont c \<and> cont d \<and> utf8_valid r | _ \<Rightarrow> False)
      else False)"

definition decode_utf8 :: "bytes \<Rightarrow> string result" where
  "decode_utf8 bs = (if utf8_valid bs then Inr bs else Inl UnicodeDecodeError)"

definition ascii :: "bytes \<Rightarrow> bool" where
  "ascii bs = (\<forall>c \<in> set bs. byte c < 128)"

section \<open>Facts\<close>

lemma ascii_simps [simp]:
  "ascii []"
  "ascii (c # cs) \<longleftrightarrow> byte c < 128 \<and> ascii cs"
  "ascii (as @ bs) \<longleftrightarrow> ascii as \<and> ascii bs"
  by (auto simp: ascii_def)

lemma ascii_valid: "ascii bs \<Longrightarrow> utf8_valid bs"
  by (induction bs) auto

lemma decode_ascii: "ascii bs \<Longrightarrow> decode_utf8 bs = Inr bs"
  by (simp add: decode_utf8_def ascii_valid)

lemma decode_utf8_Inr [simp]: "decode_utf8 bs = Inr s \<longleftrightarrow> utf8_valid bs \<and> s = bs"
  by (auto simp: decode_utf8_def)

lemma decode_utf8_Inl [simp]:
  "decode_utf8 bs = Inl e \<longleftrightarrow> \<not> utf8_valid bs \<and> e = UnicodeDecodeError"
  by (auto simp: decode_utf8_def)

lemma utf8_valid_ascii_Cons: "byte c < 128 \<Longrightarrow> utf8_valid (c # bs) = utf8_valid bs"
  by simp

end
