(* ===== verification/Py_String.thy ===== *)
theory Py_String
  imports Utf8
begin

text \<open>
  The methods of Python's \<open>str\<close> that \<open>sox/core.py\<close> and \<open>sox/file_info.py\<close> call, as
  executable functions on \<open>string\<close>: \<open>lower\<close>, \<open>upper\<close>, \<open>split(sep)\<close> with a
  one-character separator, \<open>sep.join\<close>, \<open>strip(chars)\<close>, \<open>replace\<close> of one character,
  the substring test \<open>in\<close>, \<open>index\<close>, and the slices \<open>s[-1]\<close>, \<open>s[:-1]\<close>, \<open>s[k:]\<close>.
  A \<open>string\<close> stands for the text by its UTF-8 bytes. Every separator, strip set and
  literal of the sources is ASCII, and an ASCII byte never occurs inside a multi-byte
  UTF-8 sequence, so splitting, stripping, joining and searching agree with Python on
  all text. The slices \<open>s[-1]\<close> and \<open>s[:-1]\<close> cut at the last character, which may be
  several bytes long. Case mapping changes the ASCII letters only: it is Python's on
  ASCII text, and on other text it differs in the letters outside ASCII, none of which
  Python maps to an ASCII character that the sources compare with (the names \<open>sox\<close>
  and \<open>play\<close>, the prefixes of \<open>bitrate\<close>).
  The lemmas are the algebra the parsers of the components are proved with: how \<open>split\<close>
  acts on a concatenation, that \<open>join\<close> inverts it, what \<open>strip\<close> leaves at both ends.
\<close>

section \<open>Case mapping\<close>

definition ascii_upper :: string where
  "ascii_upper = ''ABCDEFGHIJKLMNOPQRSTUVWXYZ''"

definition ascii_lower :: string where
  "ascii_lower = ''abcdefghijklmnopqrstuvwxyz''"

definition lower_char :: "char \<Rightarrow> char" where
  "lower_char c = (case map_of (zip ascii_upper ascii_lower) c of None \<Rightarrow> c | Some d \<Rightarrow> d)"

definition upper_char :: "char \<Rightarrow> char" where
  "upper_char c = (case map_of (zip ascii_lower ascii_upper) c of None \<Rightarrow> c | Some d \<Rightarrow> d)"

definition py_lower :: "string \<Rightarrow> string" where
  "py_lower s = map lower_char s"

definition py_upper :: "string \<Rightarrow> string" where
  "py_upper s = map upper_char s"

section \<open>Splitting and joining\<close>

text \<open>
  \<open>s.split(sep)\<close> for a separator of one character: the pieces between the
  occurrences of \<open>sep\<close>, empty pieces included, never the empty list.
\<close>

primrec py_split :: "char \<Rightarrow> string \<Rightarrow> string list" where
  "py_split sep [] = [[]]"
| "py_split sep (c # cs) =
     (if c = sep then [] # py_split sep cs
      else (case py_split sep cs of [] \<Rightarrow> [[c]] | w # ws \<Rightarrow> (c # w) # ws))"

primrec py_join :: "string \<Rightarrow> string list \<Rightarrow> string" where
  "py_join sep [] = []"
| "py_join sep (w # ws) = (if ws = [] then w else w @ sep @ py_join sep ws)"

section \<open>Stripping and replacing\<close>

definition py_lstrip :: "string \<Rightarrow> string \<Rightarrow> string" where
  "py_lstrip chars s = dropWhile (\<lambda>c. c \<in> set chars) s"

definition py_rstrip :: "string \<Rightarrow> string \<Rightarrow> string" where
  "py_rstrip chars s = rev (dropWhile (\<lambda>c. c \<in> set chars) (rev s))"

definition py_strip :: "string \<Rightarrow> string \<Rightarrow> string" where
  "py_strip chars s = py_rstrip chars (py_lstrip chars s)"

text \<open>\<open>s.replace(old, new)\<close> for \<open>old\<close> of one character.\<close>

definition py_replace :: "char \<Rightarrow> string \<Rightarrow> string \<Rightarrow> string" where
  "py_replace old new s = concat (map (\<lambda>c. if c = old then new else [c]) s)"

section \<open>Searching\<close>

primrec py_startswith :: "string \<Rightarrow> string \<Rightarrow> bool" where
  "py_startswith s [] = (s = [])"
| "py_startswith s (c # cs) =
     (case s of [] \<Rightarrow> True | d # ds \<Rightarrow> d = c \<and> py_startswith ds cs)"

text \<open>\<open>sub in s\<close>: \<open>sub\<close> occurs in \<open>s\<close> as a contiguous run.\<close>

primrec py_contains :: "string \<Rightarrow> string \<Rightarrow> bool" where
  "py_contains sub [] = (sub = [])"
| "py_contains sub (c # cs) = (py_startswith sub (c # cs) \<or> py_contains sub cs)"

text \<open>\<open>s.index(c)\<close> for \<open>c\<close> of one character; \<open>None\<close> is Python's \<open>ValueError\<close>.\<close>

primrec py_index :: "string \<Rightarrow> char \<Rightarrow> nat option" where
  "py_index [] c = None"
| "py_index (d # ds) c = (if d = c then Some 0 else map_option Suc (py_index ds c))"

text \<open>
  \<open>s.index(sub)\<close>: where \<open>sub\<close> first starts in \<open>s\<close>. The position counts bytes, which
  are the characters of an ASCII \<open>s\<close>.
\<close>

primrec py_index_str :: "string \<Rightarrow> string \<Rightarrow> nat option" where
  "py_index_str [] sub = (if sub = [] then Some 0 else None)"
| "py_index_str (d # ds) sub =
     (if py_startswith sub (d # ds) then Some 0 else map_option Suc (py_index_str ds sub))"

section \<open>Slices\<close>

text \<open>
  A character of the text is one UTF-8 sequence: a leading byte and the continuation
  bytes after it. \<open>last_width s\<close> is the number of bytes of the last character of
  \<open>s\<close>, \<open>str_last s\<close> that character. \<open>s[-1]\<close> raises \<open>IndexError\<close> on the empty
  string; \<open>s[:-1]\<close> and \<open>s[k:]\<close> never raise. \<open>slice_from\<close> counts the elements of a
  list, and bytes in a string: the sources take \<open>[1:]\<close> of a suffix that starts with a
  dot and \<open>[3:]\<close> of a list.
\<close>

definition last_width :: "string \<Rightarrow> nat" where
  "last_width s = Suc (length (takeWhile cont (rev s)))"

definition str_last :: "string \<Rightarrow> string" where
  "str_last s = drop (length s - last_width s) s"

definition last_char :: "string \<Rightarrow> string result" where
  "last_char s = (if s = [] then Inl IndexError else Inr (str_last s))"

definition all_but_last :: "string \<Rightarrow> string" where
  "all_but_last s = take (length s - last_width s) s"

definition slice_from :: "nat \<Rightarrow> 'a list \<Rightarrow> 'a list" where
  "slice_from k s = drop k s"

lemmas [py_defs] =
  ascii_upper_def ascii_lower_def lower_char_def upper_char_def py_lower_def py_upper_def
  py_lstrip_def py_rstrip_def py_strip_def py_replace_def last_width_def str_last_def
  last_char_def all_but_last_def slice_from_def

section \<open>Facts: case mapping\<close>

lemma lower_char_fixed: "c \<notin> set ascii_upper \<Longrightarrow> lower_char c = c"
  by (simp add: lower_char_def map_of_eq_None_iff [THEN iffD2] ascii_upper_def ascii_lower_def)

lemma upper_char_fixed: "c \<notin> set ascii_lower \<Longrightarrow> upper_char c = c"
  by (simp add: upper_char_def map_of_eq_None_iff [THEN iffD2] ascii_upper_def ascii_lower_def)

lemma lower_char_range: "lower_char c = c \<or> lower_char c \<in> set ascii_lower"
proof (cases "map_of (zip ascii_upper ascii_lower) c")
  case None
  then show ?thesis by (simp add: lower_char_def)
next
  case (Some d)
  then have "(c, d) \<in> set (zip ascii_upper ascii_lower)" by (rule map_of_SomeD)
  then have "d \<in> set ascii_lower" by (rule set_zip_rightD)
  with Some show ?thesis by (simp add: lower_char_def)
qed

lemma upper_char_range: "upper_char c = c \<or> upper_char c \<in> set ascii_upper"
proof (cases "map_of (zip ascii_lower ascii_upper) c")
  case None
  then show ?thesis by (simp add: upper_char_def)
next
  case (Some d)
  then have "(c, d) \<in> set (zip ascii_lower ascii_upper)" by (rule map_of_SomeD)
  then have "d \<in> set ascii_upper" by (rule set_zip_rightD)
  with Some show ?thesis by (simp add: upper_char_def)
qed

lemma ascii_cases_disjoint: "set ascii_lower \<inter> set ascii_upper = {}"
  by (simp add: ascii_lower_def ascii_upper_def)

lemma lower_char_idem [simp]: "lower_char (lower_char c) = lower_char c"
  using lower_char_range [of c] ascii_cases_disjoint
  by (auto intro: lower_char_fixed)

lemma upper_char_idem [simp]: "upper_char (upper_char c) = upper_char c"
  using upper_char_range [of c] ascii_cases_disjoint
  by (auto intro: upper_char_fixed)

lemma py_lower_idem [simp]: "py_lower (py_lower s) = py_lower s"
  by (simp add: py_lower_def)

lemma py_upper_idem [simp]: "py_upper (py_upper s) = py_upper s"
  by (simp add: py_upper_def)

lemma length_py_lower [simp]: "length (py_lower s) = length s"
  by (simp add: py_lower_def)

lemma py_lower_Nil [simp]: "py_lower [] = []"
  by (simp add: py_lower_def)

lemma py_lower_Cons [simp]: "py_lower (c # cs) = lower_char c # py_lower cs"
  by (simp add: py_lower_def)

lemma py_lower_append [simp]: "py_lower (a @ b) = py_lower a @ py_lower b"
  by (simp add: py_lower_def)

lemma lower_char_upper: "c \<in> set ascii_upper \<Longrightarrow> lower_char c \<in> set ascii_lower"
proof -
  assume "c \<in> set ascii_upper"
  moreover have "length ascii_upper = length ascii_lower"
    by (simp add: ascii_upper_def ascii_lower_def)
  ultimately obtain d where d: "map_of (zip ascii_upper ascii_lower) c = Some d"
    using map_of_zip_is_Some by fastforce
  then have "d \<in> set ascii_lower" by (blast dest: map_of_SomeD set_zip_rightD)
  with d show ?thesis by (simp add: lower_char_def)
qed

lemma lower_char_not_upper: "lower_char c \<notin> set ascii_upper"
proof (cases "c \<in> set ascii_upper")
  case True
  then have "lower_char c \<in> set ascii_lower" by (rule lower_char_upper)
  with ascii_cases_disjoint show ?thesis by blast
next
  case False
  then show ?thesis by (simp add: lower_char_fixed)
qed

lemma py_lower_no_upper: "set (py_lower s) \<inter> set ascii_upper = {}"
  using lower_char_not_upper by (auto simp: py_lower_def)

section \<open>Facts: split and join\<close>

lemma py_split_not_Nil [simp]: "py_split sep s \<noteq> []"
  by (induction s) (auto split: list.splits)

lemma py_split_no_sep: "sep \<notin> set s \<Longrightarrow> py_split sep s = [s]"
  by (induction s) auto

lemma py_split_append_sep:
  "sep \<notin> set a \<Longrightarrow> py_split sep (a @ sep # b) = a # py_split sep b"
  by (induction a) auto

lemma length_py_split: "length (py_split sep s) = Suc (count_list s sep)"
  by (induction s) (auto split: list.splits)

lemma py_split_pieces: "w \<in> set (py_split sep s) \<Longrightarrow> sep \<notin> set w"
proof (induction s arbitrary: w)
  case Nil
  then show ?case by simp
next
  case (Cons c cs)
  obtain p ps where ps: "py_split sep cs = p # ps"
    by (cases "py_split sep cs") auto
  with Cons show ?case by (auto split: if_splits)
qed

lemma py_join_single [simp]: "py_join sep [w] = w"
  by simp

lemma py_join_Cons2 [simp]: "py_join sep (w # v # vs) = w @ sep @ py_join sep (v # vs)"
  by simp

lemma py_join_split [simp]: "py_join [sep] (py_split sep s) = s"
proof (induction s)
  case Nil
  then show ?case by simp
next
  case (Cons c cs)
  obtain p ps where ps: "py_split sep cs = p # ps"
    by (cases "py_split sep cs") auto
  with Cons show ?case by (cases ps) auto
qed

lemma py_split_join:
  "ws \<noteq> [] \<Longrightarrow> \<forall>w \<in> set ws. sep \<notin> set w \<Longrightarrow> py_split sep (py_join [sep] ws) = ws"
proof (induction ws)
  case Nil
  then show ?case by simp
next
  case (Cons w ws)
  show ?case
  proof (cases ws)
    case Nil
    with Cons.prems show ?thesis by (simp add: py_split_no_sep)
  next
    case (Cons v vs)
    with Cons.IH Cons.prems show ?thesis by (simp add: py_split_append_sep)
  qed
qed

lemma concat_py_split_no_sep: "sep \<notin> set (concat (py_split sep s))"
  using py_split_pieces by fastforce

section \<open>Facts: strip and replace\<close>

lemma py_lstrip_Nil [simp]: "py_lstrip chars [] = []"
  by (simp add: py_lstrip_def)

lemma py_rstrip_Nil [simp]: "py_rstrip chars [] = []"
  by (simp add: py_rstrip_def)

lemma py_strip_Nil [simp]: "py_strip chars [] = []"
  by (simp add: py_strip_def)

lemma py_lstrip_hd: "py_lstrip chars s \<noteq> [] \<Longrightarrow> hd (py_lstrip chars s) \<notin> set chars"
  unfolding py_lstrip_def by (rule dropWhile_hd_not)

lemma py_rstrip_last: "py_rstrip chars s \<noteq> [] \<Longrightarrow> last (py_rstrip chars s) \<notin> set chars"
  unfolding py_rstrip_def
  using dropWhile_hd_not [of "\<lambda>c. c \<in> set chars" "rev s"] by (simp add: last_rev)

lemma py_rstrip_keeps_hd:
  "py_rstrip chars s \<noteq> [] \<Longrightarrow> hd (py_rstrip chars s) = hd s"
proof (induction s rule: rev_induct)
  case Nil
  then show ?case by simp
next
  case (snoc c cs)
  then show ?case by (cases cs) (auto simp: py_rstrip_def split: if_splits)
qed

lemma py_strip_hd: "py_strip chars s \<noteq> [] \<Longrightarrow> hd (py_strip chars s) \<notin> set chars"
proof -
  assume ne: "py_strip chars s \<noteq> []"
  then have "py_lstrip chars s \<noteq> []" by (auto simp: py_strip_def)
  then have "hd (py_lstrip chars s) \<notin> set chars" by (rule py_lstrip_hd)
  with ne show ?thesis by (simp add: py_strip_def py_rstrip_keeps_hd)
qed

lemma py_strip_last: "py_strip chars s \<noteq> [] \<Longrightarrow> last (py_strip chars s) \<notin> set chars"
  unfolding py_strip_def by (rule py_rstrip_last)

lemma py_lstrip_id: "s = [] \<or> hd s \<notin> set chars \<Longrightarrow> py_lstrip chars s = s"
  by (cases s) (auto simp: py_lstrip_def)

lemma py_rstrip_id: "s = [] \<or> last s \<notin> set chars \<Longrightarrow> py_rstrip chars s = s"
  by (cases s rule: rev_cases) (auto simp: py_rstrip_def)

lemma py_strip_id:
  "s = [] \<or> (hd s \<notin> set chars \<and> last s \<notin> set chars) \<Longrightarrow> py_strip chars s = s"
  by (auto simp: py_strip_def py_lstrip_id py_rstrip_id)

lemma py_strip_idem [simp]: "py_strip chars (py_strip chars s) = py_strip chars s"
  by (rule py_strip_id) (use py_strip_hd py_strip_last in blast)

lemma py_strip_all: "set s \<subseteq> set chars \<Longrightarrow> py_strip chars s = []"
proof -
  assume "set s \<subseteq> set chars"
  then have "py_lstrip chars s = []" by (auto simp: py_lstrip_def)
  then show ?thesis by (simp add: py_strip_def)
qed

lemma set_py_lstrip: "set (py_lstrip chars s) \<subseteq> set s"
  unfolding py_lstrip_def by (rule set_dropWhileD [THEN subsetI])

lemma set_py_rstrip: "set (py_rstrip chars s) \<subseteq> set s"
  unfolding py_rstrip_def using set_dropWhileD [of _ "\<lambda>c. c \<in> set chars" "rev s"] by auto

lemma set_py_strip: "set (py_strip chars s) \<subseteq> set s"
  unfolding py_strip_def using set_py_lstrip set_py_rstrip by fastforce

lemma py_replace_delete: "py_replace old [] s = filter (\<lambda>c. c \<noteq> old) s"
  by (induction s) (auto simp: py_replace_def)

lemma py_replace_absent: "old \<notin> set s \<Longrightarrow> py_replace old new s = s"
  by (induction s) (auto simp: py_replace_def)

section \<open>Facts: searching\<close>

lemma py_startswith_Nil [simp]: "py_startswith [] t"
  by (cases t) auto

lemma py_startswith_iff: "py_startswith s t \<longleftrightarrow> (\<exists>r. t = s @ r)"
proof (induction t arbitrary: s)
  case Nil
  then show ?case by auto
next
  case (Cons c cs)
  then show ?case by (cases s) auto
qed

lemma py_contains_iff: "py_contains sub s \<longleftrightarrow> (\<exists>p r. s = p @ sub @ r)"
proof (induction s)
  case Nil
  then show ?case by auto
next
  case (Cons c cs)
  have "(\<exists>p r. c # cs = p @ sub @ r) \<longleftrightarrow>
        (\<exists>r. c # cs = sub @ r) \<or> (\<exists>p r. cs = p @ sub @ r)"
  proof
    assume "\<exists>p r. c # cs = p @ sub @ r"
    then obtain p r where pr: "c # cs = p @ sub @ r" by blast
    show "(\<exists>r. c # cs = sub @ r) \<or> (\<exists>p r. cs = p @ sub @ r)"
    proof (cases p)
      case Nil
      with pr show ?thesis by auto
    next
      case (Cons d ds)
      with pr have "cs = ds @ sub @ r" by simp
      then show ?thesis by blast
    qed
  next
    assume "(\<exists>r. c # cs = sub @ r) \<or> (\<exists>p r. cs = p @ sub @ r)"
    then show "\<exists>p r. c # cs = p @ sub @ r"
    proof
      assume "\<exists>r. c # cs = sub @ r"
      then obtain r where "c # cs = [] @ sub @ r" by auto
      then show ?thesis by blast
    next
      assume "\<exists>p r. cs = p @ sub @ r"
      then obtain p r where "c # cs = (c # p) @ sub @ r" by auto
      then show ?thesis by blast
    qed
  qed
  with Cons show ?case by (simp only: py_contains.simps py_startswith_iff)
qed

lemma py_contains_single: "py_contains [c] s \<longleftrightarrow> c \<in> set s"
  by (induction s) (auto split: list.splits)

lemma py_index_Some_iff: "(\<exists>i. py_index s c = Some i) \<longleftrightarrow> c \<in> set s"
  by (induction s) auto

lemma py_index_nth: "py_index s c = Some i \<Longrightarrow> i < length s \<and> s ! i = c"
  by (induction s arbitrary: i) (auto split: if_splits)

lemma py_index_first: "py_index s c = Some i \<Longrightarrow> c \<notin> set (take i s)"
  by (induction s arbitrary: i) (auto split: if_splits)

lemma py_index_None_iff: "py_index s c = None \<longleftrightarrow> c \<notin> set s"
  using py_index_Some_iff [of s c] by (cases "py_index s c") auto

lemma mem_iff_py_index: "c \<in> set s \<longleftrightarrow> py_index s c \<noteq> None"
  by (simp add: py_index_None_iff)

lemma py_strip_set_cong: "set a = set b \<Longrightarrow> py_strip a s = py_strip b s"
  by (simp add: py_strip_def py_lstrip_def py_rstrip_def)

lemma py_split_append:
  "py_split sep (a @ sep # b) = py_split sep a @ py_split sep b"
  by (induction a) (auto split: list.splits)

lemma py_index_append_first:
  "c \<notin> set a \<Longrightarrow> py_index (a @ c # b) c = Some (length a)"
  by (induction a) auto

lemma py_index_str_single [simp]: "py_index_str s [c] = py_index s c"
  by (induction s) (auto split: list.splits)

lemma py_contains_iff_index_str: "py_contains sub s \<longleftrightarrow> py_index_str s sub \<noteq> None"
  by (induction s) auto

lemma py_index_str_startswith:
  "py_index_str s sub = Some i \<Longrightarrow> i \<le> length s \<and> py_startswith sub (drop i s)"
  by (induction s arbitrary: i) (auto split: if_splits)

section \<open>Facts: slices\<close>

lemma ascii_not_cont: "byte c < 128 \<Longrightarrow> \<not> cont c"
  by (simp add: in_range_def)

lemma last_width_snoc [simp]: "\<not> cont c \<Longrightarrow> last_width (s @ [c]) = 1"
  by (simp add: last_width_def)

lemma str_last_snoc [simp]: "\<not> cont c \<Longrightarrow> str_last (s @ [c]) = [c]"
  by (simp add: str_last_def)

lemma all_but_last_snoc [simp]: "\<not> cont c \<Longrightarrow> all_but_last (s @ [c]) = s"
  by (simp add: all_but_last_def)

lemma last_char_snoc: "\<not> cont c \<Longrightarrow> last_char (s @ [c]) = Inr [c]"
  by (simp add: last_char_def)

lemma str_last_append_all_but_last [simp]: "all_but_last s @ str_last s = s"
  by (simp add: all_but_last_def str_last_def)

text \<open>
  The last character of two bytes is cut off whole: the slices do not split a UTF-8
  sequence.
\<close>

lemma last_char_two_bytes:
  "\<not> cont a \<Longrightarrow> cont b \<Longrightarrow>
   last_char (s @ [a, b]) = Inr [a, b] \<and> all_but_last (s @ [a, b]) = s"
  by (simp add: last_char_def str_last_def all_but_last_def last_width_def)

lemma str_last_not_Nil: "s \<noteq> [] \<Longrightarrow> str_last s \<noteq> []"
  by (cases s rule: rev_cases) (simp_all add: str_last_def last_width_def)

lemma ascii_upper_char: "byte (upper_char c) < 128 \<longleftrightarrow> byte c < 128"
proof (cases "c \<in> set ascii_lower")
  case True
  moreover from True have "byte c < 128"
    by (auto simp: ascii_lower_def byte_def)
  moreover have "upper_char c \<in> set ascii_upper"
    using True upper_char_range [of c] ascii_cases_disjoint
    by (auto simp: upper_char_def ascii_lower_def ascii_upper_def)
  then have "byte (upper_char c) < 128"
    by (auto simp: ascii_upper_def byte_def)
  ultimately show ?thesis by simp
next
  case False
  then show ?thesis by (simp add: upper_char_fixed)
qed

end
