(* ===== verification/Py_Number.thy ===== *)
theory Py_Number
  imports Py_String
begin

text \<open>
  Python's \<open>int(s)\<close> and \<open>float(s)\<close> on strings, which \<open>sox/file_info.py\<close> applies to
  what the tool prints, and the float values the results are compared with.
  Both readers strip white space, take an optional sign, and accept decimal digits in
  which single underscores may stand between digits; \<open>float\<close> also accepts a decimal
  point, an exponent, and \<open>inf\<close>, \<open>infinity\<close> and \<open>nan\<close> in any case. \<open>None\<close> is
  Python's \<open>ValueError\<close>. The white space is that of ASCII text (tab, line feed,
  vertical tab, form feed, carriage return, space; the separators \<open>0x1C\<close> to \<open>0x1F\<close>
  are not stripped). Python also strips the white space of Unicode outside ASCII and
  reads the decimal digits of other scripts: on such text the readers of the model
  answer \<open>None\<close> where Python returns a number, so they are exact on ASCII text only.
  A float is \<open>Finite x\<close> for a real \<open>x\<close>, an infinity or \<open>NaN\<close>. The reader returns the
  exact value of the decimal numeral, or zero when the numeral underflows (\<open>1e-400\<close>
  reads as \<open>0.0\<close>), and \<open>pf_times\<close> the exact product; CPython returns the binary64
  nearest to each. The two agree where the numeral and the product are binary64
  values, and the test \<open>float(s) == 0.0\<close> is decided as Python decides it on every
  numeral. Outside the model are: rounding to 53 bits, overflow to infinity (a numeral
  such as \<open>1e400\<close> reads as the real \<open>10 ^ 400\<close>), and the sign of zero. Comparisons
  follow IEEE 754: every ordered comparison with \<open>NaN\<close> is false.
\<close>

section \<open>Digits\<close>

definition ws_chars :: string where
  "ws_chars = [CHR 0x09, CHR 0x0A, CHR 0x0B, CHR 0x0C, CHR 0x0D, CHR 0x20]"

definition digit_chars :: string where
  "digit_chars = ''0123456789''"

definition digit_of :: "char \<Rightarrow> nat option" where
  "digit_of c = py_index digit_chars c"

text \<open>
  \<open>digit (["_"] digit)*\<close>: the digits of the whole string, or \<open>None\<close> when it has
  another shape.
\<close>

fun digitpart :: "string \<Rightarrow> nat list option" where
  "digitpart [] = None"
| "digitpart [c] = map_option (\<lambda>v. [v]) (digit_of c)"
| "digitpart (c # d # cs) =
     (case digit_of c of
        None \<Rightarrow> None
      | Some v \<Rightarrow>
          if d = CHR ''_'' then map_option ((#) v) (digitpart cs)
          else map_option ((#) v) (digitpart (d # cs)))"

definition nat_of_digits :: "nat list \<Rightarrow> nat" where
  "nat_of_digits ds = foldl (\<lambda>a d. 10 * a + d) 0 ds"

section \<open>int(s)\<close>

definition py_int :: "string \<Rightarrow> int option" where
  "py_int s =
     (case py_strip ws_chars s of
        [] \<Rightarrow> None
      | c # cs \<Rightarrow>
          if c = CHR ''-'' then map_option (\<lambda>ds. - int (nat_of_digits ds)) (digitpart cs)
          else if c = CHR ''+'' then map_option (\<lambda>ds. int (nat_of_digits ds)) (digitpart cs)
          else map_option (\<lambda>ds. int (nat_of_digits ds)) (digitpart (c # cs)))"

section \<open>Floats\<close>

datatype pyfloat = Finite real | PosInf | NegInf | NaN

primrec pf_neg :: "pyfloat \<Rightarrow> pyfloat" where
  "pf_neg (Finite x) = Finite (- x)"
| "pf_neg PosInf = NegInf"
| "pf_neg NegInf = PosInf"
| "pf_neg NaN = NaN"

text \<open>The sign of a float: \<open>None\<close> for \<open>NaN\<close>.\<close>

primrec pf_sign :: "pyfloat \<Rightarrow> int option" where
  "pf_sign (Finite x) = Some (if x < 0 then - 1 else if x = 0 then 0 else 1)"
| "pf_sign PosInf = Some 1"
| "pf_sign NegInf = Some (- 1)"
| "pf_sign NaN = None"

text \<open>\<open>a * b\<close>: a product with \<open>NaN\<close>, and of zero with an infinity, is \<open>NaN\<close>.\<close>

definition pf_times :: "pyfloat \<Rightarrow> pyfloat \<Rightarrow> pyfloat" where
  "pf_times a b =
     (case (a, b) of
        (Finite x, Finite y) \<Rightarrow> Finite (x * y)
      | _ \<Rightarrow>
        (case (pf_sign a, pf_sign b) of
           (Some i, Some j) \<Rightarrow>
             if i * j = 0 then NaN else if 0 < i * j then PosInf else NegInf
         | _ \<Rightarrow> NaN))"

text \<open>\<open>a >= b\<close>, \<open>a == b\<close>.\<close>

fun pf_ge :: "pyfloat \<Rightarrow> pyfloat \<Rightarrow> bool" where
  "pf_ge NaN b = False"
| "pf_ge a NaN = False"
| "pf_ge PosInf b = True"
| "pf_ge a NegInf = True"
| "pf_ge NegInf b = False"
| "pf_ge a PosInf = False"
| "pf_ge (Finite x) (Finite y) = (y \<le> x)"

fun pf_eq :: "pyfloat \<Rightarrow> pyfloat \<Rightarrow> bool" where
  "pf_eq NaN b = False"
| "pf_eq a NaN = False"
| "pf_eq a b = (a = b)"

section \<open>float(s)\<close>

text \<open>\<open>[sign] digitpart\<close> after the \<open>e\<close>; the empty string is "no exponent".\<close>

definition exponent :: "string \<Rightarrow> int option" where
  "exponent s =
     (case s of
        [] \<Rightarrow> None
      | c # cs \<Rightarrow>
          if c = CHR ''-'' then map_option (\<lambda>ds. - int (nat_of_digits ds)) (digitpart cs)
          else if c = CHR ''+'' then map_option (\<lambda>ds. int (nat_of_digits ds)) (digitpart cs)
          else map_option (\<lambda>ds. int (nat_of_digits ds)) (digitpart (c # cs)))"

text \<open>
  \<open>[digitpart] "." digitpart | digitpart ["."]\<close>: the digits before and after the
  point.
\<close>

definition mantissa :: "string \<Rightarrow> (nat list \<times> nat list) option" where
  "mantissa s =
     (let ip = takeWhile (\<lambda>c. c \<noteq> CHR ''.'') s;
          rest = dropWhile (\<lambda>c. c \<noteq> CHR ''.'') s
      in if rest = [] then map_option (\<lambda>ds. (ds, [])) (digitpart ip)
         else if ip = [] then map_option (\<lambda>fs. ([], fs)) (digitpart (tl rest))
         else if tl rest = [] then map_option (\<lambda>ds. (ds, [])) (digitpart ip)
         else (case (digitpart ip, digitpart (tl rest)) of
                 (Some ds, Some fs) \<Rightarrow> Some (ds, fs)
               | _ \<Rightarrow> None))"

definition scale10 :: "real \<Rightarrow> int \<Rightarrow> real" where
  "scale10 x e = (if 0 \<le> e then x * 10 ^ nat e else x / 10 ^ nat (- e))"

definition decimal :: "string \<Rightarrow> real option" where
  "decimal s =
     (let is_e = (\<lambda>c. c = CHR ''e'' \<or> c = CHR ''E'');
          m = takeWhile (\<lambda>c. \<not> is_e c) s;
          rest = dropWhile (\<lambda>c. \<not> is_e c) s
      in case mantissa m of
           None \<Rightarrow> None
         | Some (ds, fs) \<Rightarrow>
             (case (if rest = [] then Some 0 else exponent (tl rest)) of
                None \<Rightarrow> None
              | Some e \<Rightarrow>
                  Some (scale10 (real (nat_of_digits (ds @ fs)) / 10 ^ length fs) e)))"

text \<open>
  A decimal of magnitude at most \<open>2 ^ - 1075\<close>, half the least positive binary64 value,
  is read as zero: CPython rounds to the nearest value, ties to even. So a numeral reads
  as zero here exactly when it does in Python.
\<close>

definition underflow :: "real \<Rightarrow> real" where
  "underflow x = (if \<bar>x\<bar> * 2 ^ 1075 \<le> 1 then 0 else x)"

definition float_unsigned :: "string \<Rightarrow> pyfloat option" where
  "float_unsigned s =
     (if py_lower s = ''inf'' \<or> py_lower s = ''infinity'' then Some PosInf
      else if py_lower s = ''nan'' then Some NaN
      else map_option (\<lambda>x. Finite (underflow x)) (decimal s))"

definition py_float :: "string \<Rightarrow> pyfloat option" where
  "py_float s =
     (case py_strip ws_chars s of
        [] \<Rightarrow> None
      | c # cs \<Rightarrow>
          if c = CHR ''-'' then map_option pf_neg (float_unsigned cs)
          else if c = CHR ''+'' then float_unsigned cs
          else float_unsigned (c # cs))"

text \<open>\<open>str(n)\<close> for a natural number: the numeral the readers are inverse to.\<close>

fun show_nat :: "nat \<Rightarrow> string" where
  "show_nat n =
     (if n < 10 then [digit_chars ! n]
      else show_nat (n div 10) @ [digit_chars ! (n mod 10)])"

declare show_nat.simps [simp del]

lemmas [py_defs] =
  ws_chars_def digit_chars_def digit_of_def nat_of_digits_def py_int_def pf_times_def
  exponent_def mantissa_def scale10_def decimal_def underflow_def float_unsigned_def
  py_float_def

section \<open>Facts: digits\<close>

lemma digit_of_range: "digit_of c = Some v \<Longrightarrow> v < 10 \<and> digit_chars ! v = c"
  unfolding digit_of_def using py_index_nth [of digit_chars c v]
  by (simp add: digit_chars_def)

lemma digit_of_digit: "n < 10 \<Longrightarrow> digit_of (digit_chars ! n) = Some n"
proof -
  assume "n < 10"
  then have "n \<in> {0,1,2,3,4,5,6,7,8,9}" by auto
  then show ?thesis by (auto simp: digit_of_def digit_chars_def)
qed

lemma digit_of_Some_iff: "(\<exists>v. digit_of c = Some v) \<longleftrightarrow> c \<in> set digit_chars"
  unfolding digit_of_def by (rule py_index_Some_iff)

lemma nat_of_digits_Nil [simp]: "nat_of_digits [] = 0"
  by (simp add: nat_of_digits_def)

lemma nat_of_digits_snoc [simp]: "nat_of_digits (ds @ [d]) = 10 * nat_of_digits ds + d"
  by (simp add: nat_of_digits_def)

lemma nat_of_digits_append:
  "nat_of_digits (ds @ es) = nat_of_digits ds * 10 ^ length es + nat_of_digits es"
  by (induction es rule: rev_induct) (simp_all add: append_assoc [symmetric] del: append_assoc)

lemma digitpart_plain:
  "s \<noteq> [] \<Longrightarrow> set s \<subseteq> set digit_chars \<Longrightarrow> digitpart s = Some (map (the \<circ> digit_of) s)"
proof (induction s rule: digitpart.induct)
  case 1
  then show ?case by simp
next
  case (2 c)
  then have "c \<in> set digit_chars" by simp
  then obtain v where "digit_of c = Some v" using digit_of_Some_iff by blast
  then show ?case by simp
next
  case (3 c d cs)
  then have "c \<in> set digit_chars" by simp
  then obtain v where v: "digit_of c = Some v" using digit_of_Some_iff by blast
  from "3.prems" have "d \<noteq> CHR ''_''" by (auto simp: digit_chars_def)
  with 3 v show ?case by simp
qed

lemma digitpart_chars:
  "digitpart s = Some ds \<Longrightarrow> set s \<subseteq> set digit_chars \<union> {CHR ''_''}"
proof (induction s arbitrary: ds rule: digitpart.induct)
  case 1
  then show ?case by simp
next
  case (2 c)
  then show ?case using digit_of_Some_iff [of c] by auto
next
  case (3 c d cs)
  then obtain v where v: "digit_of c = Some v" by (auto split: option.splits)
  then have c: "c \<in> set digit_chars" using digit_of_Some_iff by blast
  show ?case
  proof (cases "d = CHR ''_''")
    case True
    with "3.prems" v obtain es where "digitpart cs = Some es" by auto
    with "3.IH"(1) v True have "set cs \<subseteq> set digit_chars \<union> {CHR ''_''}" by blast
    with c True show ?thesis by auto
  next
    case False
    with "3.prems" v obtain es where "digitpart (d # cs) = Some es" by auto
    with "3.IH"(2) v False have "set (d # cs) \<subseteq> set digit_chars \<union> {CHR ''_''}" by blast
    with c show ?thesis by auto
  qed
qed

lemma digitpart_hd: "digitpart s = Some ds \<Longrightarrow> s \<noteq> [] \<and> hd s \<in> set digit_chars"
  by (cases s rule: digitpart.cases) (use digit_of_Some_iff in \<open>auto split: option.splits\<close>)


lemma show_nat_plain: "show_nat n \<noteq> [] \<and> set (show_nat n) \<subseteq> set digit_chars"
proof (induction n rule: show_nat.induct)
  case (1 n)
  have d: "k < 10 \<Longrightarrow> digit_chars ! k \<in> set digit_chars" for k
    by (rule nth_mem) (simp add: digit_chars_def)
  show ?case
  proof (cases "n < 10")
    case True
    with d show ?thesis by (simp add: show_nat.simps [of n])
  next
    case False
    with 1 d [of "n mod 10"] show ?thesis by (simp add: show_nat.simps [of n])
  qed
qed

lemma digits_show_nat: "nat_of_digits (map (the \<circ> digit_of) (show_nat n)) = n"
proof (induction n rule: show_nat.induct)
  case (1 n)
  show ?case
  proof (cases "n < 10")
    case True
    then show ?thesis by (simp add: show_nat.simps [of n] digit_of_digit nat_of_digits_def)
  next
    case False
    with 1 show ?thesis by (simp add: show_nat.simps [of n] digit_of_digit)
  qed
qed

lemma digitpart_show_nat:
  "digitpart (show_nat n) = Some (map (the \<circ> digit_of) (show_nat n))"
  using show_nat_plain [of n] by (simp add: digitpart_plain)

lemma ws_not_digit: "set ws_chars \<inter> (set digit_chars \<union> {CHR ''_''}) = {}"
  by (simp add: ws_chars_def digit_chars_def)

lemma py_strip_ws_digits:
  "s \<noteq> [] \<Longrightarrow> hd s \<in> set digit_chars \<Longrightarrow> last s \<in> set digit_chars \<Longrightarrow>
   py_strip ws_chars s = s"
  using ws_not_digit by (intro py_strip_id) auto

lemma py_int_show_nat: "py_int (show_nat n) = Some (int n)"
proof -
  obtain c cs where s: "show_nat n = c # cs"
    using show_nat_plain [of n] by (cases "show_nat n") auto
  with show_nat_plain [of n] have c: "c \<in> set digit_chars" by auto
  then have sign: "c \<noteq> CHR ''-''" "c \<noteq> CHR ''+''" by (auto simp: digit_chars_def)
  have "last (show_nat n) \<in> set digit_chars"
    using show_nat_plain [of n] last_in_set by blast
  with s c have "py_strip ws_chars (show_nat n) = c # cs"
    using py_strip_ws_digits [of "show_nat n"] by simp
  with sign show ?thesis
    using digitpart_show_nat [of n] digits_show_nat [of n] by (simp add: py_int_def s)
qed

lemma show_nat_zero_iff: "show_nat n = ''0'' \<longleftrightarrow> n = 0"
  using py_int_show_nat [of n] py_int_show_nat [of 0]
  by (auto simp: show_nat.simps [of 0] digit_chars_def)

lemma lower_char_digit: "c \<in> set digit_chars \<Longrightarrow> lower_char c = c"
  by (rule lower_char_fixed) (auto simp: digit_chars_def ascii_upper_def)

lemma decimal_digitpart:
  assumes "digitpart t = Some ds"
  shows "decimal t = Some (real (nat_of_digits ds))"
proof -
  from assms have chars: "set t \<subseteq> set digit_chars \<union> {CHR ''_''}" by (rule digitpart_chars)
  then have e: "\<forall>c \<in> set t. \<not> (c = CHR ''e'' \<or> c = CHR ''E'')"
    and dot: "\<forall>c \<in> set t. c \<noteq> CHR ''.''"
    by (auto simp: digit_chars_def)
  from dot have "mantissa t = Some (ds, [])"
    by (simp add: mantissa_def assms takeWhile_eq_all_conv [THEN iffD2]
        dropWhile_eq_Nil_conv [THEN iffD2])
  with e show ?thesis
    by (simp add: decimal_def scale10_def takeWhile_eq_all_conv [THEN iffD2]
        dropWhile_eq_Nil_conv [THEN iffD2])
qed

lemma underflow_nat [simp]: "underflow (real n) = real n"
proof (cases n)
  case 0
  then show ?thesis by (simp add: underflow_def)
next
  case (Suc k)
  have "(1::real) < 2 ^ 1075" by (rule one_less_power) simp_all
  moreover have "(1::real) \<le> real n" using Suc by simp
  ultimately have "1 * 1 < real n * 2 ^ 1075"
    by (intro mult_le_less_imp_less) simp_all
  then show ?thesis by (simp add: underflow_def)
qed

lemma underflow_zero_iff: "underflow x = 0 \<longleftrightarrow> \<bar>x\<bar> * 2 ^ 1075 \<le> 1"
  by (auto simp: underflow_def)

lemma float_unsigned_digitpart:
  assumes "digitpart t = Some ds"
  shows "float_unsigned t = Some (Finite (real (nat_of_digits ds)))"
proof -
  from assms obtain c cs where t: "t = c # cs" and c: "c \<in> set digit_chars"
    using digitpart_hd [of t ds] by (cases t) auto
  from c have "lower_char c \<noteq> CHR ''i''" "lower_char c \<noteq> CHR ''n''"
    by (auto simp: lower_char_digit digit_chars_def)
  then have "py_lower t \<noteq> ''inf''" "py_lower t \<noteq> ''infinity''" "py_lower t \<noteq> ''nan''"
    by (simp_all add: t)
  with assms show ?thesis by (simp add: float_unsigned_def decimal_digitpart)
qed

lemma py_int_py_float:
  assumes "py_int s = Some n"
  shows "py_float s = Some (Finite (of_int n))"
proof (cases "py_strip ws_chars s")
  case Nil
  with assms show ?thesis by (simp add: py_int_def)
next
  case (Cons c cs)
  with assms show ?thesis
    by (auto simp: py_int_def py_float_def float_unsigned_digitpart split: if_splits)
qed

lemma py_float_show_nat: "py_float (show_nat n) = Some (Finite (real n))"
  using py_int_py_float [OF py_int_show_nat [of n]] by simp

text \<open>
  A numeral below half the least positive binary64 value reads as zero; the least
  positive value itself does not.
\<close>

lemma py_float_underflow:
  "py_float ''1e-400'' = Some (Finite 0)"
  "py_float ''5e-324'' = Some (Finite (5 / 10 ^ 324))"
  by (simp_all add: py_defs Let_def)

lemma py_strip_spaces_numeral:
  "py_strip '' '' (CHR '' '' # CHR '' '' # show_nat n) = show_nat n"
proof -
  have "CHR '' '' \<notin> set (show_nat n)" and "show_nat n \<noteq> []"
    using show_nat_plain [of n] by (auto simp: digit_chars_def)
  then have "py_strip '' '' (show_nat n) = show_nat n"
    by (intro py_strip_id) (auto dest: hd_in_set last_in_set)
  then show ?thesis by (simp add: py_strip_def py_lstrip_def)
qed

end
