(* ===== verification/Np_Array.thy ===== *)
theory Np_Array
  imports Sox_Prelude
begin

text \<open>
  The part of numpy that \<open>sox\<close> in \<open>sox/core.py\<close> uses to hand samples to the process:
  \<open>src_array.T.tobytes(order="F")\<close>. An array of one or two dimensions is the list of
  its items (each the bytes of one sample, \<open>itemsize\<close> long), or the list of its rows.
  \<open>T\<close> reverses the axes, \<open>tobytes_F\<close> writes the items with the first index varying
  fastest, \<open>tobytes_C\<close> with the last. The facts: for a rectangular array the transposed
  array in Fortran order is the array in C order, that is, one frame of all channels
  after the other, and the number of bytes is rows times columns times \<open>itemsize\<close>.
  Arrays of more than two dimensions are not modelled.
\<close>

datatype ndarray = Array1 "bytes list" | Array2 "bytes list list"

text \<open>The rows of a two-dimensional array all have the same length.\<close>

primrec rectangular :: "ndarray \<Rightarrow> bool" where
  "rectangular (Array1 xs) = True"
| "rectangular (Array2 rows) = (\<forall>r \<in> set rows. length r = length (hd rows))"

primrec T :: "ndarray \<Rightarrow> ndarray" where
  "T (Array1 xs) = Array1 xs"
| "T (Array2 rows) = Array2 (transpose rows)"

primrec tobytes_C :: "ndarray \<Rightarrow> bytes" where
  "tobytes_C (Array1 xs) = concat xs"
| "tobytes_C (Array2 rows) = concat (concat rows)"

primrec tobytes_F :: "ndarray \<Rightarrow> bytes" where
  "tobytes_F (Array1 xs) = concat xs"
| "tobytes_F (Array2 rows) = concat (concat (transpose rows))"

section \<open>Facts\<close>

lemma transpose_transpose_rect:
  assumes "\<forall>r \<in> set rows. length r = n" and "0 < n"
  shows "transpose (transpose rows) = rows"
proof -
  from assms(1) have "map length rows = replicate (length rows) n"
    by (induction rows) auto
  then have "sorted (rev (map length rows))"
    by simp
  then have "transpose (transpose rows) = takeWhile (\<lambda>x. x \<noteq> []) rows"
    by (rule transpose_transpose)
  also from assms have "\<dots> = rows"
    by auto
  finally show ?thesis .
qed

lemma transpose_empty_rows: "\<forall>r \<in> set rows. r = [] \<Longrightarrow> transpose rows = []"
  by (induction rows) auto

lemma concat_empty_rows: "\<forall>r \<in> set rows. r = [] \<Longrightarrow> concat rows = []"
  by (induction rows) auto

lemma tobytes_F_T: "rectangular a \<Longrightarrow> tobytes_F (T a) = tobytes_C a"
proof (cases a)
  case (Array1 xs)
  then show ?thesis by simp
next
  case (Array2 rows)
  assume "rectangular a"
  with Array2 have rect: "\<forall>r \<in> set rows. length r = length (hd rows)" by simp
  show ?thesis
  proof (cases "length (hd rows) = 0")
    case True
    with rect have empty: "\<forall>r \<in> set rows. r = []" by simp
    then show ?thesis
      by (simp add: Array2 transpose_empty_rows concat_empty_rows)
  next
    case False
    with rect show ?thesis
      by (simp add: Array2 transpose_transpose_rect [where n = "length (hd rows)"])
  qed
qed

end
