(* ===== verification/Sox_World.thy ===== *)
theory Sox_World
  imports Py_Number Utf8 Np_Array
begin

text \<open>
  The outside of the program: the processes it launches, the file system it asks, and
  the log it writes to. A \<open>world\<close> is what the operating system would answer; the
  theorems hold for every world, so nothing is assumed of the external tool. One call
  of the library sees one world: the tool is taken to answer the same question the same
  way, and the queries of the sources (\<open>--i\<close>, \<open>-n stat\<close>, \<open>-h\<close>) leave the files as
  they are. The primitive effects (\<open>Popen\<close> with \<open>communicate\<close> or \<open>wait\<close>,
  \<open>check_output\<close>, \<open>os.popen\<close>, the logger) are defined here once, and the components
  are composed from them.
\<close>

section \<open>Processes and files\<close>

text \<open>What a launched process does when it is let run: its output and exit status.\<close>

record proc =
  returncode :: int
  stdout :: bytes
  stderr :: bytes

text \<open>\<open>Popen\<close> raises \<open>OSError\<close> when the executable cannot be started.\<close>

datatype launch = Launch_failed | Exited proc

record world =
  run_process :: "string list \<Rightarrow> bytes option \<Rightarrow> launch"
  path_exists :: "string \<Rightarrow> bool"
  access_write :: "string \<Rightarrow> bool"
  getcwd :: string
  pipe_capacity :: nat

section \<open>Log records\<close>

text \<open>
  One constructor per message of the sources, with the values it formats. The elapsed
  time of \<open>SoX took ... seconds\<close> is read from the clock and is not part of the record.
\<close>

datatype msg =
    Executing string
  | SoX_took
  | SoX_failed exn
  | SoXI_error_message bytes
  | Play_stderr_handle
  | Play_returned int
  | Play_failed exn
  | SoX_not_found
  | Unavailable string string
  | Valid_formats string
  | Cannot_process string
  | Will_overwrite string
  | Stat_dictionary "(string \<times> pyfloat option) list"

type_synonym 'a sox_io = "(msg, 'a) io"

section \<open>Primitive effects\<close>

definition log :: "level \<Rightarrow> msg \<Rightarrow> unit sox_io" where
  "log l m = emit (Log l m)"

text \<open>
  \<open>Popen(argv, ...)\<close> followed by \<open>communicate(stdin)\<close>: both pipes are drained while
  the input is written, so the call returns whatever the process prints. The event
  \<open>Spawn argv stdin\<close> records the call of \<open>Popen\<close>: it is emitted also when the
  executable cannot be started and the call raises \<open>OSError\<close>.
\<close>

definition communicate :: "world \<Rightarrow> string list \<Rightarrow> bytes option \<Rightarrow> proc sox_io" where
  "communicate w argv stdin =
     (case run_process w argv stdin of
        Launch_failed \<Rightarrow> (Inl OSError, [Spawn argv stdin])
      | Exited p \<Rightarrow> (Inr p, [Spawn argv stdin]))"

text \<open>
  \<open>Popen(argv, stdout=PIPE, stderr=PIPE)\<close> followed by \<open>wait()\<close>: nothing reads the
  pipes, so a process that prints more than a pipe holds blocks, and \<open>wait\<close> with it.
\<close>

definition wait :: "world \<Rightarrow> string list \<Rightarrow> int sox_io" where
  "wait w argv =
     (case run_process w argv None of
        Launch_failed \<Rightarrow> (Inl OSError, [Spawn argv None])
      | Exited p \<Rightarrow>
          if pipe_capacity w < length (stdout p) \<or> pipe_capacity w < length (stderr p)
          then (Inl Hang, [Spawn argv None])
          else (Inr (returncode p), [Spawn argv None]))"

text \<open>\<open>subprocess.check_output(argv)\<close>: the output, or \<open>CalledProcessError\<close>.\<close>

definition check_output :: "world \<Rightarrow> string list \<Rightarrow> bytes sox_io" where
  "check_output w argv =
     bind_io (communicate w argv None) (\<lambda>p.
       if returncode p \<noteq> 0 then raise_io (CalledProcessError (returncode p) (stdout p))
       else return_io (stdout p))"

section \<open>Two worlds to run the definitions in\<close>

text \<open>
  \<open>no_tool_world\<close> has one file and a shell, which does not find the tool.
  \<open>demo_world\<close> has two files and a tool that answers a handful of command lines; every
  other launch fails.
\<close>

definition exited :: "int \<Rightarrow> bytes \<Rightarrow> bytes \<Rightarrow> launch" where
  "exited rc out err = Exited \<lparr>returncode = rc, stdout = out, stderr = err\<rparr>"

definition no_tool_world :: world where
  "no_tool_world =
     \<lparr>run_process = (\<lambda>argv stdin.
        if argv = [''/bin/sh'', ''-c'', ''sox -h''] then exited 127 [] ''sh: sox: not found''
        else Launch_failed),
      path_exists = (\<lambda>p. p = ''a.wav''),
      access_write = (\<lambda>p. False),
      getcwd = ''/'',
      pipe_capacity = 65536\<rparr>"

definition demo_run :: "string list \<Rightarrow> bytes option \<Rightarrow> launch" where
  "demo_run argv stdin =
     (if argv = [''sox'', ''--i'', ''-c'', ''a.wav''] then exited 0 (''2'' @ [CHR 0x0A]) []
      else if argv = [''sox'', ''--i'', ''-B'', ''a.wav''] then exited 0 (''128k'' @ [CHR 0x0A]) []
      else if argv = [''sox'', ''--i'', ''-B'', ''b.wav''] then exited 0 (''128'' @ [CHR 0x0A]) []
      else if argv = [''sox'', ''--i'', ''-b'', ''a.wav''] then exited 0 (''0'' @ [CHR 0x0A]) []
      else if argv = [''sox'', ''--i'', ''-D'', ''a.wav''] then exited 0 (''0.0'' @ [CHR 0x0A]) []
      else if argv = [''sox'', ''--i'', ''-r'', ''a.wav''] then exited 0 (''44100'' @ [CHR 0x0A]) []
      else if argv = [''sox'', ''--i'', ''-s'', ''a.wav''] then exited 0 (''88200'' @ [CHR 0x0A]) []
      else if argv = [''sox'', ''--i'', ''-e'', ''a.wav'']
        then exited 0 (''Signed Integer PCM'' @ [CHR 0x0A]) []
      else if argv = [''sox'', ''--i'', ''-t'', ''b.wav''] then exited 1 ''sox FAIL formats'' []
      else if argv = [''sox'', ''a.wav'', ''-n'', ''stat'']
        then exited 0 [] (''Mean    norm:  0.5'' @ [CHR 0x0A])
      else if argv = [''sox'', ''b.wav'', ''-n'', ''stat'']
        then exited 0 [] (''Mean    norm:  0.0005'' @ [CHR 0x0A])
      else if argv = [''sox'', ''-h''] \<or> argv = [''/bin/sh'', ''-c'', ''sox -h'']
        then exited 0 ''AUDIO FILE FORMATS: wav mp3'' []
      else if argv = [''sox'', ''a.wav'', ''-n''] then exited 0 [] [CHR 0xFF]
      else if argv = [''sox'', ''-t'', ''raw'', ''-'', ''a.wav''] then exited 0 [] []
      else if argv = [''play'', ''a.wav''] then exited 0 [] []
      else if argv = [''play'', ''b.wav''] then exited 0 [] (replicate 65537 (CHR ''x''))
      else Launch_failed)"

definition demo_world :: world where
  "demo_world =
     \<lparr>run_process = demo_run,
      path_exists = (\<lambda>p. p = ''a.wav'' \<or> p = ''b.wav''),
      access_write = (\<lambda>p. p = ''/tmp''),
      getcwd = ''/tmp'',
      pipe_capacity = 65536\<rparr>"

named_theorems demo_defs "the example worlds"

lemmas [demo_defs] = exited_def no_tool_world_def demo_run_def demo_world_def

lemmas [io_defs] = log_def communicate_def wait_def check_output_def

section \<open>Facts\<close>

lemma communicate_events [simp]: "events_of (communicate w argv stdin) = [Spawn argv stdin]"
  by (simp add: io_defs split: launch.splits)

lemma communicate_result:
  "result_of (communicate w argv stdin) =
     (case run_process w argv stdin of Launch_failed \<Rightarrow> Inl OSError | Exited p \<Rightarrow> Inr p)"
  by (simp add: io_defs split: launch.splits)

lemma wait_events [simp]: "events_of (wait w argv) = [Spawn argv None]"
  by (simp add: io_defs split: launch.splits)

lemma check_output_events [simp]: "events_of (check_output w argv) = [Spawn argv None]"
  by (simp add: io_defs split: launch.splits sum.splits)

lemma check_output_result:
  "result_of (check_output w argv) =
     (case run_process w argv None of
        Launch_failed \<Rightarrow> Inl OSError
      | Exited p \<Rightarrow>
          if returncode p \<noteq> 0 then Inl (CalledProcessError (returncode p) (stdout p))
          else Inr (stdout p))"
  by (simp add: io_defs split: launch.splits sum.splits)

lemma log_events [simp]: "events_of (log l m) = [Log l m]"
  by (simp add: io_defs)

lemma log_result [simp]: "result_of (log l m) = Inr ()"
  by (simp add: io_defs)

lemma then_log [io_simps]: "then_io (log l m) k = (result_of k, Log l m # events_of k)"
  by (simp add: io_defs)

end
