(* ===== verification/Sox_Core.thy ===== *)
theory Sox_Core
  imports Sox_World
begin

text \<open>
  \<open>src/sox/core.py\<close> and the start-up code of \<open>src/sox/__init__.py\<close>: the process
  runner \<open>sox\<close>, the playback runner \<open>play\<close>, the introspection call \<open>soxi\<close>, the
  format probe \<open>_get_valid_formats\<close> with the module constants it initialises, and the
  helpers \<open>is_number\<close> and \<open>all_equal\<close>. Each function of the source is one definition
  with the source's name, its statements in the source's order, its \<open>try\<close> as
  \<open>catch_io\<close>. The lemmas give the result and the events of every branch.
\<close>

section \<open>Constants\<close>

definition SOXI_ARGS :: "string list" where
  "SOXI_ARGS = [''B'', ''b'', ''c'', ''a'', ''D'', ''e'', ''t'', ''s'', ''r'']"

definition ENCODING_VALS :: "string list" where
  "ENCODING_VALS =
     [''signed-integer'', ''unsigned-integer'', ''floating-point'', ''a-law'', ''u-law'',
      ''oki-adpcm'', ''ima-adpcm'', ''ms-adpcm'', ''gsm-full-rate'']"

section \<open>The process runner\<close>

text \<open>
  \<open>args = [str(x) for x in args]\<close> and the four lines after it: the program's name is
  put in front of the arguments, or replaces a first argument that spells it in any
  case. \<open>args[0]\<close> of an empty list raises \<open>IndexError\<close>. The arguments are strings
  here: \<open>str\<close> has been applied to them by the caller of the model, and an argument
  whose \<open>__str__\<close> raises is outside it. The first argument is compared in lower case;
  no character outside ASCII has a lower-case form that is an ASCII letter of \<open>sox\<close> or
  \<open>play\<close>, so the comparison is Python's on every string.
\<close>

definition program_args :: "string \<Rightarrow> string list \<Rightarrow> string list result" where
  "program_args name args =
     (case args of
        [] \<Rightarrow> Inl IndexError
      | a # rest \<Rightarrow> if py_lower a \<noteq> name then Inr (name # a # rest) else Inr (name # rest))"

text \<open>
  The second argument of \<open>sox\<close>: \<open>None\<close>, a numpy array, or an object of another type.
\<close>

datatype src_array = No_array | Nd_array ndarray | Not_array

text \<open>The second component of the result: decoded text, or the bytes as they came.\<close>

datatype out_value = Text string | Raw bytes

definition sox ::
  "world \<Rightarrow> string list \<Rightarrow> src_array \<Rightarrow> bool \<Rightarrow> (int \<times> out_value option \<times> string option) sox_io"
where
  "sox w args src decode_out_with_utf =
     bind_io (lift_io (program_args ''sox'' args)) (\<lambda>argv.
       catch_io
         (then_io (log INFO (Executing (py_join '' '' argv)))
           (bind_io
              (case src of
                 No_array \<Rightarrow>
                   bind_io (communicate w argv None) (\<lambda>p.
                     if decode_out_with_utf
                     then bind_io (lift_io (decode_utf8 (stdout p))) (\<lambda>out.
                            return_io (p, Text out))
                     else return_io (p, Raw (stdout p)))
               | Nd_array a \<Rightarrow>
                   bind_io (communicate w argv (Some (tobytes_F (T a)))) (\<lambda>p.
                     return_io (p, Raw (stdout p)))
               | Not_array \<Rightarrow> raise_io TypeError)
              (\<lambda>(p, out).
                 then_io (log INFO SoX_took)
                   (bind_io (lift_io (decode_utf8 (stderr p))) (\<lambda>err.
                      return_io (returncode p, Some out, Some err))))))
         (\<lambda>e. if e = OSError \<or> e = TypeError
               then Some (then_io (log ERROR (SoX_failed e)) (return_io (1, None, None)))
               else None))"

section \<open>The format probe and the module constants\<close>

definition formats_marker :: string where
  "formats_marker = ''AUDIO FILE FORMATS:''"

definition get_valid_formats :: "world \<Rightarrow> bool \<Rightarrow> string list sox_io" where
  "get_valid_formats w no_sox =
     (if no_sox then return_io []
      else bind_io (check_output w [''sox'', ''-h'']) (\<lambda>so.
             bind_io (lift_io (decode_utf8 so)) (\<lambda>so.
               let so = py_split (CHR 0x0A) so in
               case filter (\<lambda>i. py_contains formats_marker (so ! i)) [0 ..< length so] of
                 [] \<Rightarrow> raise_io IndexError
               | idx # _ \<Rightarrow> return_io (slice_from 3 (py_split (CHR '' '') (so ! idx))))))"

text \<open>
  \<open>__init__.py\<close>: \<open>os.popen("sox -h")\<close> runs the command through the shell and
  \<open>readlines\<close> reads what it prints as text, which raises \<open>UnicodeDecodeError\<close> on
  bytes that do not decode (the encoding of the locale is taken to be UTF-8). There is
  no line at all exactly when the text is empty, and this sets \<open>NO_SOX\<close>. The exit
  status of the shell is not looked at.
\<close>

definition probe_no_sox :: "world \<Rightarrow> bool sox_io" where
  "probe_no_sox w =
     bind_io (communicate w [''/bin/sh'', ''-c'', ''sox -h''] None) (\<lambda>p.
       bind_io (lift_io (decode_utf8 (stdout p))) (\<lambda>lines.
         if lines = [] then then_io (log WARNING SoX_not_found) (return_io True)
         else return_io False))"

record sox_module =
  NO_SOX :: bool
  VALID_FORMATS :: "string list"

text \<open>
  Importing the package: \<open>NO_SOX\<close> first, then \<open>VALID_FORMATS = _get_valid_formats()\<close>
  when \<open>from . import file_info\<close> loads \<open>core\<close>. Both are assigned once and read ever
  after. The imports that follow in \<open>__init__.py\<close> (\<open>combine\<close>, \<open>transform\<close>,
  \<open>version\<close>) load modules that are not among the sources; \<open>import_sox\<close> is the import
  up to them.
\<close>

definition import_sox :: "world \<Rightarrow> sox_module sox_io" where
  "import_sox w =
     bind_io (probe_no_sox w) (\<lambda>no_sox.
       bind_io (get_valid_formats w no_sox) (\<lambda>formats.
         return_io \<lparr>NO_SOX = no_sox, VALID_FORMATS = formats\<rparr>))"

section \<open>Introspection\<close>

definition soxi :: "world \<Rightarrow> string \<Rightarrow> string \<Rightarrow> string sox_io" where
  "soxi w filepath argument =
     (if argument \<notin> set SOXI_ARGS then raise_io ValueError
      else
        bind_io
          (catch_io (check_output w [''sox'', ''--i'', ''-'' @ argument, filepath])
             (\<lambda>e. case e of
                     CalledProcessError rc out \<Rightarrow>
                       Some (then_io (log INFO (SoXI_error_message out))
                               (raise_io (SoxiError rc)))
                   | _ \<Rightarrow> None))
          (\<lambda>shell_output.
             bind_io (lift_io (decode_utf8 shell_output)) (\<lambda>shell_output.
               return_io (py_strip [CHR 0x0A, CHR 0x0D] shell_output))))"

section \<open>Playback\<close>

definition play :: "world \<Rightarrow> string list \<Rightarrow> bool sox_io" where
  "play w args =
     bind_io (lift_io (program_args ''play'' args)) (\<lambda>argv.
       catch_io
         (then_io (log INFO (Executing (py_join '' '' argv)))
           (bind_io (wait w argv) (\<lambda>status.
              then_io (log INFO Play_stderr_handle)
                (if status = 0 then return_io True
                 else then_io (log INFO (Play_returned status)) (return_io False)))))
         (\<lambda>e. if e = OSError \<or> e = TypeError
               then Some (then_io (log ERROR (Play_failed e)) (return_io False))
               else None))"

section \<open>Helpers\<close>

text \<open>
  The values \<open>is_number\<close> is applied to, by what \<open>float\<close> does with them. \<open>Py_other\<close>
  stands for the objects \<open>float\<close> refuses with a \<open>TypeError\<close> (a list, a dictionary);
  an object with a \<open>__float__\<close> method of its own may do anything and is not a value
  of this type.
\<close>

datatype pyobj =
    Py_str string
  | Py_bytes bytes
  | Py_int int
  | Py_float pyfloat
  | Py_bool bool
  | Py_none
  | Py_other

text \<open>
  \<open>float(var)\<close>: a string is read, and so are bytes (by the same grammar, which is all
  ASCII); a number is converted, anything else is a \<open>TypeError\<close>. An integer that rounds
  to more than the largest double is an \<open>OverflowError\<close>, which \<open>is_number\<close> does not
  catch.
\<close>

definition float_of :: "pyobj \<Rightarrow> pyfloat result" where
  "float_of var =
     (case var of
        Py_str s \<Rightarrow> of_option ValueError (py_float s)
      | Py_bytes b \<Rightarrow> of_option ValueError (py_float b)
      | Py_int i \<Rightarrow>
          if 2 ^ 1024 - 2 ^ 970 \<le> \<bar>i\<bar> then Inl OverflowError else Inr (Finite (of_int i))
      | Py_float x \<Rightarrow> Inr x
      | Py_bool b \<Rightarrow> Inr (Finite (if b then 1 else 0))
      | Py_none \<Rightarrow> Inl TypeError
      | Py_other \<Rightarrow> Inl TypeError)"

definition is_number :: "pyobj \<Rightarrow> bool result" where
  "is_number var =
     (case float_of var of
        Inr x \<Rightarrow> Inr True
      | Inl e \<Rightarrow> if e = ValueError \<or> e = TypeError then Inr False else Inl e)"

text \<open>
  \<open>len(set(list_of_things)) <= 1\<close>. The elements are values that Python hashes and
  compares by their content (strings, numbers, tuples of them), for which the number of
  elements of the set is the number of distinct values. A list with an element that
  cannot be hashed (\<open>TypeError\<close>) and floats that are \<open>NaN\<close> are outside the model.
\<close>

definition all_equal :: "'a list \<Rightarrow> bool" where
  "all_equal list_of_things = (length (remdups list_of_things) \<le> 1)"

text \<open>The module as it is after an import in \<open>demo_world\<close>.\<close>

definition demo_module :: sox_module where
  "demo_module = \<lparr>NO_SOX = False, VALID_FORMATS = [''wav'', ''mp3'']\<rparr>"

named_theorems core_defs "the operations of core.py"

lemmas [core_defs] =
  SOXI_ARGS_def program_args_def sox_def formats_marker_def get_valid_formats_def
  probe_no_sox_def import_sox_def soxi_def play_def float_of_def is_number_def
  all_equal_def

section \<open>The runner's contract\<close>

text \<open>
  What a call of the runner promises, as a table over what the world answers: the
  standard input the process gets, and for each outcome of the launch the result and the
  events. \<open>sox\<close> is then shown to be this table.
\<close>

definition stdin_of :: "src_array \<Rightarrow> bytes option" where
  "stdin_of src = (case src of Nd_array a \<Rightarrow> Some (tobytes_F (T a)) | _ \<Rightarrow> None)"

definition run_contract ::
  "world \<Rightarrow> string list \<Rightarrow> src_array \<Rightarrow> bool \<Rightarrow> (int \<times> out_value option \<times> string option) sox_io"
where
  "run_contract w argv src decode =
     (let started = Log INFO (Executing (py_join '' '' argv));
          spawn = Spawn argv (stdin_of src)
      in if src = Not_array
         then (Inr (1, None, None), [started, Log ERROR (SoX_failed TypeError)])
         else case run_process w argv (stdin_of src) of
           Launch_failed \<Rightarrow>
             (Inr (1, None, None), [started, spawn, Log ERROR (SoX_failed OSError)])
         | Exited p \<Rightarrow>
             if src = No_array \<and> decode \<and> \<not> utf8_valid (stdout p)
             then (Inl UnicodeDecodeError, [started, spawn])
             else if \<not> utf8_valid (stderr p)
             then (Inl UnicodeDecodeError, [started, spawn, Log INFO SoX_took])
             else (Inr (returncode p,
                        Some (if src = No_array \<and> decode then Text (stdout p)
                              else Raw (stdout p)),
                        Some (stderr p)),
                   [started, spawn, Log INFO SoX_took]))"

text \<open>The same for the introspection call and for playback.\<close>

definition soxi_argv :: "string \<Rightarrow> string \<Rightarrow> string list" where
  "soxi_argv filepath argument = [''sox'', ''--i'', ''-'' @ argument, filepath]"

definition soxi_contract :: "world \<Rightarrow> string \<Rightarrow> string \<Rightarrow> string sox_io" where
  "soxi_contract w filepath argument =
     (let spawn = Spawn (soxi_argv filepath argument) None
      in case run_process w (soxi_argv filepath argument) None of
           Launch_failed \<Rightarrow> (Inl OSError, [spawn])
         | Exited p \<Rightarrow>
             if returncode p \<noteq> 0
             then (Inl (SoxiError (returncode p)),
                   [spawn, Log INFO (SoXI_error_message (stdout p))])
             else if \<not> utf8_valid (stdout p) then (Inl UnicodeDecodeError, [spawn])
             else (Inr (py_strip [CHR 0x0A, CHR 0x0D] (stdout p)), [spawn]))"

definition play_contract :: "world \<Rightarrow> string list \<Rightarrow> bool sox_io" where
  "play_contract w argv =
     (let started = Log INFO (Executing (py_join '' '' argv)); spawn = Spawn argv None
      in case run_process w argv None of
           Launch_failed \<Rightarrow> (Inr False, [started, spawn, Log ERROR (Play_failed OSError)])
         | Exited p \<Rightarrow>
             if pipe_capacity w < length (stdout p) \<or> pipe_capacity w < length (stderr p)
             then (Inl Hang, [started, spawn])
             else if returncode p = 0
             then (Inr True, [started, spawn, Log INFO Play_stderr_handle])
             else (Inr False, [started, spawn, Log INFO Play_stderr_handle,
                               Log INFO (Play_returned (returncode p))]))"

text \<open>
  The format list as a reading of the help text: the first line that holds the marker,
  split at single spaces, without its first three pieces.
\<close>

definition formats_of_help :: "string \<Rightarrow> string list result" where
  "formats_of_help so =
     (case List.find (py_contains formats_marker) (py_split (CHR 0x0A) so) of
        None \<Rightarrow> Inl IndexError
      | Some line \<Rightarrow> Inr (drop 3 (py_split (CHR '' '') line)))"

section \<open>Facts: the argument vector\<close>

lemma program_args_Nil [simp]: "program_args name [] = Inl IndexError"
  by (simp add: program_args_def)

lemma program_args_Cons:
  "program_args name (a # rest) =
     Inr (if py_lower a \<noteq> name then name # a # rest else name # rest)"
  by (simp add: program_args_def)

lemma program_args_Inr:
  "program_args name args = Inr argv \<Longrightarrow>
   args \<noteq> [] \<and> hd argv = name \<and> (tl argv = args \<or> tl argv = tl args)"
  by (cases args) (auto simp: program_args_def split: if_splits)

lemma program_args_tl:
  "program_args name args = Inr argv \<Longrightarrow>
   tl argv = (if py_lower (hd args) = name then tl args else args)"
  by (cases args) (auto simp: program_args_def split: if_splits)

lemma program_args_Inl: "program_args name args = Inl e \<longleftrightarrow> args = [] \<and> e = IndexError"
  by (cases args) (auto simp: program_args_def)

lemma program_args_idem:
  "py_lower name = name \<Longrightarrow> program_args name args = Inr argv \<Longrightarrow>
   program_args name argv = Inr argv"
  by (cases args) (auto simp: program_args_def split: if_splits)

section \<open>Facts: the process runner\<close>

lemma sox_Nil: "sox w [] src d = raise_io IndexError"
  by (simp add: sox_def)

lemma sox_runs:
  assumes "program_args ''sox'' args = Inr argv"
  shows "sox w args src d = run_contract w argv src d"
proof (cases src)
  case No_array
  show ?thesis
  proof (cases "run_process w argv None")
    case Launch_failed
    with No_array assms show ?thesis
      by (simp add: sox_def run_contract_def stdin_of_def io_defs)
  next
    case (Exited p)
    with No_array assms show ?thesis
      by (cases d; cases "utf8_valid (stdout p)"; cases "utf8_valid (stderr p)")
         (simp_all add: sox_def run_contract_def stdin_of_def io_defs decode_utf8_def)
  qed
next
  case (Nd_array a)
  show ?thesis
  proof (cases "run_process w argv (Some (tobytes_F (T a)))")
    case Launch_failed
    with Nd_array assms show ?thesis
      by (simp add: sox_def run_contract_def stdin_of_def io_defs)
  next
    case (Exited p)
    with Nd_array assms show ?thesis
      by (cases "utf8_valid (stderr p)")
         (simp_all add: sox_def run_contract_def stdin_of_def io_defs decode_utf8_def)
  qed
next
  case Not_array
  with assms show ?thesis
    by (simp add: sox_def run_contract_def stdin_of_def io_defs)
qed

lemma run_contract_events:
  "events_of (run_contract w argv src d) \<noteq> [] \<and>
   hd (events_of (run_contract w argv src d)) = Log INFO (Executing (py_join '' '' argv)) \<and>
   filter is_spawn (events_of (run_contract w argv src d)) =
     (if src = Not_array then [] else [Spawn argv (stdin_of src)])"
  by (simp add: run_contract_def Let_def split: launch.splits)

lemma run_contract_result:
  "result_of (run_contract w argv src d) = Inr (st, out, err) \<Longrightarrow>
   (out = None \<longleftrightarrow> err = None) \<and> (out = None \<longrightarrow> st = 1)"
  by (auto simp: run_contract_def Let_def split: launch.splits if_splits)

section \<open>Facts: introspection and playback\<close>

lemma soxi_invalid:
  "argument \<notin> set SOXI_ARGS \<Longrightarrow> soxi w filepath argument = raise_io ValueError"
  by (simp add: soxi_def)

lemma soxi_runs:
  assumes "argument \<in> set SOXI_ARGS"
  shows "soxi w filepath argument = soxi_contract w filepath argument"
proof (cases "run_process w (soxi_argv filepath argument) None")
  case Launch_failed
  with assms show ?thesis
    by (simp add: soxi_def soxi_contract_def soxi_argv_def io_defs)
next
  case (Exited p)
  with assms show ?thesis
    by (cases "returncode p = 0"; cases "utf8_valid (stdout p)")
       (simp_all add: soxi_def soxi_contract_def soxi_argv_def io_defs decode_utf8_def)
qed

lemma soxi_contract_spawns:
  "filter is_spawn (events_of (soxi_contract w filepath argument)) =
     [Spawn (soxi_argv filepath argument) None]"
  by (simp add: soxi_contract_def Let_def split: launch.splits)

lemma play_Nil: "play w [] = raise_io IndexError"
  by (simp add: play_def)

lemma play_runs:
  assumes "program_args ''play'' args = Inr argv"
  shows "play w args = play_contract w argv"
proof (cases "run_process w argv None")
  case Launch_failed
  with assms show ?thesis
    by (simp add: play_def play_contract_def io_defs)
next
  case (Exited p)
  with assms show ?thesis
    by (cases "pipe_capacity w < length (stdout p) \<or> pipe_capacity w < length (stderr p)";
        cases "returncode p = 0")
       (simp_all add: play_def play_contract_def io_defs)
qed

section \<open>Facts: the format probe\<close>

lemma index_filter_Cons:
  "filter (\<lambda>i. P ((x # xs) ! i)) [0 ..< Suc (length xs)] =
     (if P x then [0] else []) @ map Suc (filter (\<lambda>i. P (xs ! i)) [0 ..< length xs])"
  by (simp add: upt_conv_Cons map_Suc_upt [symmetric] filter_map comp_def del: upt_Suc)

text \<open>\<open>[i for i in range(len(xs)) if P(xs[i])][0]\<close> is the place of the first hit.\<close>

lemma first_index_find:
  "(case filter (\<lambda>i. P (xs ! i)) [0 ..< length xs] of [] \<Rightarrow> a | idx # _ \<Rightarrow> f (xs ! idx)) =
   (case List.find P xs of None \<Rightarrow> a | Some x \<Rightarrow> f x)"
proof (induction xs)
  case Nil
  then show ?case by simp
next
  case (Cons x xs)
  show ?case
  proof (cases "P x")
    case True
    then show ?thesis by (simp add: index_filter_Cons del: upt_Suc)
  next
    case False
    with Cons show ?thesis
      by (cases "filter (\<lambda>i. P (xs ! i)) [0 ..< length xs]")
         (simp_all add: index_filter_Cons del: upt_Suc)
  qed
qed

lemma get_valid_formats_runs:
  "get_valid_formats w False =
     bind_io (check_output w [''sox'', ''-h'']) (\<lambda>so.
       bind_io (lift_io (decode_utf8 so)) (\<lambda>so. lift_io (formats_of_help so)))"
proof -
  have "(let so = py_split (CHR 0x0A) s in
           case filter (\<lambda>i. py_contains formats_marker (so ! i)) [0 ..< length so] of
             [] \<Rightarrow> raise_io IndexError
           | idx # _ \<Rightarrow> return_io (slice_from 3 (py_split (CHR '' '') (so ! idx)))) =
        (lift_io (formats_of_help s) :: string list sox_io)" for s
    unfolding Let_def formats_of_help_def
    by (subst first_index_find
          [where f = "\<lambda>l. return_io (slice_from 3 (py_split (CHR '' '') l))"])
       (simp add: slice_from_def io_defs split: option.splits)
  then show ?thesis by (simp add: get_valid_formats_def)
qed

section \<open>Facts: helpers\<close>

lemma is_number_str: "is_number (Py_str s) = Inr (py_float s \<noteq> None)"
  by (cases "py_float s") (simp_all add: is_number_def float_of_def)

section \<open>Facts: derived forms\<close>

lemma sox_Cons:
  "sox w (a # rest) src d =
     run_contract w (if py_lower a \<noteq> ''sox'' then ''sox'' # a # rest else ''sox'' # rest) src d"
  by (rule sox_runs) (simp add: program_args_Cons)

lemma run_contract_launch_failed:
  "src \<noteq> Not_array \<Longrightarrow> run_process w argv (stdin_of src) = Launch_failed \<Longrightarrow>
   run_contract w argv src d =
     (Inr (1, None, None),
      [Log INFO (Executing (py_join '' '' argv)), Spawn argv (stdin_of src),
       Log ERROR (SoX_failed OSError)])"
  by (simp add: run_contract_def)

lemma run_contract_text_result:
  "result_of (run_contract w argv No_array True) =
     (case run_process w argv None of
        Launch_failed \<Rightarrow> Inr (1, None, None)
      | Exited pr \<Rightarrow>
          if \<not> utf8_valid (stdout pr) \<or> \<not> utf8_valid (stderr pr) then Inl UnicodeDecodeError
          else Inr (returncode pr, Some (Text (stdout pr)), Some (stderr pr)))"
  by (simp add: run_contract_def stdin_of_def Let_def split: launch.splits)

lemma soxi_contract_result:
  "result_of (soxi_contract w filepath argument) =
     (case run_process w (soxi_argv filepath argument) None of
        Launch_failed \<Rightarrow> Inl OSError
      | Exited p \<Rightarrow>
          if returncode p \<noteq> 0 then Inl (SoxiError (returncode p))
          else if \<not> utf8_valid (stdout p) then Inl UnicodeDecodeError
          else Inr (py_strip [CHR 0x0A, CHR 0x0D] (stdout p)))"
  by (simp add: soxi_contract_def Let_def split: launch.splits)

lemma soxi_result_Inr:
  "result_of (soxi w filepath argument) = Inr out \<longleftrightarrow>
     argument \<in> set SOXI_ARGS \<and>
     (\<exists>p. run_process w (soxi_argv filepath argument) None = Exited p \<and> returncode p = 0 \<and>
          utf8_valid (stdout p) \<and> out = py_strip [CHR 0x0A, CHR 0x0D] (stdout p))"
  by (cases "argument \<in> set SOXI_ARGS")
     (auto simp: soxi_runs soxi_invalid soxi_contract_result split: launch.splits)

lemma soxi_result_stripped:
  "result_of (soxi w p a) = Inr out \<Longrightarrow> py_strip [CHR 0x0D, CHR 0x0A] out = out"
proof -
  assume "result_of (soxi w p a) = Inr out"
  then obtain s where "out = py_strip [CHR 0x0A, CHR 0x0D] s"
    by (auto simp: soxi_result_Inr)
  moreover have "py_strip [CHR 0x0D, CHR 0x0A] t = py_strip [CHR 0x0A, CHR 0x0D] t" for t
    by (rule py_strip_set_cong) auto
  ultimately show ?thesis by simp
qed

lemma play_Cons:
  "play w (a # rest) =
     play_contract w (if py_lower a \<noteq> ''play'' then ''play'' # a # rest else ''play'' # rest)"
  by (rule play_runs) (simp add: program_args_Cons)

lemma get_valid_formats_no_sox: "get_valid_formats w True = return_io []"
  by (simp add: get_valid_formats_def)

lemma marker_line_contains:
  "py_contains formats_marker (py_join '' '' ([''AUDIO'', ''FILE'', ''FORMATS:''] @ fmts))"
  by (cases fmts) (simp_all add: formats_marker_def)

lemma marker_line_split:
  assumes "\<forall>f \<in> set fmts. CHR '' '' \<notin> set f"
  shows "py_split (CHR '' '') (py_join '' '' ([''AUDIO'', ''FILE'', ''FORMATS:''] @ fmts)) =
           [''AUDIO'', ''FILE'', ''FORMATS:''] @ fmts"
  using assms by (intro py_split_join) auto

lemma marker_line_no_newline:
  assumes "\<forall>f \<in> set fmts. CHR 0x0A \<notin> set f"
  shows "CHR 0x0A \<notin> set (py_join '' '' ([''AUDIO'', ''FILE'', ''FORMATS:''] @ fmts))"
proof -
  have "set (py_join sep ws) \<subseteq> set sep \<union> \<Union> (set ` set ws)" for sep ws
    by (induction ws) auto
  from this [of "'' ''" "[''AUDIO'', ''FILE'', ''FORMATS:''] @ fmts"] assms
  show ?thesis by auto
qed

lemma probe_no_sox_result:
  "result_of (probe_no_sox w) =
     (case run_process w [''/bin/sh'', ''-c'', ''sox -h''] None of
        Launch_failed \<Rightarrow> Inl OSError
      | Exited p \<Rightarrow>
          if utf8_valid (stdout p) then Inr (stdout p = []) else Inl UnicodeDecodeError)"
  by (simp add: probe_no_sox_def io_defs decode_utf8_def split: launch.splits)

lemma probe_no_sox_runs:
  assumes "run_process w [''/bin/sh'', ''-c'', ''sox -h''] None = Exited p"
    and "utf8_valid (stdout p)"
  shows "probe_no_sox w =
           (Inr (stdout p = []),
            Spawn [''/bin/sh'', ''-c'', ''sox -h''] None #
              (if stdout p = [] then [Log WARNING SoX_not_found] else []))"
  using assms by (simp add: probe_no_sox_def io_defs decode_utf8_def)

lemma formats_of_help_marker_line:
  assumes "\<forall>l \<in> set before. \<not> py_contains formats_marker l"
    and "\<forall>l \<in> set (before @ after). CHR 0x0A \<notin> set l"
    and "\<forall>f \<in> set fmts. CHR '' '' \<notin> set f \<and> CHR 0x0A \<notin> set f"
  shows "formats_of_help
           (py_join [CHR 0x0A]
              (before @ py_join '' '' ([''AUDIO'', ''FILE'', ''FORMATS:''] @ fmts) # after)) =
         Inr fmts"
proof -
  let ?line = "py_join '' '' ([''AUDIO'', ''FILE'', ''FORMATS:''] @ fmts)"
  from assms(2,3) have "\<forall>l \<in> set (before @ ?line # after). CHR 0x0A \<notin> set l"
    using marker_line_no_newline [of fmts] by auto
  then have "py_split (CHR 0x0A) (py_join [CHR 0x0A] (before @ ?line # after)) =
             before @ ?line # after"
    by (intro py_split_join) auto
  moreover have "List.find (py_contains formats_marker) (before @ ?line # after) = Some ?line"
    using assms(1) marker_line_contains by (rule find_first)
  ultimately show ?thesis
    using assms(3) by (simp add: formats_of_help_def marker_line_split del: append.simps)
qed

lemma get_valid_formats_help:
  assumes "run_process w [''sox'', ''-h''] None = Exited p"
    and "returncode p = 0" and "utf8_valid (stdout p)"
  shows "get_valid_formats w False = (formats_of_help (stdout p), [Spawn [''sox'', ''-h''] None])"
  using assms by (simp add: get_valid_formats_runs io_defs decode_utf8_def)

lemma soxi_result:
  "result_of (soxi w filepath argument) =
     (if argument \<notin> set SOXI_ARGS then Inl ValueError
      else result_of (soxi_contract w filepath argument))"
  by (simp add: soxi_runs soxi_invalid)

text \<open>
  An array argument of the wrong type gives the sentinel: \<open>(1, None, None)\<close>, and no
  process is launched.
\<close>

lemma sox_wrong_type_sentinel:
  "result_of (sox w (a # rest) Not_array decode) = Inr (1, None, None) \<and>
   filter is_spawn (events_of (sox w (a # rest) Not_array decode)) = []"
  by (simp add: sox_Cons run_contract_def)

text \<open>
  The module constants agree: after an import that succeeds, \<open>NO_SOX\<close> implies that
  \<open>VALID_FORMATS\<close> is empty.
\<close>

lemma import_sox_formats_invariant:
  assumes "result_of (import_sox w) = Inr m"
  shows "NO_SOX m \<longrightarrow> VALID_FORMATS m = []"
  using assms
  by (auto simp: import_sox_def result_of_bind get_valid_formats_no_sox split: sum.splits)

section \<open>Properties\<close>

text \<open>
  C1. The runner implements its contract. Whatever the world answers, \<open>sox\<close> called with a
  non-empty argument list returns the result and emits the events that \<open>run_contract\<close>
  lists for the normalised argument vector, on every branch: an argument of the wrong
  type, a launch that fails, output that does not decode, a process that exits. With an
  empty list it raises \<open>IndexError\<close> and does nothing else.
\<close>

theorem sox_refines_run_contract:
  "sox w args src decode =
     (case program_args ''sox'' args of
        Inl e \<Rightarrow> raise_io e
      | Inr argv \<Rightarrow> run_contract w argv src decode)"
  by (cases args) (simp_all add: sox_Nil sox_Cons program_args_Cons)

text \<open>
  C3. The introspection call implements its contract. An argument that is not one of the nine
  codes raises \<open>ValueError\<close> before any process is launched; for a code, \<open>soxi\<close> is
  \<open>soxi_contract\<close>: one launch of \<open>sox --i -code file\<close>, then \<open>SoxiError\<close> with the
  exit status when it is not zero, and the decoded, stripped output when it is.
\<close>

theorem soxi_refines_contract:
  "soxi w filepath argument =
     (if argument \<in> set SOXI_ARGS then soxi_contract w filepath argument
      else raise_io ValueError)"
  by (simp add: soxi_runs soxi_invalid)

text \<open>
  C6. A launch that fails is reported, not raised. When the executable cannot be started,
  \<open>sox\<close> returns \<open>(1, None, None)\<close>; its events are the command line, the one launch
  attempt, and the error record.
\<close>

theorem sox_launch_failure_sentinel:
  assumes "program_args ''sox'' args = Inr argv"
    and "src \<noteq> Not_array"
    and "run_process w argv (stdin_of src) = Launch_failed"
  shows "sox w args src decode =
     (Inr (1, None, None),
      [Log INFO (Executing (py_join '' '' argv)), Spawn argv (stdin_of src),
       Log ERROR (SoX_failed OSError)])"
  using assms by (simp add: sox_runs run_contract_launch_failed)

theorem sox_launch_failure_sentinel_witness:
  "sox no_tool_world [''a.wav'', ''b.wav''] No_array True =
     (Inr (1, None, None),
      [Log INFO (Executing ''sox a.wav b.wav''), Spawn [''sox'', ''a.wav'', ''b.wav''] None,
       Log ERROR (SoX_failed OSError)])"
  using sox_launch_failure_sentinel
    [of "[''a.wav'', ''b.wav'']" "[''sox'', ''a.wav'', ''b.wav'']" No_array no_tool_world True]
  by (simp add: program_args_def py_defs stdin_of_def demo_defs)

text \<open>
  C8. Playback succeeds exactly on exit status zero. For a non-empty argument list \<open>play\<close>
  returns \<open>True\<close> if and only if the process started, exited with status \<open>0\<close>, and printed
  no more on either stream than its pipe holds.
\<close>

theorem play_true_iff_exit_zero:
  assumes "program_args ''play'' args = Inr argv"
  shows "result_of (play w args) = Inr True \<longleftrightarrow>
     (\<exists>p. run_process w argv None = Exited p \<and> returncode p = 0 \<and>
          length (stdout p) \<le> pipe_capacity w \<and> length (stderr p) \<le> pipe_capacity w)"
  using assms by (auto simp: play_runs play_contract_def Let_def split: launch.splits)

theorem play_true_iff_exit_zero_witness:
  "result_of (play demo_world [''a.wav'']) = Inr True"
  using play_true_iff_exit_zero [of "[''a.wav'']" "[''play'', ''a.wav'']" demo_world]
  by (simp add: program_args_def py_defs demo_defs)

text \<open>
  C10. The samples are written frame by frame. For a rectangular array \<open>a\<close>, the one process
  \<open>sox\<close> launches gets \<open>tobytes_C a\<close> on its standard input: the rows of \<open>a\<close> in order,
  the transposition and the Fortran order of the source cancelling each other.
\<close>

theorem sox_stdin_frame_order:
  assumes "rectangular a" and "program_args ''sox'' args = Inr argv"
  shows "filter is_spawn (events_of (sox w args (Nd_array a) decode)) =
           [Spawn argv (Some (tobytes_C a))]"
  using assms by (simp add: sox_runs run_contract_events stdin_of_def tobytes_F_T)

theorem sox_stdin_frame_order_witness:
  "filter is_spawn
     (events_of (sox demo_world [''-t'', ''raw'', ''-'', ''a.wav'']
        (Nd_array (Array2 [[''L0'', ''R0''], [''L1'', ''R1'']])) False)) =
   [Spawn [''sox'', ''-t'', ''raw'', ''-'', ''a.wav''] (Some ''L0R0L1R1'')]"
  using sox_stdin_frame_order
    [of "Array2 [[''L0'', ''R0''], [''L1'', ''R1'']]" "[''-t'', ''raw'', ''-'', ''a.wav'']"
        "[''sox'', ''-t'', ''raw'', ''-'', ''a.wav'']" demo_world False]
  by (simp add: program_args_def py_defs)

text \<open>
  C13. The result triple is well formed. In whatever \<open>sox\<close> returns, the output is \<open>None\<close>
  exactly when the error text is \<open>None\<close>, and then the status is \<open>1\<close>.
\<close>

theorem sox_result_invariant:
  assumes "result_of (sox w args src decode) = Inr (status, out, err)"
  shows "(out = None \<longleftrightarrow> err = None) \<and> (out = None \<longrightarrow> status = 1)"
proof (cases args)
  case Nil
  with assms show ?thesis by (simp add: sox_Nil)
next
  case (Cons a rest)
  with assms show ?thesis by (simp only: sox_Cons) (rule run_contract_result)
qed

theorem sox_result_invariant_witness:
  "result_of (sox demo_world [''-t'', ''raw'', ''-'', ''a.wav''] (Nd_array (Array1 [''ab''])) False)
     = Inr (0, Some (Raw []), Some []) \<and>
   (Some (Raw []) = None \<longleftrightarrow> Some ([] :: string) = None)"
  using sox_result_invariant
    [of demo_world "[''-t'', ''raw'', ''-'', ''a.wav'']" "Nd_array (Array1 [''ab''])" False
        0 "Some (Raw [])" "Some []"]
  by (simp add: sox_Cons run_contract_def stdin_of_def py_defs demo_defs)

text \<open>
  C18. Output that does not decode is raised. When the process prints an error stream that
  is not valid UTF-8, or such an output stream while decoding is asked for, \<open>sox\<close> raises
  \<open>UnicodeDecodeError\<close>; its handler does not catch it.
\<close>

theorem sox_decode_error_escapes:
  assumes "program_args ''sox'' args = Inr argv"
    and "run_process w argv None = Exited p"
    and "\<not> utf8_valid (stderr p) \<or> (decode \<and> \<not> utf8_valid (stdout p))"
  shows "result_of (sox w args No_array decode) = Inl UnicodeDecodeError"
  using assms by (auto simp: sox_runs run_contract_def stdin_of_def Let_def)

theorem sox_decode_error_escapes_witness:
  "result_of (sox demo_world [''a.wav'', ''-n''] No_array False) = Inl UnicodeDecodeError"
  using sox_decode_error_escapes
    [of "[''a.wav'', ''-n'']" "[''sox'', ''a.wav'', ''-n'']" demo_world
        "\<lparr>returncode = 0, stdout = [], stderr = [CHR 0xFF]\<rparr>" False]
  by (simp add: program_args_def py_defs demo_defs byte_def in_range_def)

text \<open>
  C19. \<open>soxi\<close> raises \<open>OSError\<close> when the executable cannot be started: its handler is for
  \<open>CalledProcessError\<close> only.
\<close>

theorem soxi_launch_failure_escapes:
  assumes "argument \<in> set SOXI_ARGS"
    and "run_process w (soxi_argv filepath argument) None = Launch_failed"
  shows "result_of (soxi w filepath argument) = Inl OSError"
  using assms by (simp add: soxi_runs soxi_contract_result)

theorem soxi_launch_failure_escapes_witness:
  "result_of (soxi no_tool_world ''a.wav'' ''c'') = Inl OSError"
  using soxi_launch_failure_escapes [of "''c''" no_tool_world "''a.wav''"]
  by (simp add: SOXI_ARGS_def soxi_argv_def demo_defs)

text \<open>
  C20. Playback can block for ever. When the process prints more on one stream than its pipe
  holds, \<open>play\<close> does not return: it waits for a process that waits for its pipe to be
  read. The outcome is \<open>Hang\<close>, after the command line and the launch.
\<close>

theorem play_hangs:
  assumes "program_args ''play'' args = Inr argv"
    and "run_process w argv None = Exited p"
    and "pipe_capacity w < length (stdout p) \<or> pipe_capacity w < length (stderr p)"
  shows "play w args =
     (Inl Hang, [Log INFO (Executing (py_join '' '' argv)), Spawn argv None])"
  using assms by (auto simp: play_runs play_contract_def)

theorem play_hangs_witness:
  "play demo_world [''b.wav''] =
     (Inl Hang, [Log INFO (Executing ''play b.wav''), Spawn [''play'', ''b.wav''] None])"
  using play_hangs
    [of "[''b.wav'']" "[''play'', ''b.wav'']" demo_world
        "\<lparr>returncode = 0, stdout = [], stderr = replicate 65537 (CHR ''x'')\<rparr>"]
  by (simp add: program_args_def py_defs demo_defs)

text \<open>
  C21. A failing query is raised with its status. When the process exits with a status other
  than zero, \<open>soxi\<close> logs what it printed and raises \<open>SoxiError\<close> with that status.
\<close>

theorem soxi_tool_failure:
  assumes "argument \<in> set SOXI_ARGS"
    and "run_process w (soxi_argv filepath argument) None = Exited p"
    and "returncode p \<noteq> 0"
  shows "soxi w filepath argument =
     (Inl (SoxiError (returncode p)),
      [Spawn (soxi_argv filepath argument) None, Log INFO (SoXI_error_message (stdout p))])"
  using assms by (simp add: soxi_runs soxi_contract_def)

theorem soxi_tool_failure_witness:
  "soxi demo_world ''b.wav'' ''t'' =
     (Inl (SoxiError 1),
      [Spawn [''sox'', ''--i'', ''-t'', ''b.wav''] None,
       Log INFO (SoXI_error_message ''sox FAIL formats'')])"
  using soxi_tool_failure
    [of "''t''" demo_world "''b.wav''"
        "\<lparr>returncode = 1, stdout = ''sox FAIL formats'', stderr = []\<rparr>"]
  by (simp add: SOXI_ARGS_def soxi_argv_def demo_defs)

text \<open>
  C22. What \<open>soxi\<close> returns is stripped at both ends: it neither begins nor ends with a
  newline or a carriage return, and stripping it again changes nothing.
\<close>

theorem soxi_output_stripped:
  assumes "result_of (soxi w filepath argument) = Inr out"
  shows "py_strip [CHR 0x0A, CHR 0x0D] out = out \<and>
         (out \<noteq> [] \<longrightarrow> hd out \<notin> {CHR 0x0A, CHR 0x0D} \<and> last out \<notin> {CHR 0x0A, CHR 0x0D})"
  using assms py_strip_hd [of "[CHR 0x0A, CHR 0x0D]"] py_strip_last [of "[CHR 0x0A, CHR 0x0D]"]
  by (auto simp: soxi_result_Inr)

theorem soxi_output_stripped_witness:
  "result_of (soxi demo_world ''a.wav'' ''c'') = Inr ''2'' \<and>
   py_strip [CHR 0x0A, CHR 0x0D] ''2'' = ''2''"
  using soxi_output_stripped [of demo_world "''a.wav''" "''c''" "''2''"]
  by (simp add: soxi_result_Inr SOXI_ARGS_def soxi_argv_def demo_defs py_defs ascii_valid
      byte_def)

text \<open>
  C23. Playback implements its contract: \<open>play\<close> is \<open>play_contract\<close> on the normalised
  argument vector, and raises \<open>IndexError\<close> for an empty list.
\<close>

theorem play_refines_contract:
  "play w args =
     (case program_args ''play'' args of
        Inl e \<Rightarrow> raise_io e
      | Inr argv \<Rightarrow> play_contract w argv)"
  by (cases args) (simp_all add: play_Nil play_Cons program_args_Cons)

text \<open>
  C24. One call, one process. \<open>sox\<close> launches no process for an empty argument list or an
  argument of the wrong type, and otherwise exactly one, with the normalised argument
  vector.
\<close>

theorem sox_spawns_once:
  "filter is_spawn (events_of (sox w args src decode)) =
     (case program_args ''sox'' args of
        Inl e \<Rightarrow> []
      | Inr argv \<Rightarrow> if src = Not_array then [] else [Spawn argv (stdin_of src)])"
  by (cases args) (simp_all add: sox_Nil sox_Cons program_args_Cons run_contract_events)

text \<open>
  C33. The format list is the rest of the marker line. When \<open>sox -h\<close> prints lines of which
  the first that holds the marker is \<open>AUDIO FILE FORMATS:\<close> followed by the formats, one
  space between them, \<open>get_valid_formats\<close> returns those formats in order.
\<close>

theorem get_valid_formats_reads_marker_line:
  assumes "run_process w [''sox'', ''-h''] None = Exited pr" and "returncode pr = 0"
    and "utf8_valid (stdout pr)"
    and "stdout pr = py_join [CHR 0x0A]
           (before @ py_join '' '' ([''AUDIO'', ''FILE'', ''FORMATS:''] @ fmts) # after)"
    and "\<forall>l \<in> set before. \<not> py_contains formats_marker l"
    and "\<forall>l \<in> set (before @ after). CHR 0x0A \<notin> set l"
    and "\<forall>f \<in> set fmts. CHR '' '' \<notin> set f \<and> CHR 0x0A \<notin> set f"
  shows "get_valid_formats w False = (Inr fmts, [Spawn [''sox'', ''-h''] None])"
  using assms(1-3) formats_of_help_marker_line [OF assms(5-7)]
  by (simp add: get_valid_formats_help assms(4))

theorem get_valid_formats_reads_marker_line_witness:
  "get_valid_formats demo_world False = (Inr [''wav'', ''mp3''], [Spawn [''sox'', ''-h''] None])"
  using get_valid_formats_reads_marker_line
    [of demo_world "\<lparr>returncode = 0, stdout = ''AUDIO FILE FORMATS: wav mp3'', stderr = []\<rparr>"
        "[]" "[''wav'', ''mp3'']" "[]"]
  by (simp add: demo_defs byte_def)

text \<open>
  C34. Normalisation puts the program's name first, once. The normalised vector starts with
  the name, normalising it again gives it back, and what follows the name is the given
  list, or the given list without a first element that spelled the name: the first
  element is dropped exactly when its lower-case form is the name, and kept otherwise.
\<close>

theorem program_args_normal_form:
  assumes "py_lower name = name" and "program_args name args = Inr argv"
  shows "hd argv = name \<and> program_args name argv = Inr argv \<and>
         (tl argv = args \<or> tl argv = tl args) \<and>
         args \<noteq> [] \<and> tl argv = (if py_lower (hd args) = name then tl args else args)"
  using assms program_args_Inr [of name args argv] program_args_idem [of name args argv]
    program_args_tl [of name args argv]
  by simp

theorem program_args_normal_form_witness:
  "program_args ''sox'' [''SoX'', ''a.wav''] = Inr [''sox'', ''a.wav''] \<and>
   program_args ''sox'' [''sox'', ''a.wav''] = Inr [''sox'', ''a.wav''] \<and>
   program_args ''sox'' [''socks'', ''a.wav''] = Inr [''sox'', ''socks'', ''a.wav'']"
  using program_args_normal_form [of "''sox''" "[''SoX'', ''a.wav'']" "[''sox'', ''a.wav'']"]
    program_args_normal_form
      [of "''sox''" "[''socks'', ''a.wav'']" "[''sox'', ''socks'', ''a.wav'']"]
  by (simp add: program_args_def py_defs)

text \<open>
  C35. An import without the tool. When the shell prints nothing for \<open>sox -h\<close>, the
  import sets \<open>NO_SOX\<close>, leaves the list of formats empty, logs the warning, and has
  launched the shell and nothing else: the format probe does not try the tool again.
  When the shell prints something and \<open>sox -h\<close> then exits with status zero, the import
  launches the two and the formats are those of the help text, or the import raises as
  the reading of the help text does.
\<close>

theorem import_sox_outcome:
  assumes "run_process w [''/bin/sh'', ''-c'', ''sox -h''] None = Exited p"
    and "utf8_valid (stdout p)"
  shows "(stdout p = [] \<longrightarrow>
            import_sox w =
              (Inr \<lparr>NO_SOX = True, VALID_FORMATS = []\<rparr>,
               [Spawn [''/bin/sh'', ''-c'', ''sox -h''] None, Log WARNING SoX_not_found])) \<and>
         (stdout p \<noteq> [] \<longrightarrow> run_process w [''sox'', ''-h''] None = Exited q \<longrightarrow>
            returncode q = 0 \<longrightarrow> utf8_valid (stdout q) \<longrightarrow>
            import_sox w =
              (case formats_of_help (stdout q) of
                 Inl e \<Rightarrow> Inl e
               | Inr fmts \<Rightarrow> Inr \<lparr>NO_SOX = False, VALID_FORMATS = fmts\<rparr>,
               [Spawn [''/bin/sh'', ''-c'', ''sox -h''] None, Spawn [''sox'', ''-h''] None]))"
proof (cases "stdout p = []")
  case True
  with assms show ?thesis
    by (simp add: import_sox_def probe_no_sox_runs get_valid_formats_no_sox io_defs)
next
  case False
  with assms show ?thesis
    by (cases "formats_of_help (stdout q)")
       (simp_all add: import_sox_def probe_no_sox_runs get_valid_formats_help io_defs)
qed

theorem import_sox_outcome_witness:
  "import_sox no_tool_world =
     (Inr \<lparr>NO_SOX = True, VALID_FORMATS = []\<rparr>,
      [Spawn [''/bin/sh'', ''-c'', ''sox -h''] None, Log WARNING SoX_not_found]) \<and>
   import_sox demo_world =
     (Inr \<lparr>NO_SOX = False, VALID_FORMATS = [''wav'', ''mp3'']\<rparr>,
      [Spawn [''/bin/sh'', ''-c'', ''sox -h''] None, Spawn [''sox'', ''-h''] None])"
  using import_sox_outcome
      [of no_tool_world "\<lparr>returncode = 127, stdout = [], stderr = ''sh: sox: not found''\<rparr>"]
    import_sox_outcome
      [of demo_world "\<lparr>returncode = 0, stdout = ''AUDIO FILE FORMATS: wav mp3'', stderr = []\<rparr>"
          "\<lparr>returncode = 0, stdout = ''AUDIO FILE FORMATS: wav mp3'', stderr = []\<rparr>"]
  by (simp add: demo_defs formats_of_help_def formats_marker_def py_defs byte_def)

text \<open>
  C38. \<open>all_equal\<close> holds exactly when any two elements of the list are equal.
\<close>

theorem all_equal_iff: "all_equal xs \<longleftrightarrow> (\<forall>x\<in>set xs. \<forall>y\<in>set xs. x = y)"
proof -
  have "length (remdups xs) = card (set xs)"
    by (simp add: length_remdups_card_conv)
  moreover have "card (set xs) \<le> 1 \<longleftrightarrow> (\<forall>x\<in>set xs. \<forall>y\<in>set xs. x = y)"
    by (metis List.finite_set card_le_Suc0_iff_eq One_nat_def)
  ultimately show ?thesis by (simp add: all_equal_def)
qed

theorem all_equal_iff_witness: "all_equal [2 :: int, 2, 2] \<and> \<not> all_equal [1 :: int, 2]"
  using all_equal_iff [of "[2 :: int, 2, 2]"] all_equal_iff [of "[1 :: int, 2]"]
  by simp

text \<open>
  C39. \<open>is_number\<close> on the values it meets: \<open>True\<close> for a numeral and for a float,
  \<open>False\<close> for the empty string and for \<open>None\<close>, and for an integer \<open>True\<close> unless it is
  too large for a double, when the \<open>OverflowError\<close> of \<open>float\<close> is not caught. A numeral
  in bytes and a boolean are numbers too; an object \<open>float\<close> refuses is not.
\<close>

theorem is_number_decides:
  "is_number (Py_str (show_nat n)) = Inr True \<and> is_number (Py_str []) = Inr False \<and>
   is_number Py_none = Inr False \<and> is_number (Py_float x) = Inr True \<and>
   is_number (Py_int i) =
     (if 2 ^ 1024 - 2 ^ 970 \<le> \<bar>i\<bar> then Inl OverflowError else Inr True) \<and>
   is_number (Py_bytes (show_nat n)) = Inr True \<and> is_number (Py_bool b) = Inr True \<and>
   is_number Py_other = Inr False"
proof -
  have "py_float [] = None" by (simp add: py_float_def)
  then have "is_number (Py_str (show_nat n)) = Inr True \<and> is_number (Py_str []) = Inr False"
    by (simp add: is_number_str py_float_show_nat)
  then show ?thesis by (simp add: is_number_def float_of_def py_float_show_nat)
qed

end
