(* ===== verification/File_Info.thy ===== *)
theory File_Info
  imports Sox_Core
begin

text \<open>
  \<open>src/sox/file_info.py\<close>: the checks made on a path before any process is launched
  (\<open>validate_input_file\<close>, \<open>validate_input_file_list\<close>, \<open>validate_output_file\<close>,
  \<open>file_extension\<close>), the typed readers of one \<open>soxi\<close> answer each (\<open>bitdepth\<close>,
  \<open>bitrate\<close>, \<open>channels\<close>, \<open>comments\<close>, \<open>duration\<close>, \<open>encoding\<close>, \<open>file_type\<close>,
  \<open>num_samples\<close>, \<open>sample_rate\<close>), the statistics report (\<open>stat\<close>, \<open>_stat_call\<close>,
  \<open>_parse_stat\<close>), and \<open>silent\<close> and \<open>info\<close> on top of them. The functions take the
  world and the module constants (\<open>VALID_FORMATS\<close>) they read. The path functions of
  \<open>pathlib\<close> and \<open>os.path\<close> are the POSIX ones.
\<close>

section \<open>Paths\<close>

text \<open>\<open>s.rfind(c)\<close>: the last position of \<open>c\<close>, \<open>None\<close> for Python's \<open>-1\<close>.\<close>

definition rfind :: "string \<Rightarrow> char \<Rightarrow> nat option" where
  "rfind s c = map_option (\<lambda>j. length s - 1 - j) (py_index (rev s) c)"

text \<open>
  \<open>pathlib\<close> reads a path as its parts: the pieces between slashes, without the empty
  ones and the single dots. \<open>Path(p).name\<close> is the last part, \<open>str(Path(p))\<close> the parts
  joined again behind the root (two leading slashes are kept, as POSIX allows).
\<close>

definition path_parts :: "string \<Rightarrow> string list" where
  "path_parts p = filter (\<lambda>part. part \<noteq> [] \<and> part \<noteq> ''.'') (py_split (CHR ''/'') p)"

definition path_root :: "string \<Rightarrow> string" where
  "path_root p =
     (if py_startswith ''///'' p then ''/''
      else if py_startswith ''//'' p then ''//''
      else if py_startswith ''/'' p then ''/''
      else [])"

definition path_str :: "string \<Rightarrow> string" where
  "path_str p =
     (if path_root p = [] \<and> path_parts p = [] then ''.''
      else path_root p @ py_join ''/'' (path_parts p))"

definition path_name :: "string \<Rightarrow> string" where
  "path_name p = (if path_parts p = [] then [] else last (path_parts p))"

text \<open>\<open>Path(p).suffix\<close>: from the last dot of the name, unless it starts or ends it.\<close>

definition path_suffix :: "string \<Rightarrow> string" where
  "path_suffix p =
     (case rfind (path_name p) (CHR ''.'') of
        None \<Rightarrow> []
      | Some i \<Rightarrow> if 0 < i \<and> i + 1 < length (path_name p) then drop i (path_name p) else [])"

definition file_extension :: "string \<Rightarrow> string" where
  "file_extension filepath = py_lower (slice_from 1 (path_suffix filepath))"

text \<open>\<open>os.path.dirname\<close>, \<open>os.access(path, os.W_OK)\<close>, \<open>os.path.exists\<close>.\<close>

definition dirname :: "string \<Rightarrow> string" where
  "dirname p =
     (let head = take (case rfind p (CHR ''/'') of None \<Rightarrow> 0 | Some i \<Rightarrow> i + 1) p
      in if head \<noteq> [] \<and> head \<noteq> replicate (length head) (CHR ''/'')
         then py_rstrip ''/'' head else head)"

definition os_access :: "world \<Rightarrow> string \<Rightarrow> bool" where
  "os_access w p = (p \<noteq> [] \<and> access_write w p)"

definition os_path_exists :: "world \<Rightarrow> string \<Rightarrow> bool" where
  "os_path_exists w p = (p \<noteq> [] \<and> path_exists w p)"

section \<open>Validation\<close>

text \<open>
  The two records both validators write for an extension the tool does not list (the
  last three lines of \<open>validate_input_file\<close>, and the same again in
  \<open>validate_output_file\<close>). The paths are strings: \<open>validate_input_file\<close> makes a
  \<open>Path\<close> of its argument, which \<open>path_str\<close> and \<open>file_extension\<close> read through
  \<open>path_parts\<close>; \<open>validate_output_file\<close> applies \<open>str\<close>, which leaves a string as it is.
  For a \<open>Path\<close> object \<open>p\<close> the argument of the model is \<open>path_str p\<close>.
\<close>

definition warn_format :: "sox_module \<Rightarrow> string \<Rightarrow> unit sox_io" where
  "warn_format m ext =
     (if ext \<notin> set (VALID_FORMATS m)
      then then_io (log INFO (Valid_formats (py_join '' '' (VALID_FORMATS m))))
             (log WARNING (Cannot_process ext))
      else return_io ())"

definition validate_input_file :: "world \<Rightarrow> sox_module \<Rightarrow> string \<Rightarrow> unit sox_io" where
  "validate_input_file w m input_filepath =
     (if \<not> path_exists w (path_str input_filepath) then raise_io IOError
      else warn_format m (file_extension input_filepath))"

datatype filepath_list = Path_list "string list" | Not_a_list

definition validate_input_file_list :: "world \<Rightarrow> sox_module \<Rightarrow> filepath_list \<Rightarrow> unit sox_io" where
  "validate_input_file_list w m input_filepath_list =
     (case input_filepath_list of
        Not_a_list \<Rightarrow> raise_io TypeError
      | Path_list paths \<Rightarrow>
          if length paths < 2 then raise_io ValueError
          else for_io paths (validate_input_file w m))"

definition validate_output_file :: "world \<Rightarrow> sox_module \<Rightarrow> string \<Rightarrow> unit sox_io" where
  "validate_output_file w m output_filepath =
     (if output_filepath = ''-n'' then return_io ()
      else
        let nowrite_conditions =
              [dirname output_filepath \<noteq> [] \<or> \<not> os_access w (getcwd w),
               \<not> os_access w (dirname output_filepath)]
        in if list_all (\<lambda>c. c) nowrite_conditions then raise_io IOError
           else then_io (warn_format m (file_extension output_filepath))
                  (if os_path_exists w output_filepath
                   then log WARNING (Will_overwrite output_filepath)
                   else return_io ()))"

section \<open>Typed readers\<close>

text \<open>\<open>int(output)\<close> and \<open>float(output)\<close> as steps that may raise \<open>ValueError\<close>.\<close>

definition int_io :: "string \<Rightarrow> int sox_io" where
  "int_io s = lift_io (of_option ValueError (py_int s))"

definition float_io :: "string \<Rightarrow> pyfloat sox_io" where
  "float_io s = lift_io (of_option ValueError (py_float s))"

definition bitdepth :: "world \<Rightarrow> sox_module \<Rightarrow> string \<Rightarrow> int option sox_io" where
  "bitdepth w m input_filepath =
     then_io (validate_input_file w m input_filepath)
       (bind_io (soxi w input_filepath ''b'') (\<lambda>output.
          if output = ''0''
          then then_io (log WARNING (Unavailable ''Bit depth'' input_filepath)) (return_io None)
          else bind_io (int_io output) (\<lambda>n. return_io (Some n))))"

text \<open>
  \<open>bitrate\<close>: \<open>output[-1]\<close> is the last character of the answer and \<open>output[:-1]\<close> the
  text before it, whether the character is one byte long or more. \<open>upper\<close> changes
  ASCII letters only, where Python also maps letters outside ASCII; Python maps none of
  those to one of the prefixes, so the branch taken is Python's on every answer.
\<close>

definition greek_prefixes :: string where
  "greek_prefixes = CHR 0x00 # ''KMGTPEZY''"

definition bitrate :: "world \<Rightarrow> sox_module \<Rightarrow> string \<Rightarrow> pyfloat option sox_io" where
  "bitrate w m input_filepath =
     then_io (validate_input_file w m input_filepath)
       (bind_io (soxi w input_filepath ''B'') (\<lambda>output.
          let output = py_strip [CHR 0x0D, CHR 0x0A] output in
          bind_io (lift_io (last_char output)) (\<lambda>c.
            let suffix = py_upper c in
            if output = ''0''
            then then_io (log WARNING (Unavailable ''Bit rate'' input_filepath)) (return_io None)
            else if py_contains suffix greek_prefixes
            then bind_io (lift_io (of_option ValueError (py_index_str greek_prefixes suffix))) (\<lambda>i.
                   bind_io (float_io (all_but_last output)) (\<lambda>x.
                     return_io (Some (pf_times x (Finite (1000 ^ i))))))
            else bind_io (float_io (all_but_last output)) (\<lambda>x. return_io (Some x)))))"

definition channels :: "world \<Rightarrow> sox_module \<Rightarrow> string \<Rightarrow> int sox_io" where
  "channels w m input_filepath =
     then_io (validate_input_file w m input_filepath)
       (bind_io (soxi w input_filepath ''c'') (\<lambda>output. int_io output))"

definition comments :: "world \<Rightarrow> sox_module \<Rightarrow> string \<Rightarrow> string sox_io" where
  "comments w m input_filepath =
     then_io (validate_input_file w m input_filepath)
       (bind_io (soxi w input_filepath ''a'') (\<lambda>output. return_io output))"

definition duration :: "world \<Rightarrow> sox_module \<Rightarrow> string \<Rightarrow> pyfloat option sox_io" where
  "duration w m input_filepath =
     then_io (validate_input_file w m input_filepath)
       (bind_io (soxi w input_filepath ''D'') (\<lambda>output.
          bind_io (float_io output) (\<lambda>x.
            if pf_eq x (Finite 0)
            then then_io (log WARNING (Unavailable ''Duration'' input_filepath)) (return_io None)
            else bind_io (float_io output) (\<lambda>y. return_io (Some y)))))"

definition encoding :: "world \<Rightarrow> sox_module \<Rightarrow> string \<Rightarrow> string sox_io" where
  "encoding w m input_filepath =
     then_io (validate_input_file w m input_filepath)
       (bind_io (soxi w input_filepath ''e'') (\<lambda>output. return_io output))"

definition file_type :: "world \<Rightarrow> sox_module \<Rightarrow> string \<Rightarrow> string sox_io" where
  "file_type w m input_filepath =
     then_io (validate_input_file w m input_filepath)
       (bind_io (soxi w input_filepath ''t'') (\<lambda>output. return_io output))"

definition num_samples :: "world \<Rightarrow> sox_module \<Rightarrow> string \<Rightarrow> int option sox_io" where
  "num_samples w m input_filepath =
     then_io (validate_input_file w m input_filepath)
       (bind_io (soxi w input_filepath ''s'') (\<lambda>output.
          if output = ''0''
          then then_io (log WARNING (Unavailable ''Number of samples'' input_filepath))
                 (return_io None)
          else bind_io (int_io output) (\<lambda>n. return_io (Some n))))"

definition sample_rate :: "world \<Rightarrow> sox_module \<Rightarrow> string \<Rightarrow> pyfloat sox_io" where
  "sample_rate w m input_filepath =
     then_io (validate_input_file w m input_filepath)
       (bind_io (soxi w input_filepath ''r'') (\<lambda>output. float_io output))"

section \<open>The statistics report\<close>

type_synonym stat_dict = "(string \<times> pyfloat option) list"

text \<open>
  The body of the loop of \<open>_parse_stat\<close>: a line with exactly one colon assigns
  \<open>stat_dict[key] = val\<close>, which keeps the place of a key that is already there.
\<close>

definition parse_stat_line :: "stat_dict \<Rightarrow> string \<Rightarrow> stat_dict" where
  "parse_stat_line stat_dict line =
     (let split_line = py_split (CHR '':'') line
      in if length split_line = 2
         then AList.update (split_line ! 0) (py_float (py_strip '' '' (split_line ! 1))) stat_dict
         else stat_dict)"

text \<open>\<open>None\<close> has no \<open>split\<close>: the call raises \<open>AttributeError\<close>.\<close>

definition parse_stat :: "string option \<Rightarrow> stat_dict result" where
  "parse_stat stat_output =
     (case stat_output of
        None \<Rightarrow> Inl AttributeError
      | Some s \<Rightarrow> Inr (foldl parse_stat_line [] (py_split (CHR 0x0A) s)))"

definition stat_call :: "world \<Rightarrow> sox_module \<Rightarrow> string \<Rightarrow> string option sox_io" where
  "stat_call w m filepath =
     then_io (validate_input_file w m filepath)
       (bind_io (sox w [''sox'', filepath, ''-n'', ''stat''] No_array True) (\<lambda>(_, _, stat_output).
          return_io (map_option (py_replace (CHR 0x0D) []) stat_output)))"

definition stat :: "world \<Rightarrow> sox_module \<Rightarrow> string \<Rightarrow> stat_dict sox_io" where
  "stat w m filepath =
     bind_io (stat_call w m filepath) (\<lambda>stat_output. lift_io (parse_stat stat_output))"

section \<open>Silence and the summary\<close>

text \<open>
  \<open>mean_norm is not float("nan")\<close>: \<open>float("nan")\<close> makes a new object, and no value
  that existed before is that object.
\<close>

definition is_not_new_nan :: "pyfloat \<Rightarrow> bool" where
  "is_not_new_nan x = True"

definition mean_norm_key :: string where
  "mean_norm_key = ''Mean    norm''"

definition silent :: "world \<Rightarrow> sox_module \<Rightarrow> string \<Rightarrow> pyfloat \<Rightarrow> bool sox_io" where
  "silent w m input_filepath threshold =
     then_io (validate_input_file w m input_filepath)
       (bind_io (stat w m input_filepath) (\<lambda>stat_dictionary.
          then_io (log INFO (Stat_dictionary stat_dictionary))
            (bind_io (lift_io (of_option KeyError (map_of stat_dictionary mean_norm_key)))
               (\<lambda>mean_norm.
                  case mean_norm of
                    None \<Rightarrow>
                      then_io (log WARNING (Unavailable ''Mean norm'' input_filepath))
                        (return_io False)
                  | Some x \<Rightarrow>
                      if is_not_new_nan x
                      then (if pf_ge x threshold then return_io False else return_io True)
                      else return_io True))))"

datatype info_value =
    Int_value int
  | Float_value pyfloat
  | Str_value string
  | Bool_value bool
  | None_value

definition opt_value :: "('a \<Rightarrow> info_value) \<Rightarrow> 'a option \<Rightarrow> info_value" where
  "opt_value f x = (case x of None \<Rightarrow> None_value | Some v \<Rightarrow> f v)"

definition default_threshold :: pyfloat where
  "default_threshold = Finite 0.001"

definition info :: "world \<Rightarrow> sox_module \<Rightarrow> string \<Rightarrow> (string \<times> info_value) list sox_io" where
  "info w m filepath =
     bind_io (channels w m filepath) (\<lambda>c.
     bind_io (sample_rate w m filepath) (\<lambda>r.
     bind_io (bitdepth w m filepath) (\<lambda>b.
     bind_io (bitrate w m filepath) (\<lambda>br.
     bind_io (duration w m filepath) (\<lambda>d.
     bind_io (num_samples w m filepath) (\<lambda>n.
     bind_io (encoding w m filepath) (\<lambda>e.
     bind_io (silent w m filepath default_threshold) (\<lambda>s.
       return_io
         [(''channels'', Int_value c),
          (''sample_rate'', Float_value r),
          (''bitdepth'', opt_value Int_value b),
          (''bitrate'', opt_value Float_value br),
          (''duration'', opt_value Float_value d),
          (''num_samples'', opt_value Int_value n),
          (''encoding'', Str_value e),
          (''silent'', Bool_value s)]))))))))"

section \<open>Specifications\<close>

text \<open>
  What the statistics parser promises: a line with exactly one colon is an entry, its
  key the text before the colon, its value the number after it or \<open>None\<close>; of two
  entries with one key the later one counts.
\<close>

definition stat_entry :: "string \<Rightarrow> (string \<times> pyfloat option) option" where
  "stat_entry line =
     (case py_split (CHR '':'') line of
        [k, v] \<Rightarrow> Some (k, py_float (py_strip '' '' v))
      | _ \<Rightarrow> None)"

definition report_map :: "string list \<Rightarrow> string \<rightharpoonup> pyfloat option" where
  "report_map lines = map_of (rev (List.map_filter stat_entry lines))"

text \<open>
  What \<open>bitrate\<close> makes of the text \<open>soxi\<close> answers: the last character is looked up in
  the prefixes, the characters before it are read as a float.
\<close>

definition bitrate_value :: "string \<Rightarrow> pyfloat option result" where
  "bitrate_value out =
     (if out = [] then Inl IndexError
      else if out = ''0'' then Inr None
      else case py_float (all_but_last out) of
        None \<Rightarrow> Inl ValueError
      | Some x \<Rightarrow>
          (case py_index_str greek_prefixes (py_upper (str_last out)) of
             None \<Rightarrow> Inr (Some x)
           | Some i \<Rightarrow> Inr (Some (pf_times x (Finite (1000 ^ i))))))"

text \<open>
  A report as the tool prints it from labels and whole numbers: one line per entry, the
  label, a colon, two spaces, the numeral.
\<close>

definition print_stat_line :: "string \<times> nat \<Rightarrow> string" where
  "print_stat_line kv = fst kv @ CHR '':'' # ''  '' @ show_nat (snd kv)"

definition print_stat :: "(string \<times> nat) list \<Rightarrow> string" where
  "print_stat kvs = py_join [CHR 0x0A] (map print_stat_line kvs)"

definition stat_argv :: "string \<Rightarrow> string list" where
  "stat_argv filepath = [''sox'', filepath, ''-n'', ''stat'']"

named_theorems info_defs "the operations of file_info.py"

lemmas [info_defs] =
  rfind_def path_parts_def path_root_def path_str_def path_name_def path_suffix_def
  file_extension_def dirname_def os_access_def os_path_exists_def warn_format_def
  validate_input_file_def validate_input_file_list_def validate_output_file_def
  int_io_def float_io_def greek_prefixes_def parse_stat_line_def parse_stat_def
  is_not_new_nan_def mean_norm_key_def opt_value_def default_threshold_def

section \<open>Facts: validation\<close>

lemma warn_format_result [simp]: "result_of (warn_format m ext) = Inr ()"
  by (simp add: warn_format_def io_defs)

lemma warn_format_spawns [simp]: "filter is_spawn (events_of (warn_format m ext)) = []"
  by (simp add: warn_format_def io_defs)

lemma validate_input_file_missing:
  "\<not> path_exists w (path_str p) \<Longrightarrow> validate_input_file w m p = raise_io IOError"
  by (simp add: validate_input_file_def)

lemma validate_input_file_present:
  "path_exists w (path_str p) \<Longrightarrow>
   validate_input_file w m p = (Inr (), events_of (warn_format m (file_extension p)))"
  by (simp add: validate_input_file_def io_eqI)

lemma validate_input_file_result:
  "result_of (validate_input_file w m p) =
     (if path_exists w (path_str p) then Inr () else Inl IOError)"
  by (simp add: validate_input_file_def)

lemma validate_input_file_spawns [simp]:
  "filter is_spawn (events_of (validate_input_file w m p)) = []"
  by (simp add: validate_input_file_def)

lemma os_access_empty [simp]: "\<not> os_access w []"
  by (simp add: os_access_def)

lemma validate_output_file_spawns [simp]:
  "filter is_spawn (events_of (validate_output_file w m p)) = []"
  by (simp add: validate_output_file_def Let_def events_of_then io_defs warn_format_def)

section \<open>Facts: the readers\<close>

text \<open>Every reader is a validation, one \<open>soxi\<close> call and a reading of its answer.\<close>

lemma read_with:
  "then_io (validate_input_file w m p) (bind_io (soxi w p arg) f) =
     (if \<not> path_exists w (path_str p) then raise_io IOError
      else case result_of (soxi w p arg) of
        Inl e \<Rightarrow> (Inl e, events_of (warn_format m (file_extension p)) @ events_of (soxi w p arg))
      | Inr out \<Rightarrow>
          (result_of (f out),
           events_of (warn_format m (file_extension p)) @ events_of (soxi w p arg) @
           events_of (f out)))"
  by (auto simp: validate_input_file_missing validate_input_file_present then_io_succeeds
      bind_io_fails bind_io_succeeds split: sum.splits)

lemma int_io_result [simp]:
  "result_of (int_io s) = (case py_int s of None \<Rightarrow> Inl ValueError | Some n \<Rightarrow> Inr n)"
  by (simp add: int_io_def split: option.splits)

lemma float_io_result [simp]:
  "result_of (float_io s) = (case py_float s of None \<Rightarrow> Inl ValueError | Some x \<Rightarrow> Inr x)"
  by (simp add: float_io_def split: option.splits)

lemma int_io_events [simp]: "events_of (int_io s) = []"
  by (simp add: int_io_def)

lemma float_io_events [simp]: "events_of (float_io s) = []"
  by (simp add: float_io_def)

section \<open>Facts: the statistics report\<close>

lemma parse_stat_line_kv:
  assumes "CHR '':'' \<notin> set k" and "CHR '':'' \<notin> set v"
  shows "parse_stat_line d (k @ CHR '':'' # v) = AList.update k (py_float (py_strip '' '' v)) d"
  using assms by (simp add: parse_stat_line_def py_split_append_sep py_split_no_sep)

lemma parse_stat_line_other:
  "count_list line (CHR '':'') \<noteq> 1 \<Longrightarrow> parse_stat_line d line = d"
  by (simp add: parse_stat_line_def length_py_split)

lemma parse_stat_line_entry:
  "parse_stat_line d line =
     (case stat_entry line of None \<Rightarrow> d | Some (k, v) \<Rightarrow> AList.update k v d)"
proof (cases "py_split (CHR '':'') line")
  case Nil
  then show ?thesis by simp
next
  case (Cons a as)
  then show ?thesis
    by (cases as; cases "tl as") (auto simp: parse_stat_line_def stat_entry_def)
qed

lemma map_of_foldl_parse_stat_line:
  "map_of (foldl parse_stat_line d lines) =
     map_of (rev (List.map_filter stat_entry lines) @ d)"
proof (induction lines arbitrary: d)
  case Nil
  then show ?case by (simp add:)
next
  case (Cons l ls)
  show ?case
  proof (cases "stat_entry l")
    case None
    with Cons show ?thesis by (simp add: parse_stat_line_entry)
  next
    case (Some kv)
    obtain k v where "kv = (k, v)" by (cases kv)
    with Some Cons show ?thesis
      by (simp add: parse_stat_line_entry AList.update_conv' map_add_def
          fun_eq_iff split: option.splits)
  qed
qed

lemma parse_stat_line_distinct:
  "distinct (map fst d) \<Longrightarrow> distinct (map fst (parse_stat_line d line))"
  by (simp add: parse_stat_line_def Let_def AList.distinct_update)

lemma foldl_parse_stat_line_distinct:
  "distinct (map fst d) \<Longrightarrow> distinct (map fst (foldl parse_stat_line d lines))"
  by (induction lines arbitrary: d) (simp_all add: parse_stat_line_distinct)

lemma stat_argv_normal: "program_args ''sox'' (stat_argv p) = Inr (stat_argv p)"
  by (simp add: stat_argv_def program_args_def py_defs)

lemma stat_call_runs:
  "stat_call w m p =
     then_io (validate_input_file w m p)
       (bind_io (run_contract w (stat_argv p) No_array True) (\<lambda>(_, _, stat_output).
          return_io (map_option (py_replace (CHR 0x0D) []) stat_output)))"
  using sox_runs [OF stat_argv_normal, of w p No_array True]
  by (simp add: stat_call_def stat_argv_def)

section \<open>Facts: what each reader returns\<close>

lemma read_result:
  "result_of (then_io (validate_input_file w m p) (bind_io (soxi w p arg) f)) =
     (if \<not> path_exists w (path_str p) then Inl IOError
      else case result_of (soxi w p arg) of Inl e \<Rightarrow> Inl e | Inr out \<Rightarrow> result_of (f out))"
  by (simp add: read_with split: sum.splits)

lemma bitdepth_result:
  "result_of (bitdepth w m p) =
     (if \<not> path_exists w (path_str p) then Inl IOError
      else case result_of (soxi w p ''b'') of
        Inl e \<Rightarrow> Inl e
      | Inr out \<Rightarrow>
          if out = ''0'' then Inr None
          else (case py_int out of None \<Rightarrow> Inl ValueError | Some n \<Rightarrow> Inr (Some n)))"
  unfolding bitdepth_def read_result
  by (simp add: result_of_then result_of_bind split: sum.splits option.splits)

lemma num_samples_result:
  "result_of (num_samples w m p) =
     (if \<not> path_exists w (path_str p) then Inl IOError
      else case result_of (soxi w p ''s'') of
        Inl e \<Rightarrow> Inl e
      | Inr out \<Rightarrow>
          if out = ''0'' then Inr None
          else (case py_int out of None \<Rightarrow> Inl ValueError | Some n \<Rightarrow> Inr (Some n)))"
  unfolding num_samples_def read_result
  by (simp add: result_of_then result_of_bind split: sum.splits option.splits)

lemma channels_result:
  "result_of (channels w m p) =
     (if \<not> path_exists w (path_str p) then Inl IOError
      else case result_of (soxi w p ''c'') of
        Inl e \<Rightarrow> Inl e
      | Inr out \<Rightarrow> (case py_int out of None \<Rightarrow> Inl ValueError | Some n \<Rightarrow> Inr n))"
  unfolding channels_def read_result by (simp split: sum.splits)

lemma sample_rate_result:
  "result_of (sample_rate w m p) =
     (if \<not> path_exists w (path_str p) then Inl IOError
      else case result_of (soxi w p ''r'') of
        Inl e \<Rightarrow> Inl e
      | Inr out \<Rightarrow> (case py_float out of None \<Rightarrow> Inl ValueError | Some x \<Rightarrow> Inr x))"
  unfolding sample_rate_def read_result by (simp split: sum.splits)

lemma text_reader_results:
  "result_of (comments w m p) =
     (if \<not> path_exists w (path_str p) then Inl IOError else result_of (soxi w p ''a''))"
  "result_of (encoding w m p) =
     (if \<not> path_exists w (path_str p) then Inl IOError else result_of (soxi w p ''e''))"
  "result_of (file_type w m p) =
     (if \<not> path_exists w (path_str p) then Inl IOError else result_of (soxi w p ''t''))"
  unfolding comments_def encoding_def file_type_def read_result
  by (simp_all split: sum.splits)

lemma duration_result:
  "result_of (duration w m p) =
     (if \<not> path_exists w (path_str p) then Inl IOError
      else case result_of (soxi w p ''D'') of
        Inl e \<Rightarrow> Inl e
      | Inr out \<Rightarrow>
          (case py_float out of
             None \<Rightarrow> Inl ValueError
           | Some x \<Rightarrow> Inr (if pf_eq x (Finite 0) then None else Some x)))"
  unfolding duration_def read_result
  by (simp add: result_of_then result_of_bind split: sum.splits option.splits)

text \<open>A duration printed so small that it underflows is zero, and so unavailable.\<close>

lemma duration_underflow:
  assumes "path_exists w (path_str p)" and "result_of (soxi w p ''D'') = Inr ''1e-400''"
  shows "result_of (duration w m p) = Inr None"
  using assms by (simp add: duration_result py_float_underflow)

text \<open>The value \<open>bitrate\<close> reads from the answer of \<open>soxi\<close>, as a function of the text.\<close>

lemma bitrate_result:
  "result_of (bitrate w m p) =
     (if \<not> path_exists w (path_str p) then Inl IOError
      else case result_of (soxi w p ''B'') of
        Inl e \<Rightarrow> Inl e
      | Inr out \<Rightarrow> bitrate_value out)"
proof -
  have "result_of (soxi w p ''B'') = Inr out \<Longrightarrow>
        result_of
          (let output = py_strip [CHR 0x0D, CHR 0x0A] out in
           bind_io (lift_io (last_char output)) (\<lambda>c.
             let suffix = py_upper c in
             if output = ''0''
             then then_io (log WARNING (Unavailable ''Bit rate'' p)) (return_io None)
             else if py_contains suffix greek_prefixes
             then bind_io (lift_io (of_option ValueError (py_index_str greek_prefixes suffix))) (\<lambda>i.
                    bind_io (float_io (all_but_last output)) (\<lambda>x.
                      return_io (Some (pf_times x (Finite (1000 ^ i))))))
             else bind_io (float_io (all_but_last output)) (\<lambda>x. return_io (Some x)))) =
        bitrate_value out" for out
    by (cases "out = []"; cases "py_index_str greek_prefixes (py_upper (str_last out))")
       (simp_all add: soxi_result_stripped bitrate_value_def last_char_def
          result_of_bind result_of_then py_contains_iff_index_str Let_def
          split: option.splits)
  then show ?thesis
    unfolding bitrate_def read_result by (simp split: sum.splits)
qed

text \<open>
  On an answer that ends in a one-byte character: the character is the suffix, the text
  before it the number. A character whose upper-case form is a prefix is such a one.
\<close>

lemma prefix_is_ascii: "py_index greek_prefixes (upper_char c) = Some i \<Longrightarrow> byte c < 128"
proof -
  assume "py_index greek_prefixes (upper_char c) = Some i"
  then have "upper_char c \<in> set greek_prefixes"
    using py_index_Some_iff by blast
  then have "byte (upper_char c) < 128"
    by (auto simp: greek_prefixes_def byte_def)
  then show ?thesis by (simp add: ascii_upper_char)
qed

lemma bitrate_value_snoc:
  assumes "byte c < 128" and "num @ [c] \<noteq> ''0''"
  shows "bitrate_value (num @ [c]) =
           (case py_float num of
              None \<Rightarrow> Inl ValueError
            | Some x \<Rightarrow>
                (case py_index greek_prefixes (upper_char c) of
                   None \<Rightarrow> Inr (Some x)
                 | Some i \<Rightarrow> Inr (Some (pf_times x (Finite (1000 ^ i))))))"
  using assms
  by (cases "py_float num") (auto simp: bitrate_value_def ascii_not_cont py_upper_def)

section \<open>Facts: stat and silent\<close>

lemma stat_call_result:
  "result_of (stat_call w m p) =
     (if \<not> path_exists w (path_str p) then Inl IOError
      else case run_process w (stat_argv p) None of
        Launch_failed \<Rightarrow> Inr None
      | Exited pr \<Rightarrow>
          if \<not> utf8_valid (stdout pr) \<or> \<not> utf8_valid (stderr pr) then Inl UnicodeDecodeError
          else Inr (Some (py_replace (CHR 0x0D) [] (stderr pr))))"
  by (simp add: stat_call_runs result_of_then result_of_bind validate_input_file_result
      run_contract_text_result split: launch.splits)

lemma stat_result:
  "result_of (stat w m p) =
     (if \<not> path_exists w (path_str p) then Inl IOError
      else case run_process w (stat_argv p) None of
        Launch_failed \<Rightarrow> Inl AttributeError
      | Exited pr \<Rightarrow>
          if \<not> utf8_valid (stdout pr) \<or> \<not> utf8_valid (stderr pr) then Inl UnicodeDecodeError
          else parse_stat (Some (py_replace (CHR 0x0D) [] (stderr pr))))"
  by (simp add: stat_def result_of_bind stat_call_result parse_stat_def split: launch.splits)

lemma silent_result:
  "result_of (silent w m p t) =
     (if \<not> path_exists w (path_str p) then Inl IOError
      else case result_of (stat w m p) of
        Inl e \<Rightarrow> Inl e
      | Inr d \<Rightarrow>
          (case map_of d mean_norm_key of
             None \<Rightarrow> Inl KeyError
           | Some None \<Rightarrow> Inr False
           | Some (Some x) \<Rightarrow> Inr (\<not> pf_ge x t)))"
  by (simp add: silent_def result_of_then result_of_bind validate_input_file_result
      is_not_new_nan_def split: sum.splits option.splits)

section \<open>Facts: when the validators raise\<close>

lemma validate_output_file_result:
  "result_of (validate_output_file w m p) =
     (if p = ''-n'' \<or> os_access w (if dirname p = [] then getcwd w else dirname p)
      then Inr () else Inl IOError)"
  by (simp add: validate_output_file_def Let_def result_of_then)

lemma validate_input_file_list_result:
  assumes "2 \<le> length paths"
  shows "result_of (validate_input_file_list w m (Path_list paths)) =
           (if \<forall>p \<in> set paths. path_exists w (path_str p) then Inr () else Inl IOError)"
proof (cases "result_of (for_io paths (validate_input_file w m))")
  case (Inl e)
  then obtain p where "p \<in> set paths" "result_of (validate_input_file w m p) = Inl e"
    by (blast dest: for_io_first_failure)
  with Inl assms show ?thesis
    by (auto simp: validate_input_file_list_def validate_input_file_result split: if_splits)
next
  case (Inr u)
  then have "\<forall>p \<in> set paths. result_of (validate_input_file w m p) = Inr ()"
    by (simp add: for_io_result)
  with Inr assms show ?thesis
    by (auto simp: validate_input_file_list_def validate_input_file_result split: if_splits)
qed

section \<open>Facts: the processes the readers launch\<close>

lemma read_spawns:
  assumes "path_exists w (path_str p)" and "arg \<in> set SOXI_ARGS"
    and "\<And>out. filter is_spawn (events_of (f out)) = []"
  shows "filter is_spawn
           (events_of (then_io (validate_input_file w m p) (bind_io (soxi w p arg) f))) =
         [Spawn (soxi_argv p arg) None]"
  using assms
  by (simp add: events_of_then events_of_bind validate_input_file_result soxi_runs
      soxi_contract_spawns split: sum.splits)

lemma log_return_spawns [simp]:
  "filter is_spawn (events_of (then_io (log l x) (return_io v))) = []"
  by (simp add: events_of_then)

lemma int_io_bind_spawns [simp]:
  "filter is_spawn (events_of (bind_io (int_io s) (\<lambda>n. return_io (g n)))) = []"
  by (simp add: events_of_bind split: sum.splits)

lemma float_io_bind_spawns [simp]:
  "filter is_spawn (events_of (bind_io (float_io s) (\<lambda>n. return_io (g n)))) = []"
  by (simp add: events_of_bind split: sum.splits)

lemma missing_file_raises:
  "\<not> path_exists w (path_str p) \<Longrightarrow> then_io (validate_input_file w m p) k = raise_io IOError"
  by (simp add: validate_input_file_missing)

lemmas read_text_spawns = read_spawns [where f = return_io, simplified]

lemma lift_io_bind_spawns:
  "filter is_spawn (events_of (bind_io (lift_io r) f)) =
     (case r of Inl e \<Rightarrow> [] | Inr x \<Rightarrow> filter is_spawn (events_of (f x)))"
  by (cases r) (simp_all add: events_of_bind io_defs)

lemma bitrate_spawns:
  assumes "path_exists w (path_str p)"
  shows "filter is_spawn (events_of (bitrate w m p)) = [Spawn (soxi_argv p ''B'') None]"
  unfolding bitrate_def using assms
  by (intro read_spawns)
     (simp_all add: SOXI_ARGS_def Let_def lift_io_bind_spawns split: sum.splits)

lemma reader_spawns:
  assumes "path_exists w (path_str p)"
  shows "filter is_spawn (events_of (channels w m p)) = [Spawn (soxi_argv p ''c'') None]"
    and "filter is_spawn (events_of (sample_rate w m p)) = [Spawn (soxi_argv p ''r'') None]"
    and "filter is_spawn (events_of (bitdepth w m p)) = [Spawn (soxi_argv p ''b'') None]"
    and "filter is_spawn (events_of (num_samples w m p)) = [Spawn (soxi_argv p ''s'') None]"
    and "filter is_spawn (events_of (duration w m p)) = [Spawn (soxi_argv p ''D'') None]"
    and "filter is_spawn (events_of (comments w m p)) = [Spawn (soxi_argv p ''a'') None]"
    and "filter is_spawn (events_of (encoding w m p)) = [Spawn (soxi_argv p ''e'') None]"
    and "filter is_spawn (events_of (file_type w m p)) = [Spawn (soxi_argv p ''t'') None]"
    and "filter is_spawn (events_of (bitrate w m p)) = [Spawn (soxi_argv p ''B'') None]"
  unfolding channels_def sample_rate_def bitdepth_def num_samples_def duration_def
    comments_def encoding_def file_type_def
  using assms
  by (simp_all add: read_spawns read_text_spawns bitrate_spawns SOXI_ARGS_def events_of_bind
      split: sum.splits)

text \<open>\<open>stat\<close> and \<open>silent\<close> launch the one process of the report, whatever it prints.\<close>

lemma stat_spawns:
  assumes "path_exists w (path_str p)"
  shows "filter is_spawn (events_of (stat w m p)) = [Spawn (stat_argv p) None]"
  using assms run_contract_events [of w "stat_argv p" No_array True]
  by (simp add: stat_def stat_call_runs events_of_bind events_of_then
      validate_input_file_result stdin_of_def lift_io_bind_spawns split: sum.splits prod.splits)

lemma silent_spawns:
  assumes "path_exists w (path_str p)"
  shows "filter is_spawn (events_of (silent w m p t)) = [Spawn (stat_argv p) None]"
  using assms
  by (simp add: silent_def events_of_bind events_of_then validate_input_file_result
      stat_spawns lift_io_bind_spawns is_not_new_nan_def split: sum.splits option.splits)

text \<open>
  \<open>info\<close> is its eight readers one after the other: when each returns, the dictionary
  holds each value under the reader's name, and the events are theirs in that order.
\<close>

lemma info_returns:
  assumes "result_of (channels w m p) = Inr c" and "result_of (sample_rate w m p) = Inr r"
    and "result_of (bitdepth w m p) = Inr b" and "result_of (bitrate w m p) = Inr br"
    and "result_of (duration w m p) = Inr d" and "result_of (num_samples w m p) = Inr n"
    and "result_of (encoding w m p) = Inr e"
    and "result_of (silent w m p default_threshold) = Inr s"
  shows "result_of (info w m p) =
           Inr [(''channels'', Int_value c), (''sample_rate'', Float_value r),
                (''bitdepth'', opt_value Int_value b), (''bitrate'', opt_value Float_value br),
                (''duration'', opt_value Float_value d),
                (''num_samples'', opt_value Int_value n), (''encoding'', Str_value e),
                (''silent'', Bool_value s)]"
    and "events_of (info w m p) =
           events_of (channels w m p) @ events_of (sample_rate w m p) @
           events_of (bitdepth w m p) @ events_of (bitrate w m p) @
           events_of (duration w m p) @ events_of (num_samples w m p) @
           events_of (encoding w m p) @ events_of (silent w m p default_threshold)"
  using assms by (simp_all add: info_def result_of_bind events_of_bind)

section \<open>Facts: paths\<close>

lemma rfind_last_occurrence:
  "c \<notin> set b \<Longrightarrow> rfind (a @ c # b) c = Some (length a)"
  using py_index_append_first [of c "rev b" "rev a"] by (simp add: rfind_def)

lemma path_name_append:
  assumes "dir = [] \<or> last dir = CHR ''/''"
    and "name \<noteq> []" and "name \<noteq> ''.''" and "CHR ''/'' \<notin> set name"
  shows "path_name (dir @ name) = name"
proof (cases "dir = []")
  case True
  with assms show ?thesis by (simp add: path_name_def path_parts_def py_split_no_sep)
next
  case False
  with assms(1) obtain d where "dir = d @ ''/''"
    by (metis append_butlast_last_id)
  with assms(2-) show ?thesis
    by (simp add: path_name_def path_parts_def py_split_append py_split_no_sep)
qed

section \<open>Facts: printed reports\<close>

lemma parse_stat_line_printed:
  assumes "CHR '':'' \<notin> set k"
  shows "parse_stat_line d (print_stat_line (k, n)) = AList.update k (Some (Finite (real n))) d"
proof -
  have "CHR '':'' \<notin> set (''  '' @ show_nat n)"
    using show_nat_plain [of n] by (auto simp: digit_chars_def)
  with assms show ?thesis
    using parse_stat_line_kv [of k "''  '' @ show_nat n" d]
    by (simp add: print_stat_line_def py_strip_spaces_numeral py_float_show_nat)
qed

lemma foldl_parse_printed:
  assumes "distinct (map fst kvs)" and "fst ` set kvs \<inter> fst ` set acc = {}"
    and "\<forall>k \<in> fst ` set kvs. CHR '':'' \<notin> set k"
  shows "foldl parse_stat_line acc (map print_stat_line kvs) =
           acc @ map (\<lambda>(k, n). (k, Some (Finite (real n)))) kvs"
  using assms
proof (induction kvs arbitrary: acc)
  case Nil
  then show ?case by simp
next
  case (Cons kv kvs)
  obtain k n where kv: "kv = (k, n)" by (cases kv)
  from Cons.prems kv have "k \<notin> fst ` set acc" by auto
  then have step: "parse_stat_line acc (print_stat_line kv) = acc @ [(k, Some (Finite (real n)))]"
    using Cons.prems kv by (simp add: parse_stat_line_printed update_absent)
  from Cons.prems kv
  have "fst ` set kvs \<inter> fst ` set (acc @ [(k, Some (Finite (real n)))]) = {}"
    by auto
  with Cons.prems have
    "foldl parse_stat_line (acc @ [(k, Some (Finite (real n)))]) (map print_stat_line kvs) =
       (acc @ [(k, Some (Finite (real n)))]) @ map (\<lambda>(k, n). (k, Some (Finite (real n)))) kvs"
    by (intro Cons.IH) auto
  with step kv show ?case by simp
qed

lemma printed_line_no_newline:
  "CHR 0x0A \<notin> set k \<Longrightarrow> CHR 0x0A \<notin> set (print_stat_line (k, n))"
  using show_nat_plain [of n] by (auto simp: print_stat_line_def digit_chars_def)

section \<open>Properties\<close>

text \<open>
  C2. The statistics parser implements the report map. For every text, \<open>parse_stat\<close>
  returns a dictionary; as a map it is \<open>report_map\<close> of the text's lines, where a line
  with exactly one colon is an entry and the last entry for a key is the one that counts;
  and no key occurs twice in it.
\<close>

theorem parse_stat_implements_report_map:
  "\<exists>d. parse_stat (Some s) = Inr d \<and> map_of d = report_map (py_split (CHR 0x0A) s) \<and>
       distinct (map fst d)"
  by (simp add: parse_stat_def map_of_foldl_parse_stat_line report_map_def
      foldl_parse_stat_line_distinct)

text \<open>
  C4. Bit rates with a magnitude suffix. When the file exists and \<open>soxi\<close> answers \<open>num @ [c]\<close>
  where the upper-case form of \<open>c\<close> is the \<open>i\<close>-th of the prefixes and \<open>num\<close> reads as the
  float \<open>x\<close>, \<open>bitrate\<close> returns \<open>x\<close> times \<open>1000 ^ i\<close>.
\<close>

theorem bitrate_suffix_scales:
  assumes "path_exists w (path_str p)"
    and "result_of (soxi w p ''B'') = Inr (num @ [c])"
    and "py_index greek_prefixes (upper_char c) = Some i"
    and "py_float num = Some x"
  shows "result_of (bitrate w m p) = Inr (Some (pf_times x (Finite (1000 ^ i))))"
proof -
  from assms(3) have "c \<noteq> CHR ''0''"
    by (auto simp: greek_prefixes_def upper_char_def ascii_lower_def ascii_upper_def)
  with assms show ?thesis
    by (simp add: bitrate_result bitrate_value_snoc prefix_is_ascii)
qed

theorem bitrate_suffix_scales_witness:
  "result_of (bitrate demo_world demo_module ''a.wav'') = Inr (Some (Finite 128000))"
  using bitrate_suffix_scales
    [of demo_world "''a.wav''" "''128''" "CHR ''k''" 1 "Finite 128" demo_module]
  by (simp add: soxi_result_Inr SOXI_ARGS_def soxi_argv_def demo_defs info_defs py_defs
      Let_def byte_def)

text \<open>
  C5. Validation fails fast. For a path that does not exist, each of the nine readers, \<open>stat\<close>,
  \<open>silent\<close> and \<open>info\<close> raises \<open>IOError\<close> with no event: no process has been launched
  and nothing has been logged.
\<close>

theorem readers_fail_fast:
  assumes "\<not> path_exists w (path_str p)"
  shows "bitdepth w m p = raise_io IOError \<and> bitrate w m p = raise_io IOError \<and>
         channels w m p = raise_io IOError \<and> comments w m p = raise_io IOError \<and>
         duration w m p = raise_io IOError \<and> encoding w m p = raise_io IOError \<and>
         file_type w m p = raise_io IOError \<and> num_samples w m p = raise_io IOError \<and>
         sample_rate w m p = raise_io IOError \<and> stat w m p = raise_io IOError \<and>
         silent w m p t = raise_io IOError \<and> info w m p = raise_io IOError"
  using assms
  by (simp add: bitdepth_def bitrate_def channels_def comments_def duration_def encoding_def
      file_type_def num_samples_def sample_rate_def stat_def stat_call_def silent_def info_def
      missing_file_raises)

theorem readers_fail_fast_witness:
  "channels demo_world demo_module ''missing.wav'' = raise_io IOError \<and>
   silent demo_world demo_module ''missing.wav'' default_threshold = raise_io IOError"
  using readers_fail_fast [of demo_world "''missing.wav''" demo_module default_threshold]
  by (simp add: demo_defs info_defs py_defs)

text \<open>
  C7. Output validation. \<open>validate_output_file\<close> accepts \<open>-n\<close> whatever the file system
  says; any other path is refused with \<open>IOError\<close> exactly when its directory, or the
  current directory when it names none, is not writable. No process is launched.
\<close>

theorem validate_output_file_raises_iff:
  "result_of (validate_output_file w m p) =
     (if p = ''-n'' \<or> os_access w (if dirname p = [] then getcwd w else dirname p)
      then Inr () else Inl IOError) \<and>
   filter is_spawn (events_of (validate_output_file w m p)) = []"
  by (simp add: validate_output_file_result)

text \<open>
  C9. Silence is decided by the mean norm. When the file exists and \<open>stat\<close> returns \<open>d\<close>:
  without the key \<open>Mean    norm\<close> the call raises \<open>KeyError\<close>; with the value \<open>None\<close> it
  returns \<open>False\<close>; with a number it returns whether the comparison \<open>mean_norm >= threshold\<close>
  fails, which it also does for \<open>NaN\<close>.
\<close>

theorem silent_decides:
  assumes "path_exists w (path_str p)" and "result_of (stat w m p) = Inr d"
  shows "result_of (silent w m p t) =
           (case map_of d mean_norm_key of
              None \<Rightarrow> Inl KeyError
            | Some None \<Rightarrow> Inr False
            | Some (Some x) \<Rightarrow> Inr (\<not> pf_ge x t))"
  using assms by (simp add: silent_result)

theorem silent_decides_witness:
  "result_of (silent demo_world demo_module ''b.wav'' default_threshold) = Inr True \<and>
   result_of (silent demo_world demo_module ''a.wav'' default_threshold) = Inr False"
  using silent_decides
    [of demo_world "''b.wav''" demo_module "[(''Mean    norm'', Some (Finite 0.0005))]"
        default_threshold]
    silent_decides
    [of demo_world "''a.wav''" demo_module "[(''Mean    norm'', Some (Finite 0.5))]"
        default_threshold]
  by (simp add: stat_result stat_argv_def demo_defs info_defs py_defs Let_def byte_def)

text \<open>
  C14. The report is read from the error stream. When the file exists and \<open>sox file -n stat\<close>
  runs and prints valid text, \<open>stat\<close> returns what \<open>parse_stat\<close> makes of the error
  stream without its carriage returns.
\<close>

theorem stat_reads_stderr:
  assumes "path_exists w (path_str p)"
    and "run_process w (stat_argv p) None = Exited pr"
    and "utf8_valid (stdout pr)" and "utf8_valid (stderr pr)"
  shows "result_of (stat w m p) = parse_stat (Some (py_replace (CHR 0x0D) [] (stderr pr)))"
  using assms by (simp add: stat_result)

theorem stat_reads_stderr_witness:
  "result_of (stat demo_world demo_module ''a.wav'') = Inr [(''Mean    norm'', Some (Finite 0.5))]"
  using stat_reads_stderr
    [of demo_world "''a.wav''"
        "\<lparr>returncode = 0, stdout = [], stderr = ''Mean    norm:  0.5'' @ [CHR 0x0A]\<rparr>"
        demo_module]
  by (simp add: stat_argv_def demo_defs info_defs py_defs Let_def byte_def)

text \<open>
  C16. A bit rate with no suffix loses its last digit. When \<open>soxi\<close> answers \<open>num @ [c]\<close> with
  \<open>c\<close> a digit and \<open>num\<close> not empty, \<open>bitrate\<close> returns the float \<open>num\<close> reads as: the
  else-branch applies \<open>output[:-1]\<close> as the suffix branch does.
\<close>

theorem bitrate_plain_number_drops_digit:
  assumes "path_exists w (path_str p)"
    and "result_of (soxi w p ''B'') = Inr (num @ [c])"
    and "c \<in> set digit_chars" and "num \<noteq> []"
  shows "result_of (bitrate w m p) =
           (case py_float num of None \<Rightarrow> Inl ValueError | Some x \<Rightarrow> Inr (Some x))"
proof -
  from assms(3) have "upper_char c = c"
    by (intro upper_char_fixed) (auto simp: digit_chars_def ascii_lower_def)
  moreover from assms(3) have "py_index greek_prefixes c = None"
    by (auto simp: py_index_None_iff digit_chars_def greek_prefixes_def)
  moreover from assms(3) have "byte c < 128"
    by (auto simp: digit_chars_def byte_def)
  ultimately show ?thesis
    using assms by (simp add: bitrate_result bitrate_value_snoc split: option.splits)
qed

theorem bitrate_plain_number_drops_digit_witness:
  "result_of (bitrate demo_world demo_module ''b.wav'') = Inr (Some (Finite 12))"
  using bitrate_plain_number_drops_digit
    [of demo_world "''b.wav''" "''12''" "CHR ''8''" demo_module]
  by (simp add: soxi_result_Inr SOXI_ARGS_def soxi_argv_def demo_defs info_defs py_defs
      Let_def byte_def)

text \<open>
  C17. A launch failure under \<open>stat\<close> surfaces as \<open>AttributeError\<close>: the runner's
  \<open>None\<close> reaches \<open>parse_stat\<close>, which calls \<open>split\<close> on it.
\<close>

theorem stat_launch_failure_attribute_error:
  assumes "path_exists w (path_str p)"
    and "run_process w (stat_argv p) None = Launch_failed"
  shows "result_of (stat w m p) = Inl AttributeError"
  using assms by (simp add: stat_result)

theorem stat_launch_failure_attribute_error_witness:
  "result_of (stat no_tool_world demo_module ''a.wav'') = Inl AttributeError"
  using stat_launch_failure_attribute_error [of no_tool_world "''a.wav''" demo_module]
  by (simp add: stat_argv_def demo_defs info_defs py_defs)

text \<open>
  C25. List validation. A value that is no list raises \<open>TypeError\<close>, a list of fewer than two
  paths \<open>ValueError\<close>; a longer list passes exactly when each of its paths exists, and
  raises \<open>IOError\<close> otherwise.
\<close>

theorem validate_input_file_list_checks:
  "validate_input_file_list w m Not_a_list = raise_io TypeError \<and>
   (length paths < 2 \<longrightarrow> validate_input_file_list w m (Path_list paths) = raise_io ValueError) \<and>
   (2 \<le> length paths \<longrightarrow>
      result_of (validate_input_file_list w m (Path_list paths)) =
        (if \<forall>p \<in> set paths. path_exists w (path_str p) then Inr () else Inl IOError))"
  by (simp add: validate_input_file_list_result) (simp add: validate_input_file_list_def)

theorem validate_input_file_list_checks_witness:
  "validate_input_file_list demo_world demo_module (Path_list [''a.wav'']) = raise_io ValueError \<and>
   result_of (validate_input_file_list demo_world demo_module (Path_list [''a.wav'', ''b.wav'']))
     = Inr () \<and>
   result_of (validate_input_file_list demo_world demo_module (Path_list [''a.wav'', ''c.wav'']))
     = Inl IOError"
  using validate_input_file_list_checks [of demo_world demo_module "[''a.wav'']"]
    validate_input_file_list_checks [of demo_world demo_module "[''a.wav'', ''b.wav'']"]
    validate_input_file_list_checks [of demo_world demo_module "[''a.wav'', ''c.wav'']"]
  by (simp add: demo_defs info_defs py_defs)

text \<open>
  C26. The answer \<open>0\<close> means unavailable for the bit depth, the number of samples and the
  bit rate, which return \<open>None\<close>, and is taken literally by \<open>channels\<close>, which returns
  \<open>0\<close>.
\<close>

theorem unavailable_zero:
  assumes "path_exists w (path_str p)"
  shows "(result_of (soxi w p ''b'') = Inr ''0'' \<longrightarrow> result_of (bitdepth w m p) = Inr None) \<and>
         (result_of (soxi w p ''s'') = Inr ''0'' \<longrightarrow> result_of (num_samples w m p) = Inr None) \<and>
         (result_of (soxi w p ''B'') = Inr ''0'' \<longrightarrow> result_of (bitrate w m p) = Inr None) \<and>
         (result_of (soxi w p ''c'') = Inr ''0'' \<longrightarrow> result_of (channels w m p) = Inr 0)"
proof -
  have "py_int ''0'' = Some 0" by (simp add: py_defs)
  with assms show ?thesis
    by (simp add: bitdepth_result num_samples_result bitrate_result channels_result
        bitrate_value_def)
qed

theorem unavailable_zero_witness:
  "result_of (bitdepth demo_world demo_module ''a.wav'') = Inr None"
  using unavailable_zero [of demo_world "''a.wav''" demo_module]
  by (simp add: soxi_result_Inr SOXI_ARGS_def soxi_argv_def demo_defs info_defs py_defs byte_def)

text \<open>
  C27. A duration of zero is unavailable: when the answer reads as the float \<open>x\<close>,
  \<open>duration\<close> returns \<open>None\<close> if \<open>x\<close> equals \<open>0.0\<close> and \<open>x\<close> if not.
\<close>

theorem duration_zero_unavailable:
  assumes "path_exists w (path_str p)"
    and "result_of (soxi w p ''D'') = Inr out" and "py_float out = Some x"
  shows "result_of (duration w m p) = Inr (if pf_eq x (Finite 0) then None else Some x)"
  using assms by (simp add: duration_result)

theorem duration_zero_unavailable_witness:
  "result_of (duration demo_world demo_module ''a.wav'') = Inr None"
  using duration_zero_unavailable [of demo_world "''a.wav''" "''0.0''" "Finite 0" demo_module]
  by (simp add: soxi_result_Inr SOXI_ARGS_def soxi_argv_def demo_defs info_defs py_defs
      Let_def byte_def)

text \<open>
  C28. Lines without exactly one colon are ignored: the loop of \<open>_parse_stat\<close> over all
  lines builds the dictionary it builds over the lines with one colon.
\<close>

theorem parse_stat_drops_other_lines:
  "foldl parse_stat_line d lines =
     foldl parse_stat_line d (filter (\<lambda>l. count_list l (CHR '':'') = 1) lines)"
  by (induction lines arbitrary: d) (simp_all add: parse_stat_line_other)

text \<open>
  C29. Keys are kept verbatim. The report of one line \<open>k:v\<close> parses to one entry: the key
  is \<open>k\<close> as printed, with any space before the colon; the value is the float read
  from \<open>v\<close> without its spaces, or \<open>None\<close>.
\<close>

theorem parse_stat_key_verbatim:
  assumes "CHR '':'' \<notin> set k" and "CHR '':'' \<notin> set v" and "CHR 0x0A \<notin> set (k @ v)"
  shows "parse_stat (Some (k @ CHR '':'' # v)) = Inr [(k, py_float (py_strip '' '' v))]"
  using assms by (simp add: parse_stat_def py_split_no_sep parse_stat_line_kv)

theorem parse_stat_key_verbatim_witness:
  "parse_stat (Some (''Mean    norm         '' @ CHR '':'' # ''      0.164103'')) =
     Inr [(''Mean    norm         '', Some (Finite 0.164103))]"
  using parse_stat_key_verbatim [of "''Mean    norm         ''" "''      0.164103''"]
  by (simp add: py_defs Let_def)

text \<open>
  C30. One reader, one query. For a file that exists, each of the nine readers launches
  exactly one process: \<open>sox --i\<close> with its own code and the path, whatever the answer
  is.
\<close>

theorem reader_spawns_one_process:
  assumes "path_exists w (path_str p)"
  shows "filter is_spawn (events_of (channels w m p)) = [Spawn (soxi_argv p ''c'') None] \<and>
         filter is_spawn (events_of (sample_rate w m p)) = [Spawn (soxi_argv p ''r'') None] \<and>
         filter is_spawn (events_of (bitdepth w m p)) = [Spawn (soxi_argv p ''b'') None] \<and>
         filter is_spawn (events_of (num_samples w m p)) = [Spawn (soxi_argv p ''s'') None] \<and>
         filter is_spawn (events_of (duration w m p)) = [Spawn (soxi_argv p ''D'') None] \<and>
         filter is_spawn (events_of (comments w m p)) = [Spawn (soxi_argv p ''a'') None] \<and>
         filter is_spawn (events_of (encoding w m p)) = [Spawn (soxi_argv p ''e'') None] \<and>
         filter is_spawn (events_of (file_type w m p)) = [Spawn (soxi_argv p ''t'') None] \<and>
         filter is_spawn (events_of (bitrate w m p)) = [Spawn (soxi_argv p ''B'') None]"
  using assms by (simp add: reader_spawns)

theorem reader_spawns_one_process_witness:
  "filter is_spawn (events_of (channels demo_world demo_module ''a.wav'')) =
     [Spawn [''sox'', ''--i'', ''-c'', ''a.wav''] None] \<and>
   filter is_spawn (events_of (bitrate demo_world demo_module ''a.wav'')) =
     [Spawn [''sox'', ''--i'', ''-B'', ''a.wav''] None]"
  using reader_spawns_one_process [of demo_world "''a.wav''" demo_module]
  by (simp add: soxi_argv_def demo_defs info_defs py_defs)

text \<open>
  C31. The extension of a file name. For a path that ends in \<open>stem.ext\<close>, with a stem and
  an extension that are not empty and no dot in the extension, \<open>file_extension\<close> is the
  extension in lower case.
\<close>

theorem file_extension_of_name:
  assumes "dir = [] \<or> last dir = CHR ''/''"
    and "stem \<noteq> []" and "ext \<noteq> []"
    and "CHR ''/'' \<notin> set (stem @ ext)" and "CHR ''.'' \<notin> set ext"
  shows "file_extension (dir @ stem @ CHR ''.'' # ext) = py_lower ext"
proof -
  from assms(2) have "stem @ CHR ''.'' # ext \<noteq> ''.''"
    by (cases stem) auto
  with assms have "path_name (dir @ stem @ CHR ''.'' # ext) = stem @ CHR ''.'' # ext"
    by (intro path_name_append) auto
  with assms show ?thesis
    by (simp add: file_extension_def path_suffix_def rfind_last_occurrence slice_from_def)
qed

theorem file_extension_of_name_witness:
  "file_extension (''/tmp/'' @ ''Song.v2'' @ CHR ''.'' # ''WAV'') = ''wav''"
  using file_extension_of_name [of "''/tmp/''" "''Song.v2''" "''WAV''"]
  by (simp add: py_defs)

text \<open>
  C36. Print, then parse. A report printed from entries with distinct labels, none with a
  colon or a newline, parses to those entries in their order.
\<close>

theorem parse_stat_print_round_trip:
  assumes "distinct (map fst kvs)"
    and "\<forall>k \<in> fst ` set kvs. CHR '':'' \<notin> set k \<and> CHR 0x0A \<notin> set k"
  shows "parse_stat (Some (print_stat kvs)) =
           Inr (map (\<lambda>(k, n). (k, Some (Finite (real n)))) kvs)"
proof (cases "kvs = []")
  case True
  then show ?thesis by (simp add: parse_stat_def print_stat_def parse_stat_line_def)
next
  case False
  from assms(2) have "\<forall>l \<in> set (map print_stat_line kvs). CHR 0x0A \<notin> set l"
    by (auto simp: printed_line_no_newline)
  with False have "py_split (CHR 0x0A) (print_stat kvs) = map print_stat_line kvs"
    unfolding print_stat_def by (intro py_split_join) auto
  moreover from assms have
    "foldl parse_stat_line [] (map print_stat_line kvs) =
       [] @ map (\<lambda>(k, n). (k, Some (Finite (real n)))) kvs"
    by (intro foldl_parse_printed) auto
  ultimately show ?thesis by (simp add: parse_stat_def)
qed

theorem parse_stat_print_round_trip_witness:
  "parse_stat (Some (print_stat [(''Samples read'', 88200), (''Length'', 2)])) =
     Inr [(''Samples read'', Some (Finite 88200)), (''Length'', Some (Finite 2))]"
  using parse_stat_print_round_trip [of "[(''Samples read'', 88200), (''Length'', 2)]"]
  by simp

text \<open>
  C37. The readers invert the printing of numbers. When \<open>soxi\<close> answers the decimal numeral
  of \<open>n\<close>, \<open>channels\<close> returns \<open>n\<close>, \<open>sample_rate\<close> the float \<open>n\<close>, and \<open>bitdepth\<close> and
  \<open>num_samples\<close> return \<open>n\<close>, or \<open>None\<close> when \<open>n\<close> is zero.
\<close>

theorem readers_read_numerals:
  assumes "path_exists w (path_str p)"
  shows "(result_of (soxi w p ''c'') = Inr (show_nat n) \<longrightarrow>
            result_of (channels w m p) = Inr (int n)) \<and>
         (result_of (soxi w p ''r'') = Inr (show_nat n) \<longrightarrow>
            result_of (sample_rate w m p) = Inr (Finite (real n))) \<and>
         (result_of (soxi w p ''b'') = Inr (show_nat n) \<longrightarrow>
            result_of (bitdepth w m p) = Inr (if n = 0 then None else Some (int n))) \<and>
         (result_of (soxi w p ''s'') = Inr (show_nat n) \<longrightarrow>
            result_of (num_samples w m p) = Inr (if n = 0 then None else Some (int n)))"
proof -
  have "show_nat n = ''0'' \<longleftrightarrow> n = 0"
    using py_int_show_nat [of n] py_int_show_nat [of 0]
    by (auto simp: show_nat.simps [of 0] digit_chars_def)
  with assms show ?thesis
    by (simp add: channels_result sample_rate_result bitdepth_result num_samples_result
        py_int_show_nat py_float_show_nat)
qed

theorem readers_read_numerals_witness:
  "result_of (channels demo_world demo_module ''a.wav'') = Inr 2 \<and>
   result_of (sample_rate demo_world demo_module ''a.wav'') = Inr (Finite 44100)"
  using readers_read_numerals [of demo_world "''a.wav''" 2 demo_module]
    readers_read_numerals [of demo_world "''a.wav''" 44100 demo_module]
  by (simp add: soxi_result_Inr SOXI_ARGS_def soxi_argv_def demo_defs info_defs py_defs
      show_nat.simps byte_def)

end
