(* ===== verification/Sox_Session.thy ===== *)
theory Sox_Session
  imports File_Info
begin

text \<open>
  The life of the package in one process: it is imported, which sets the module
  constants \<open>NO_SOX\<close> and \<open>VALID_FORMATS\<close> (\<open>src/sox/__init__.py\<close>, \<open>core.py\<close> line 150),
  and then its functions are called, which read the constants and never assign them. A
  session is the constants, if the import has succeeded, and the events so far. Its steps
  are an \<open>inductive\<close> relation with one rule per kind of step, and a step function that
  runs a list of operations. The invariants of the reachable sessions: the constants are
  those the import computes in this world and do not change; without the tool there is
  no format; every process launched is \<open>sox\<close> or \<open>play\<close>, or the shell with the fixed
  command of the import probe.
\<close>

section \<open>Calls and sessions\<close>

text \<open>The API surface: one constructor per public function, with its arguments.\<close>

datatype call =
    Call_sox "string list" src_array bool
  | Call_play "string list"
  | Call_soxi string string
  | Call_validate_input_file string
  | Call_validate_input_file_list filepath_list
  | Call_validate_output_file string
  | Call_bitdepth string
  | Call_bitrate string
  | Call_channels string
  | Call_comments string
  | Call_duration string
  | Call_encoding string
  | Call_file_type string
  | Call_num_samples string
  | Call_sample_rate string
  | Call_stat string
  | Call_silent string pyfloat
  | Call_info string

text \<open>What a caller sees of a call besides its value: the exception, and the events.\<close>

definition observe :: "'a sox_io \<Rightarrow> exn option \<times> msg event list" where
  "observe m = (case result_of m of Inl e \<Rightarrow> Some e | Inr x \<Rightarrow> None, events_of m)"

fun run_call :: "world \<Rightarrow> sox_module \<Rightarrow> call \<Rightarrow> exn option \<times> msg event list" where
  "run_call w m (Call_sox args src d) = observe (sox w args src d)"
| "run_call w m (Call_play args) = observe (play w args)"
| "run_call w m (Call_soxi p a) = observe (soxi w p a)"
| "run_call w m (Call_validate_input_file p) = observe (validate_input_file w m p)"
| "run_call w m (Call_validate_input_file_list ps) = observe (validate_input_file_list w m ps)"
| "run_call w m (Call_validate_output_file p) = observe (validate_output_file w m p)"
| "run_call w m (Call_bitdepth p) = observe (bitdepth w m p)"
| "run_call w m (Call_bitrate p) = observe (bitrate w m p)"
| "run_call w m (Call_channels p) = observe (channels w m p)"
| "run_call w m (Call_comments p) = observe (comments w m p)"
| "run_call w m (Call_duration p) = observe (duration w m p)"
| "run_call w m (Call_encoding p) = observe (encoding w m p)"
| "run_call w m (Call_file_type p) = observe (file_type w m p)"
| "run_call w m (Call_num_samples p) = observe (num_samples w m p)"
| "run_call w m (Call_sample_rate p) = observe (sample_rate w m p)"
| "run_call w m (Call_stat p) = observe (stat w m p)"
| "run_call w m (Call_silent p t) = observe (silent w m p t)"
| "run_call w m (Call_info p) = observe (info w m p)"

record session =
  constants :: "sox_module option"
  history :: "msg event list"

definition fresh :: session where
  "fresh = \<lparr>constants = None, history = []\<rparr>"

text \<open>
  The steps. An import that raises leaves the package unloaded; a call needs the package
  loaded, and leaves the constants as they are.
\<close>

inductive step :: "world \<Rightarrow> session \<Rightarrow> session \<Rightarrow> bool" for w where
  import_ok:
    "constants s = None \<Longrightarrow> import_sox w = (Inr m, evs) \<Longrightarrow>
     step w s \<lparr>constants = Some m, history = history s @ evs\<rparr>"
| import_failed:
    "constants s = None \<Longrightarrow> import_sox w = (Inl e, evs) \<Longrightarrow>
     step w s (s\<lparr>history := history s @ evs\<rparr>)"
| call:
    "constants s = Some m \<Longrightarrow> run_call w m c = (r, evs) \<Longrightarrow>
     step w s (s\<lparr>history := history s @ evs\<rparr>)"

inductive reachable :: "world \<Rightarrow> session \<Rightarrow> bool" for w where
  init: "reachable w fresh"
| after: "reachable w s \<Longrightarrow> step w s s' \<Longrightarrow> reachable w s'"

text \<open>
  The same as a function: \<open>import sox\<close> where the package is loaded does nothing, as the
  interpreter keeps loaded modules; a call where it is not loaded cannot be written.
\<close>

datatype operation = Import | Call call

fun session_step :: "world \<Rightarrow> session \<Rightarrow> operation \<Rightarrow> session" where
  "session_step w s Import =
     (case constants s of
        Some m \<Rightarrow> s
      | None \<Rightarrow>
          (case result_of (import_sox w) of
             Inr m \<Rightarrow> \<lparr>constants = Some m, history = history s @ events_of (import_sox w)\<rparr>
           | Inl e \<Rightarrow> s\<lparr>history := history s @ events_of (import_sox w)\<rparr>))"
| "session_step w s (Call c) =
     (case constants s of
        None \<Rightarrow> s
      | Some m \<Rightarrow> s\<lparr>history := history s @ snd (run_call w m c)\<rparr>)"

definition session_run :: "world \<Rightarrow> operation list \<Rightarrow> session" where
  "session_run w ops = foldl (session_step w) fresh ops"

text \<open>
  The programs a session may launch: the two tools by name, and the shell with the one
  command of the import probe.
\<close>

definition spawn_ok :: "msg event \<Rightarrow> bool" where
  "spawn_ok ev =
     (case ev of
        Spawn argv stdin \<Rightarrow>
          argv = [''/bin/sh'', ''-c'', ''sox -h''] \<or>
          (argv \<noteq> [] \<and> (hd argv = ''sox'' \<or> hd argv = ''play''))
      | Log l x \<Rightarrow> True)"

definition well_behaved :: "'a sox_io \<Rightarrow> bool" where
  "well_behaved m = list_all spawn_ok (events_of m)"

named_theorems wb "computations that launch the fixed programs only"

section \<open>Facts: the programs launched\<close>

lemma wb_pure [wb, simp]:
  "well_behaved (return_io x)" "well_behaved (raise_io e)" "well_behaved (lift_io r)"
  "well_behaved (log l y)"
  by (simp_all add: well_behaved_def spawn_ok_def)

lemma wb_bind [wb]:
  "well_behaved m \<Longrightarrow> (\<And>x. well_behaved (f x)) \<Longrightarrow> well_behaved (bind_io m f)"
  by (simp add: well_behaved_def events_of_bind split: sum.splits)

lemma wb_then [wb]: "well_behaved m \<Longrightarrow> well_behaved k \<Longrightarrow> well_behaved (then_io m k)"
  by (simp add: then_io_def wb_bind)

lemma wb_catch [wb]:
  "well_behaved m \<Longrightarrow> (\<And>e k. h e = Some k \<Longrightarrow> well_behaved k) \<Longrightarrow>
   well_behaved (catch_io m h)"
  by (auto simp: well_behaved_def events_of_catch split: sum.splits option.splits)

lemma wb_for [wb]: "(\<And>x. well_behaved (f x)) \<Longrightarrow> well_behaved (for_io xs f)"
  by (induction xs) (simp_all add: wb_then)

lemma wb_if [wb]: "well_behaved a \<Longrightarrow> well_behaved b \<Longrightarrow> well_behaved (if c then a else b)"
  by simp

lemma wb_launch [wb]:
  "spawn_ok (Spawn argv stdin) \<Longrightarrow> well_behaved (communicate w argv stdin)"
  "spawn_ok (Spawn argv None) \<Longrightarrow> well_behaved (wait w argv)"
  "spawn_ok (Spawn argv None) \<Longrightarrow> well_behaved (check_output w argv)"
  by (simp_all add: well_behaved_def)

lemma spawn_ok_program_args:
  "name = ''sox'' \<or> name = ''play'' \<Longrightarrow> program_args name args = Inr argv \<Longrightarrow>
   spawn_ok (Spawn argv stdin)"
  by (cases args) (auto simp: spawn_ok_def program_args_def split: if_splits)

lemma wb_sox [wb]: "well_behaved (sox w args src d)"
proof (cases "program_args ''sox'' args")
  case (Inl e)
  then show ?thesis by (simp add: sox_def)
next
  case (Inr argv)
  then have "spawn_ok (Spawn argv stdin)" for stdin
    by (intro spawn_ok_program_args) auto
  with Inr show ?thesis
    by (simp add: sox_runs well_behaved_def run_contract_def Let_def spawn_ok_def
        split: launch.splits)
qed

lemma wb_play [wb]: "well_behaved (play w args)"
proof (cases "program_args ''play'' args")
  case (Inl e)
  then show ?thesis by (simp add: play_def)
next
  case (Inr argv)
  then have "spawn_ok (Spawn argv stdin)" for stdin
    by (intro spawn_ok_program_args) auto
  with Inr show ?thesis
    by (simp add: play_runs well_behaved_def play_contract_def Let_def spawn_ok_def
        split: launch.splits)
qed

lemma wb_soxi [wb]: "well_behaved (soxi w p a)"
  by (cases "a \<in> set SOXI_ARGS")
     (simp_all add: soxi_runs soxi_invalid well_behaved_def soxi_contract_def Let_def
        soxi_argv_def spawn_ok_def split: launch.splits)

lemma wb_validate [wb]:
  "well_behaved (validate_input_file w m p)"
  "well_behaved (validate_input_file_list w m ps)"
  "well_behaved (validate_output_file w m q)"
proof -
  show v: "well_behaved (validate_input_file w m p)" for p
    by (simp add: validate_input_file_def warn_format_def wb_then)
  show "well_behaved (validate_input_file_list w m ps)"
    by (cases ps) (simp_all add: validate_input_file_list_def wb_for v)
  show "well_behaved (validate_output_file w m q)"
    by (simp add: validate_output_file_def Let_def warn_format_def wb_then)
qed

lemma wb_case_option [wb]:
  "well_behaved a \<Longrightarrow> (\<And>v. well_behaved (f v)) \<Longrightarrow>
   well_behaved (case x of None \<Rightarrow> a | Some v \<Rightarrow> f v)"
  by (cases x) simp_all

lemma wb_case_prod [wb]:
  "(\<And>a b. well_behaved (f a b)) \<Longrightarrow> well_behaved (case x of (a, b) \<Rightarrow> f a b)"
  by (cases x) simp

lemma wb_int_float [wb]: "well_behaved (int_io s)" "well_behaved (float_io s)"
  by (simp_all add: int_io_def float_io_def)

lemma wb_readers [wb]:
  "well_behaved (bitdepth w m p)" "well_behaved (bitrate w m p)"
  "well_behaved (channels w m p)" "well_behaved (comments w m p)"
  "well_behaved (duration w m p)" "well_behaved (encoding w m p)"
  "well_behaved (file_type w m p)" "well_behaved (num_samples w m p)"
  "well_behaved (sample_rate w m p)"
  unfolding bitdepth_def bitrate_def channels_def comments_def duration_def encoding_def
    file_type_def num_samples_def sample_rate_def Let_def
  by (intro wb)+

lemma wb_stat [wb]: "well_behaved (stat w m p)"
  unfolding stat_def stat_call_def by (intro wb)

lemma wb_silent [wb]: "well_behaved (silent w m p t)"
  unfolding silent_def by (intro wb)

lemma wb_info [wb]: "well_behaved (info w m p)"
  unfolding info_def by (intro wb)

lemma wb_case_list:
  "well_behaved a \<Longrightarrow> (\<And>y ys. well_behaved (f y ys)) \<Longrightarrow>
   well_behaved (case xs of [] \<Rightarrow> a | y # ys \<Rightarrow> f y ys)"
  by (cases xs) simp_all

lemma wb_import: "well_behaved (import_sox w)"
  unfolding import_sox_def probe_no_sox_def get_valid_formats_def Let_def
  by (intro wb wb_case_list) (simp_all add: spawn_ok_def)

lemma run_call_ok: "list_all spawn_ok (snd (run_call w m c))"
  by (cases c) (simp_all add: observe_def wb [unfolded well_behaved_def])

section \<open>Facts: steps and runs\<close>

inductive_cases step_elims: "step w s s'"

lemma step_history:
  "step w s s' \<Longrightarrow> \<exists>evs. history s' = history s @ evs \<and> list_all spawn_ok evs"
proof (induction rule: step.induct)
  case (import_ok s m evs)
  with wb_import [of w] show ?case by (simp add: well_behaved_def events_of_def)
next
  case (import_failed s e evs)
  with wb_import [of w] show ?case by (simp add: well_behaved_def events_of_def)
next
  case (call s m c r evs)
  with run_call_ok [of w m c] show ?case by simp
qed

lemma step_keeps: "step w s s' \<Longrightarrow> constants s = Some m \<Longrightarrow> constants s' = Some m"
  by (induction rule: step.induct) auto

lemma step_loads:
  "step w s s' \<Longrightarrow> constants s = None \<Longrightarrow> constants s' = Some m \<Longrightarrow>
   result_of (import_sox w) = Inr m"
  by (induction rule: step.induct) (auto simp: result_of_def)

lemma reachable_constants:
  "reachable w s \<Longrightarrow> constants s = Some m \<Longrightarrow> result_of (import_sox w) = Inr m"
proof (induction arbitrary: m rule: reachable.induct)
  case init
  then show ?case by (simp add: fresh_def)
next
  case (after s s')
  from after.hyps(2) after.prems after.IH show ?case
    by (cases "constants s") (auto dest: step_keeps step_loads)
qed

lemma reachable_history: "reachable w s \<Longrightarrow> list_all spawn_ok (history s)"
proof (induction rule: reachable.induct)
  case init
  then show ?case by (simp add: fresh_def)
next
  case (after s s')
  then show ?case by (auto dest: step_history)
qed

text \<open>The step function takes steps of the relation, or leaves the session as it is.\<close>

lemma session_step_step: "session_step w s op = s \<or> step w s (session_step w s op)"
proof (cases op)
  case Import
  show ?thesis
  proof (cases "constants s")
    case None
    then show ?thesis
      using import_ok [of s w] import_failed [of s w]
      by (cases "import_sox w"; cases "fst (import_sox w)")
         (auto simp: Import result_of_def events_of_def)
  next
    case (Some m)
    with Import show ?thesis by simp
  qed
next
  case (Call c)
  then show ?thesis
    using call [of s _ w c "fst (run_call w (the (constants s)) c)"]
    by (cases "constants s") auto
qed

lemma step_session_step: "step w s s' \<Longrightarrow> \<exists>op. s' = session_step w s op"
proof (induction rule: step.induct)
  case (import_ok s m evs)
  then have "session_step w s Import = \<lparr>constants = Some m, history = history s @ evs\<rparr>"
    by (simp add: result_of_def events_of_def)
  then show ?case by metis
next
  case (import_failed s e evs)
  then have "session_step w s Import = s\<lparr>history := history s @ evs\<rparr>"
    by (simp add: result_of_def events_of_def)
  then show ?case by metis
next
  case (call s m c r evs)
  then have "session_step w s (Call c) = s\<lparr>history := history s @ evs\<rparr>"
    by simp
  then show ?case by metis
qed

lemma session_run_snoc:
  "session_run w (ops @ [op]) = session_step w (session_run w ops) op"
  by (simp add: session_run_def)

lemma reachable_run: "reachable w (session_run w ops)"
proof (induction ops rule: rev_induct)
  case Nil
  then show ?case by (simp add: session_run_def init)
next
  case (snoc op ops)
  with session_step_step [of w "session_run w ops" op] show ?case
    by (auto simp: session_run_snoc intro: after)
qed

lemma reachable_iff_run: "reachable w s \<longleftrightarrow> (\<exists>ops. s = session_run w ops)"
proof
  show "reachable w s \<Longrightarrow> \<exists>ops. s = session_run w ops"
  proof (induction rule: reachable.induct)
    case init
    have "fresh = session_run w []" by (simp add: session_run_def)
    then show ?case by blast
  next
    case (after s s')
    then obtain ops op where "s = session_run w ops" "s' = session_step w s op"
      by (auto dest: step_session_step)
    then have "s' = session_run w (ops @ [op])" by (simp add: session_run_snoc)
    then show ?case by blast
  qed
qed (auto simp: reachable_run)

text \<open>The import in \<open>demo_world\<close>, evaluated once.\<close>

lemma import_sox_demo:
  "import_sox demo_world =
     (Inr demo_module,
      [Spawn [''/bin/sh'', ''-c'', ''sox -h''] None, Spawn [''sox'', ''-h''] None])"
proof -
  have "probe_no_sox demo_world = (Inr False, [Spawn [''/bin/sh'', ''-c'', ''sox -h''] None])"
    using probe_no_sox_runs
      [of demo_world "\<lparr>returncode = 0, stdout = ''AUDIO FILE FORMATS: wav mp3'', stderr = []\<rparr>"]
    by (simp add: demo_defs byte_def)
  moreover have "get_valid_formats demo_world False =
      (Inr [''wav'', ''mp3''], [Spawn [''sox'', ''-h''] None])"
    using get_valid_formats_help
      [of demo_world "\<lparr>returncode = 0, stdout = ''AUDIO FILE FORMATS: wav mp3'', stderr = []\<rparr>"]
    by (simp add: demo_defs formats_of_help_def formats_marker_def py_defs byte_def)
  ultimately show ?thesis
    by (simp add: import_sox_def demo_module_def io_defs)
qed

section \<open>Properties\<close>

text \<open>
  C11. The module constants are set once. In every session that can be reached, constants
  that are set are the ones the import computes in this world; if they say that the tool
  is missing, they list no format; and no step changes them.
\<close>

theorem session_constants_invariant:
  assumes "reachable w s" and "constants s = Some m"
  shows "result_of (import_sox w) = Inr m \<and> (NO_SOX m \<longrightarrow> VALID_FORMATS m = []) \<and>
         (\<forall>s'. step w s s' \<longrightarrow> constants s' = Some m)"
proof -
  from assms have "result_of (import_sox w) = Inr m" by (rule reachable_constants)
  with assms(2) show ?thesis by (auto dest: import_sox_formats_invariant step_keeps)
qed

theorem session_constants_invariant_witness:
  "constants (session_run demo_world [Import, Call (Call_play [''a.wav'']), Import]) =
     Some demo_module \<and>
   result_of (import_sox demo_world) = Inr demo_module"
  using session_constants_invariant
    [OF reachable_run, of demo_world "[Import, Call (Call_play [''a.wav'']), Import]" demo_module]
  by (simp add: session_run_def fresh_def import_sox_demo result_of_def)

text \<open>
  C12. A session launches the two tools and nothing else. Every process launched in a
  session that can be reached is \<open>sox\<close> or \<open>play\<close> by name, with an argument vector that
  is a list, or the shell with the fixed command \<open>sox -h\<close> of the import probe.
\<close>

theorem session_launches_fixed_programs:
  assumes "reachable w s" and "Spawn argv stdin \<in> set (history s)"
  shows "argv = [''/bin/sh'', ''-c'', ''sox -h''] \<or>
         (argv \<noteq> [] \<and> (hd argv = ''sox'' \<or> hd argv = ''play''))"
proof -
  from assms(1) have "list_all spawn_ok (history s)" by (rule reachable_history)
  with assms(2) have "spawn_ok (Spawn argv stdin)" by (simp add: list_all_iff)
  then show ?thesis by (simp add: spawn_ok_def)
qed

theorem session_launches_fixed_programs_witness:
  "Spawn [''play'', ''a.wav''] None \<in>
     set (history (session_run demo_world [Import, Call (Call_play [''a.wav''])])) \<and>
   hd [''play'', ''a.wav''] = ''play''"
  using session_launches_fixed_programs
    [OF reachable_run, of "[''play'', ''a.wav'']" None demo_world
        "[Import, Call (Call_play [''a.wav''])]"]
  by (simp add: session_run_def fresh_def import_sox_demo result_of_def events_of_def
      observe_def play_Cons play_contract_def py_defs)
     (simp add: demo_defs)

end
