(* ===== verification/Spec2Isabelle.thy ===== *)
theory Spec2Isabelle
  imports Sox_Session
begin

text \<open>
  \<^bold>\<open>A verification library for pysox's invocation and report-parsing layer.\<close>

  \<^bold>\<open>The program.\<close> The sources under \<open>src/sox\<close> drive the external executables \<open>sox\<close>
  and \<open>play\<close>. \<open>core.py\<close> holds the process runner \<open>sox\<close> (it normalises an argument
  list, launches the process, optionally feeds it raw samples, decodes what it prints,
  and turns a failed launch into a status), the playback runner \<open>play\<close>, the
  introspection call \<open>soxi\<close>, the format probe \<open>_get_valid_formats\<close> with the constant
  \<open>VALID_FORMATS\<close>, and the helpers \<open>is_number\<close> and \<open>all_equal\<close>. \<open>__init__.py\<close>
  probes for the tool at import and sets \<open>NO_SOX\<close>. \<open>file_info.py\<close> is built on
  \<open>core.py\<close>: validators of input and output paths, nine typed readers of one \<open>soxi\<close>
  answer each, the statistics report (\<open>stat\<close>, \<open>_stat_call\<close>, \<open>_parse_stat\<close>), and
  \<open>silent\<close> and \<open>info\<close> on top of those. \<open>log.py\<close> configures the logger; \<open>setup.py\<close>
  packages the library.

  \<^bold>\<open>The theories.\<close>
  \<^item> \<open>Sox_Prelude\<close>: the exceptions the sources raise or meet (\<open>exn\<close>), results
    (\<open>exn + 'a\<close>), and computations with effects: a result together with the ordered list
    of events (process launches and log records) the call caused. A \<open>raise\<close> is \<open>Inl\<close>,
    a \<open>try ... except\<close> is \<open>catch_io\<close>, a \<open>for\<close> loop over a list is \<open>for_io\<close>. The laws of
    these combinators carry the proofs of the components.
  \<^item> \<open>Py_String\<close>, \<open>Py_Number\<close>, \<open>Utf8\<close>, \<open>Np_Array\<close>: the parts of Python's library
    the sources call, as executable functions with the facts the components need:
    \<open>split\<close>, \<open>join\<close>, \<open>strip\<close>, \<open>lower\<close>, \<open>upper\<close>, \<open>replace\<close>, \<open>in\<close>, \<open>index\<close>, the
    slices at the last character; \<open>int(s)\<close> and \<open>float(s)\<close> by the grammar of the
    language reference, with \<open>inf\<close> and \<open>nan\<close> and underflow to zero; strict UTF-8
    decoding; \<open>ndarray.T\<close> and \<open>tobytes(order="F")\<close>.
  \<^item> \<open>Sox_World\<close>: the outside. A \<open>world\<close> answers what a launched process prints and
    how it exits, which paths exist and are writable, and how much a pipe holds. The
    primitive effects \<open>communicate\<close>, \<open>wait\<close>, \<open>check_output\<close> and \<open>log\<close> are defined
    over it. Two small worlds serve as concrete inputs.
  \<^item> \<open>Sox_Core\<close>: \<open>core.py\<close> and the import code of \<open>__init__.py\<close>. One definition per
    function, with the source's name: \<open>sox\<close>, \<open>play\<close>, \<open>soxi\<close>, \<open>get_valid_formats\<close>,
    \<open>is_number\<close>, \<open>all_equal\<close>; \<open>program_args\<close> is the normalisation both runners start
    with, \<open>probe_no_sox\<close> and \<open>import_sox\<close> the import, \<open>sox_module\<close> the two module
    constants. The contracts \<open>run_contract\<close>, \<open>soxi_contract\<close>, \<open>play_contract\<close> and
    \<open>formats_of_help\<close> say what each call promises as a table over the world's answers;
    the refinement theorems show that the functions are these tables.
  \<^item> \<open>File_Info\<close>: \<open>file_info.py\<close>. One definition per function, taking the world and
    the module constants it reads; \<open>parse_stat_line\<close> is the body of the loop of
    \<open>_parse_stat\<close>. \<open>report_map\<close> is the parser's specification, \<open>bitrate_value\<close> the bit
    rate as a function of the answered text, \<open>print_stat\<close> a printer the parser inverts.
  \<^item> \<open>Sox_Session\<close>: the life of the package in one process. A \<open>call\<close> is one public
    function with its arguments; a session is the module constants, once the import has
    set them, and the events so far; \<open>step\<close> is the relation of its steps (import, failed
    import, call), \<open>reachable\<close> the sessions that can be reached, \<open>session_run\<close> the same
    as a function over a list of operations. \<open>well_behaved\<close> says that a computation
    launches the fixed programs only, and is shown of every public function by the rules
    of the collection \<open>wb\<close>.
  \<^item> This theory: the properties that span the components.

  \<^bold>\<open>What is shown.\<close> For the runners: refinement of the contracts on every branch, the
  sentinel \<open>(1, None, None)\<close> for a failed launch and for an argument of the wrong
  type, the shape of the result triple, one process per call, the byte order of the
  samples, and the faults that escape (undecodable output, an empty argument list, a
  missing executable under \<open>soxi\<close>, a full pipe under \<open>play\<close>). For the import: what
  it sets, logs and launches without the tool and with it. For the readers: failure
  before any launch when the file is missing, exactly one query per reader, the reading
  of every answer including the unavailable ones, the bit-rate suffixes, numerals read
  back; for \<open>info\<close>: each answer under its key, and the eight launches in their
  order. For the report: the parser refines the report map, ignores lines without exactly
  one colon, keeps keys verbatim and inverts the printer; \<open>stat\<close> reads the error stream;
  \<open>silent\<close> is decided by the mean norm, from the process to the answer. For validation:
  when exactly each validator raises. For sessions, by rule induction over the reachable
  states: the constants are those of the import and never change, and only \<open>sox\<close>,
  \<open>play\<close> and the probe's shell command are ever launched. Theorems are stated for all worlds; each theorem
  with a hypothesis is applied once to a concrete world.

  \<^bold>\<open>Conventions and bounds.\<close>
  \<^item> A \<open>str\<close> is modelled by its UTF-8 bytes, so decoding valid bytes is the identity,
    and a character is one UTF-8 sequence. Case mapping and the white space and digits
    of \<open>int\<close> and \<open>float\<close> are those of ASCII: the tests of the sources on the program
    names and the bit-rate prefixes come out as in Python on all text, the extension
    of a file and the numbers read are Python's on ASCII text. The text of the import
    probe is decoded as UTF-8, the encoding the locale is taken to have.
  \<^item> Paths are \<open>str\<close> values; \<open>pathlib\<close> and \<open>os.path\<close> are the POSIX flavours. Where
    the sources apply \<open>str\<close> to an argument (the arguments of the runners, the output
    path), the model starts from the string.
  \<^item> A float is an exact real, an infinity or \<open>NaN\<close>. A numeral that underflows reads
    as zero, so \<open>float(s) == 0.0\<close> is decided as in Python; rounding to 53 bits and
    overflow to infinity are not modelled, so a value read or multiplied is Python's
    when it is a binary64 value, and a comparison with a threshold may differ from
    Python's within one rounding of the threshold. Comparison and product follow
    IEEE 754 on the special values.
  \<^item> A launch event records the call of \<open>Popen\<close>: it is there also when the
    executable is not found and the call raises.
  \<^item> A log record keeps the call and the values handed to it, not the rendered text,
    and not the elapsed time, which is read from the clock.
  \<^item> One call sees one world: the tool answers the same command line the same way, and
    the queries of the sources do not change the files.
  \<^item> All definitions are total and executable; no fuel is used, since no loop of the
    sources is unbounded: every loop runs over a finite list. The one call that may not
    return, \<open>wait\<close> on a process whose pipe is full, has the outcome \<open>Hang\<close>.
  \<^item> Arrays have one or two dimensions.

  \<^bold>\<open>Not modelled.\<close> The modules \<open>transform\<close>, \<open>combine\<close> and \<open>version\<close> that
  \<open>__init__.py\<close> imports are not among the sources, so \<open>import_sox\<close> ends before
  them. Values that are not data are outside the types of the model: an argument whose
  \<open>__str__\<close> or \<open>__float__\<close> runs code, and list elements that cannot be hashed
  (\<open>all_equal\<close>). \<open>log.py\<close> only configures the
  logging library and \<open>setup.py\<close> only packages; the exception classes have no behaviour
  beyond their names (\<open>SoxiError\<close> is a constructor of \<open>exn\<close>; \<open>SoxError\<close> is never
  raised). The rendering of log messages, wall-clock time, and signals are outside the
  model.

  \<^bold>\<open>Plan.\<close> Next: worlds that change between calls (files created by a run of the
  tool), so that sequences of calls can be related; facts on UTF-8 beyond ASCII
  (concatenation, prefixes); the readers on floats printed with a fraction; the path
  functions on directories and dot files; and bounds on the number of launches of a
  session.
\<close>

section \<open>Properties\<close>

text \<open>
  C15. From the process to the answer. When the file exists and the tool prints the one line
  \<open>Mean    norm:v\<close> on its error stream, where \<open>v\<close> without its spaces reads as \<open>x\<close>,
  \<open>silent\<close> returns whether \<open>x >= threshold\<close> fails. The theorem goes through the
  runner, the decoder, the parser and the float reader.
\<close>

theorem silent_end_to_end:
  assumes "path_exists w (path_str p)"
    and "run_process w (stat_argv p) None = Exited pr"
    and "utf8_valid (stdout pr)" and "utf8_valid (stderr pr)"
    and "stderr pr = mean_norm_key @ CHR '':'' # v @ [CHR 0x0A]"
    and "set v \<inter> {CHR '':'', CHR 0x0A, CHR 0x0D} = {}"
    and "py_float (py_strip '' '' v) = Some x"
  shows "result_of (silent w m p t) = Inr (\<not> pf_ge x t)"
proof -
  have key: "set mean_norm_key \<inter> {CHR '':'', CHR 0x0A, CHR 0x0D} = {}"
    by (simp add: mean_norm_key_def)
  with assms(6) have "py_replace (CHR 0x0D) [] (stderr pr) = stderr pr"
    by (intro py_replace_absent) (auto simp: assms(5))
  moreover from key assms(6)
  have "py_split (CHR 0x0A) (stderr pr) = [mean_norm_key @ CHR '':'' # v, []]"
    unfolding assms(5) using py_split_append_sep [of "CHR 0x0A" "mean_norm_key @ CHR '':'' # v" "[]"]
    by auto
  moreover from key assms(6)
  have "parse_stat_line [] (mean_norm_key @ CHR '':'' # v) =
          [(mean_norm_key, py_float (py_strip '' '' v))]"
    by (subst parse_stat_line_kv) auto
  moreover have "parse_stat_line d [] = d" for d
    by (simp add: parse_stat_line_def)
  ultimately have "result_of (stat w m p) = Inr [(mean_norm_key, Some x)]"
    using assms(1-4,7) by (simp add: stat_result parse_stat_def)
  with assms(1) show ?thesis by (simp add: silent_result)
qed

theorem silent_end_to_end_witness:
  "result_of (silent demo_world demo_module ''b.wav'' default_threshold) = Inr True"
  using silent_end_to_end
    [of demo_world "''b.wav''"
        "\<lparr>returncode = 0, stdout = [], stderr = ''Mean    norm:  0.0005'' @ [CHR 0x0A]\<rparr>"
        "''  0.0005''" "Finite 0.0005" demo_module default_threshold]
  by (simp add: stat_argv_def demo_defs info_defs py_defs Let_def byte_def)

text \<open>
  C32. The summary files each answer under its name. When the file exists, the tool answers
  the seven queries of \<open>info\<close> with the numerals of \<open>c\<close> channels, rate \<open>r\<close>, \<open>b\<close> bits, a
  bit rate of \<open>k\<close> with the \<open>i\<close>-th prefix, a duration that reads as \<open>d\<close>, \<open>n\<close> samples and
  the encoding \<open>e\<close>, and the report gives the mean norm \<open>mn\<close>, then \<open>info\<close> returns the
  dictionary with \<open>c\<close> under \<open>channels\<close>, \<open>r\<close> as a float under \<open>sample_rate\<close>, \<open>b\<close> and \<open>n\<close>
  under \<open>bitdepth\<close> and \<open>num_samples\<close> (\<open>None\<close> when zero), \<open>k\<close> times \<open>1000 ^ i\<close> under
  \<open>bitrate\<close>, \<open>d\<close> under \<open>duration\<close> (\<open>None\<close> when zero), \<open>e\<close> under \<open>encoding\<close>, and under
  \<open>silent\<close> whether \<open>mn\<close> is below the default threshold \<open>0.001\<close>. It has launched eight
  processes: the seven queries in the order of the dictionary, then the report.
\<close>

theorem info_collects_readers:
  assumes "path_exists w (path_str p)"
    and "result_of (soxi w p ''c'') = Inr (show_nat c)"
    and "result_of (soxi w p ''r'') = Inr (show_nat r)"
    and "result_of (soxi w p ''b'') = Inr (show_nat b)"
    and "result_of (soxi w p ''B'') = Inr (show_nat k @ [u])"
    and "py_index greek_prefixes (upper_char u) = Some i"
    and "result_of (soxi w p ''D'') = Inr dt" and "py_float dt = Some d"
    and "result_of (soxi w p ''s'') = Inr (show_nat n)"
    and "result_of (soxi w p ''e'') = Inr e"
    and "result_of (stat w m p) = Inr sd" and "map_of sd mean_norm_key = Some (Some mn)"
  shows "result_of (info w m p) =
           Inr [(''channels'', Int_value (int c)),
                (''sample_rate'', Float_value (Finite (real r))),
                (''bitdepth'', if b = 0 then None_value else Int_value (int b)),
                (''bitrate'', Float_value (Finite (real k * 1000 ^ i))),
                (''duration'', if pf_eq d (Finite 0) then None_value else Float_value d),
                (''num_samples'', if n = 0 then None_value else Int_value (int n)),
                (''encoding'', Str_value e),
                (''silent'', Bool_value (\<not> pf_ge mn (Finite 0.001)))] \<and>
         filter is_spawn (events_of (info w m p)) =
           map (\<lambda>code. Spawn (soxi_argv p code) None)
             [''c'', ''r'', ''b'', ''B'', ''D'', ''s'', ''e''] @ [Spawn (stat_argv p) None]"
proof -
  from assms(6) have u: "u \<noteq> CHR ''0''"
    by (auto simp: greek_prefixes_def upper_char_def ascii_lower_def ascii_upper_def)
  have c: "result_of (channels w m p) = Inr (int c)"
    and r: "result_of (sample_rate w m p) = Inr (Finite (real r))"
    and b: "result_of (bitdepth w m p) = Inr (if b = 0 then None else Some (int b))"
    and n: "result_of (num_samples w m p) = Inr (if n = 0 then None else Some (int n))"
    and e: "result_of (encoding w m p) = Inr e"
    and d: "result_of (duration w m p) = Inr (if pf_eq d (Finite 0) then None else Some d)"
    using assms
    by (simp_all add: channels_result sample_rate_result bitdepth_result num_samples_result
        text_reader_results duration_result py_int_show_nat py_float_show_nat
        show_nat_zero_iff)
  have br: "result_of (bitrate w m p) = Inr (Some (Finite (real k * 1000 ^ i)))"
    using assms(1,5,6) u
    by (simp add: bitrate_result bitrate_value_snoc prefix_is_ascii py_float_show_nat
        pf_times_def)
  have s: "result_of (silent w m p default_threshold) = Inr (\<not> pf_ge mn (Finite 0.001))"
    using assms(1,11,12) by (simp add: silent_result default_threshold_def)
  show ?thesis
    using info_returns [OF c r b br d n e s] assms(1)
    by (simp add: opt_value_def reader_spawns silent_spawns)
qed

theorem info_collects_readers_witness:
  "result_of (info demo_world demo_module ''a.wav'') =
     Inr [(''channels'', Int_value 2), (''sample_rate'', Float_value (Finite 44100)),
          (''bitdepth'', None_value), (''bitrate'', Float_value (Finite 128000)),
          (''duration'', None_value), (''num_samples'', Int_value 88200),
          (''encoding'', Str_value ''Signed Integer PCM''), (''silent'', Bool_value False)] \<and>
   filter is_spawn (events_of (info demo_world demo_module ''a.wav'')) =
     [Spawn [''sox'', ''--i'', ''-c'', ''a.wav''] None,
      Spawn [''sox'', ''--i'', ''-r'', ''a.wav''] None,
      Spawn [''sox'', ''--i'', ''-b'', ''a.wav''] None,
      Spawn [''sox'', ''--i'', ''-B'', ''a.wav''] None,
      Spawn [''sox'', ''--i'', ''-D'', ''a.wav''] None,
      Spawn [''sox'', ''--i'', ''-s'', ''a.wav''] None,
      Spawn [''sox'', ''--i'', ''-e'', ''a.wav''] None,
      Spawn [''sox'', ''a.wav'', ''-n'', ''stat''] None]"
  using info_collects_readers
    [where w = demo_world and m = demo_module and p = "''a.wav''" and c = 2 and r = 44100
       and b = 0 and k = 128 and u = "CHR ''k''" and i = 1 and dt = "''0.0''"
       and d = "Finite 0" and n = 88200 and e = "''Signed Integer PCM''"
       and sd = "[(mean_norm_key, Some (Finite 0.5))]" and mn = "Finite 0.5"]
  by (simp add: stat_result stat_argv_def soxi_result soxi_contract_result SOXI_ARGS_def
      soxi_argv_def demo_defs path_str_def path_parts_def path_root_def parse_stat_def
      parse_stat_line_def mean_norm_key_def greek_prefixes_def py_defs show_nat.simps
      Let_def byte_def)

end
